theory Spec2Isabelle
  imports Complex_Main
begin

section \<open>Decimals and instants\<close>

text \<open>
  The program computes with \<^verbatim>\<open>shopspring/decimal\<close> values: arbitrary-precision decimals whose
  \<^verbatim>\<open>Mul\<close>, \<^verbatim>\<open>Add\<close> and \<^verbatim>\<open>Neg\<close> are exact. A decimal is modelled by the rational number it
  denotes. \<^verbatim>\<open>Round(places)\<close> rounds half away from zero.
  An instant (\<^verbatim>\<open>time.Time\<close>) is the number of nanoseconds since the Unix epoch, in UTC.
\<close>

type_synonym decimal = rat
type_synonym time = int

definition Round :: "nat \<Rightarrow> decimal \<Rightarrow> decimal" where
  "Round places d =
     (if d < 0 then - (of_int \<lfloor>(- d) * 10 ^ places + 1 / 2\<rfloor> / 10 ^ places)
      else of_int \<lfloor>d * 10 ^ places + 1 / 2\<rfloor> / 10 ^ places)"

text \<open>\<^verbatim>\<open>utils/price.go\<close>: RoundINR, RoundQuantity.\<close>

definition RoundINR :: "decimal \<Rightarrow> decimal" where
  "RoundINR amount = Round 4 amount"

definition RoundQuantity :: "decimal \<Rightarrow> decimal" where
  "RoundQuantity quantity = Round 6 quantity"

definition nsPerHour :: int where
  "nsPerHour = 3600000000000"

definition nsPerDay :: int where
  "nsPerDay = 86400000000000"

text \<open>\<^verbatim>\<open>utils/time.go\<close>. A UTC calendar day is a block of \<open>nsPerDay\<close> nanoseconds.\<close>

definition StartOfDayUTC :: "time \<Rightarrow> time" where
  "StartOfDayUTC t = (t div nsPerDay) * nsPerDay"

definition EndOfDayUTC :: "time \<Rightarrow> time" where
  "EndOfDayUTC t = (t div nsPerDay) * nsPerDay + (nsPerDay - 1)"

definition GetYesterday :: "time \<Rightarrow> time" where
  "GetYesterday now = StartOfDayUTC (now - nsPerDay)"

text \<open>The loop of GetPastDates: \<^verbatim>\<open>for !current.After(end) { append; current = current.AddDate(0, 0, 1) }\<close>.\<close>

function GetPastDates_loop :: "time \<Rightarrow> time \<Rightarrow> time list \<Rightarrow> time list" where
  "GetPastDates_loop current end dates =
     (if \<not> current > end
      then GetPastDates_loop (current + nsPerDay) end (dates @ [current])
      else dates)"
  by pat_completeness auto
termination
  by (relation "measure (\<lambda>(current, end, dates). nat (end + 1 - current))")
     (auto simp: nsPerDay_def)

definition GetPastDates :: "time \<Rightarrow> time \<Rightarrow> time list" where
  "GetPastDates startDate endDate =
     GetPastDates_loop (StartOfDayUTC startDate) (StartOfDayUTC endDate) []"

section \<open>Fees and validation\<close>

text \<open>
  \<^verbatim>\<open>utils/price.go\<close>, CalculateFees: the total is summed from the unrounded components and
  then all four values are rounded to 4 places.
\<close>

definition CalculateFees :: "decimal \<Rightarrow> decimal \<Rightarrow> decimal \<times> decimal \<times> decimal \<times> decimal" where
  "CalculateFees pricePerShare quantity =
     (let totalValue = pricePerShare * quantity;
          brokerage0 = totalValue * (3 / 10000);
          maxBrokerage = 20;
          brokerage = (if brokerage0 > maxBrokerage then maxBrokerage else brokerage0);
          stt = totalValue * (1 / 1000);
          gst = brokerage * (18 / 100);
          total = brokerage + stt + gst
      in (Round 4 brokerage, Round 4 stt, Round 4 gst, Round 4 total))"

definition fee_brokerage :: "decimal \<Rightarrow> decimal \<Rightarrow> decimal" where
  "fee_brokerage p q = fst (CalculateFees p q)"

definition fee_stt :: "decimal \<Rightarrow> decimal \<Rightarrow> decimal" where
  "fee_stt p q = fst (snd (CalculateFees p q))"

definition fee_gst :: "decimal \<Rightarrow> decimal \<Rightarrow> decimal" where
  "fee_gst p q = fst (snd (snd (CalculateFees p q)))"

definition fee_total :: "decimal \<Rightarrow> decimal \<Rightarrow> decimal" where
  "fee_total p q = snd (snd (snd (CalculateFees p q)))"

datatype error =
    InvalidStockSymbol
  | QuantityNotPositive
  | QuantityExceedsMax
  | DuplicateReward
  | DuplicateCheckFailed
  | GetStockPriceFailed
  | CreateRewardEventFailed
  | CreateLedgerEntriesFailed
  | CommitFailed
  | FetchPriceFailed
  | FetchHistoricalPriceFailed
  | SavePriceFailed
  | FetchHoldingsFailed
  | FetchFirstRewardFailed
  | FetchTodayRewardsFailed
  | FetchOriginalEntriesFailed
  | CreateReversalEntriesFailed

definition ValidateQuantity :: "decimal \<Rightarrow> error option" where
  "ValidateQuantity quantity =
     (if quantity \<le> 0 then Some QuantityNotPositive
      else if quantity > 10000 then Some QuantityExceedsMax
      else None)"

definition ValidateStockSymbol :: "string \<Rightarrow> error option" where
  "ValidateStockSymbol symbol =
     (if length symbol = 0 \<or> length symbol > 20 then Some InvalidStockSymbol else None)"

section \<open>Stored relations\<close>

datatype EntryType = EntryTypeStock | EntryTypeCash | EntryTypeFee

record RewardEvent =
  re_ID :: nat
  re_UserID :: int
  re_StockSymbol :: string
  re_Quantity :: decimal
  re_Timestamp :: time
  re_CreatedAt :: time
  re_UpdatedAt :: time
  re_DeletedAt :: "time option"

record LedgerEntry =
  le_ID :: nat
  le_RewardEventID :: nat
  le_EntryType :: EntryType
  le_StockSymbol :: "string option"
  le_Quantity :: decimal
  le_AmountINR :: decimal
  le_Timestamp :: time
  le_CreatedAt :: time

record PriceHistory =
  ph_ID :: nat
  ph_StockSymbol :: string
  ph_PriceINR :: decimal
  ph_Timestamp :: time
  ph_CreatedAt :: time

text \<open>
  The state the services work on: the three relations in insertion order, the serial
  counters of their primary keys, and the price generator's table of base prices with
  the number of random draws taken so far.
\<close>

record world =
  reward_events :: "RewardEvent list"
  ledger_entries :: "LedgerEntry list"
  price_history :: "PriceHistory list"
  next_reward_id :: nat
  next_ledger_id :: nat
  next_price_id :: nat
  basePrices :: "string \<rightharpoonup> decimal"
  rng_draws :: nat

text \<open>
  What the services cannot control: which statement the storage engine fails on (an
  error other than \<^verbatim>\<open>ErrRecordNotFound\<close>) and the generator's random variations
  (\<^verbatim>\<open>decimal.NewFromFloat(variation / 100)\<close> of the n-th draw).
\<close>

datatype db_op =
    QueryLatestPrice string
  | QueryPriceAt string time
  | InsertPrice string
  | QueryDuplicate
  | InsertReward
  | InsertEntries
  | CommitTx
  | QueryHoldings int
  | QueryHoldingsUpTo int time
  | QueryFirstReward int
  | QueryTodayRewards int
  | QueryEntries nat
  | InsertReversal nat

record env =
  fails :: "db_op \<Rightarrow> bool"
  variation :: "nat \<Rightarrow> decimal"

text \<open>
  \<^verbatim>\<open>ORDER BY ... LIMIT 1\<close> (gorm's \<^verbatim>\<open>First\<close>): the row that no other row precedes;
  \<open>before a b\<close> says that \<open>a\<close> sorts strictly before \<open>b\<close>.
\<close>

fun first_by :: "('a \<Rightarrow> 'a \<Rightarrow> bool) \<Rightarrow> 'a list \<Rightarrow> 'a option" where
  "first_by before [] = None"
| "first_by before (x # xs) =
     (case first_by before xs of
        None \<Rightarrow> Some x
      | Some y \<Rightarrow> if before y x then Some y else Some x)"

section \<open>Price service\<close>

text \<open>\<^verbatim>\<open>Order("timestamp DESC").First\<close>: latest timestamp, then lowest primary key.\<close>

definition price_before :: "PriceHistory \<Rightarrow> PriceHistory \<Rightarrow> bool" where
  "price_before a b \<longleftrightarrow>
     ph_Timestamp a > ph_Timestamp b \<or> (ph_Timestamp a = ph_Timestamp b \<and> ph_ID a < ph_ID b)"

definition latest_price :: "world \<Rightarrow> string \<Rightarrow> PriceHistory option" where
  "latest_price w symbol =
     first_by price_before (filter (\<lambda>p. ph_StockSymbol p = symbol) (price_history w))"

definition latest_price_at :: "world \<Rightarrow> string \<Rightarrow> time \<Rightarrow> PriceHistory option" where
  "latest_price_at w symbol timestamp =
     first_by price_before
       (filter (\<lambda>p. ph_StockSymbol p = symbol \<and> ph_Timestamp p \<le> timestamp) (price_history w))"

definition GeneratePrice :: "env \<Rightarrow> world \<Rightarrow> string \<Rightarrow> decimal \<times> world" where
  "GeneratePrice e w symbol =
     (let (basePrice, w1) =
            (case basePrices w symbol of
               Some b \<Rightarrow> (b, w)
             | None \<Rightarrow> (1000, w\<lparr>basePrices := (basePrices w)(symbol \<mapsto> 1000)\<rparr>));
          variationDecimal = variation e (rng_draws w1);
          newPrice = basePrice * (1 + variationDecimal)
      in (Round 4 newPrice, w1\<lparr>rng_draws := rng_draws w1 + 1\<rparr>))"

definition SavePrice :: "env \<Rightarrow> time \<Rightarrow> world \<Rightarrow> string \<Rightarrow> decimal \<Rightarrow> error option \<times> world" where
  "SavePrice e now w symbol price =
     (let priceHistory =
            \<lparr>ph_ID = next_price_id w, ph_StockSymbol = symbol, ph_PriceINR = RoundINR price,
             ph_Timestamp = now, ph_CreatedAt = now\<rparr>
      in if fails e (InsertPrice symbol) then (Some SavePriceFailed, w)
         else (None, w\<lparr>price_history := price_history w @ [priceHistory],
                        next_price_id := next_price_id w + 1,
                        basePrices := (basePrices w)(symbol \<mapsto> price)\<rparr>))"

text \<open>The two places of GetCurrentPrice that generate a price, save it and ignore a failed save.\<close>

definition generate_and_save :: "env \<Rightarrow> time \<Rightarrow> world \<Rightarrow> string \<Rightarrow> (error + decimal) \<times> world" where
  "generate_and_save e now w symbol =
     (let (price, w1) = GeneratePrice e w symbol;
          (err, w2) = SavePrice e now w1 symbol price
      in (Inr price, w2))"

definition GetCurrentPrice :: "env \<Rightarrow> time \<Rightarrow> world \<Rightarrow> string \<Rightarrow> (error + decimal) \<times> world" where
  "GetCurrentPrice e now w symbol =
     (if fails e (QueryLatestPrice symbol) then (Inl FetchPriceFailed, w)
      else case latest_price w symbol of
             None \<Rightarrow> generate_and_save e now w symbol
           | Some priceHistory \<Rightarrow>
               if now - ph_Timestamp priceHistory > 2 * nsPerHour
               then generate_and_save e now w symbol
               else (Inr (ph_PriceINR priceHistory), w))"

definition GetPriceAtTime ::
  "env \<Rightarrow> time \<Rightarrow> world \<Rightarrow> string \<Rightarrow> time \<Rightarrow> (error + decimal) \<times> world" where
  "GetPriceAtTime e now w symbol timestamp =
     (if fails e (QueryPriceAt symbol timestamp) then (Inl FetchHistoricalPriceFailed, w)
      else case latest_price_at w symbol timestamp of
             None \<Rightarrow> GetCurrentPrice e now w symbol
           | Some priceHistory \<Rightarrow> (Inr (ph_PriceINR priceHistory), w))"

section \<open>Ledger service\<close>

text \<open>
  gorm's \<^verbatim>\<open>Create\<close> of a slice of entries: every row gets the next primary key and its
  creation time, and the rows are appended.
\<close>

fun assign_ids :: "nat \<Rightarrow> time \<Rightarrow> LedgerEntry list \<Rightarrow> LedgerEntry list" where
  "assign_ids n now [] = []"
| "assign_ids n now (entry # entries) =
     entry\<lparr>le_ID := n, le_CreatedAt := now\<rparr> # assign_ids (Suc n) now entries"

definition create_entries :: "time \<Rightarrow> world \<Rightarrow> LedgerEntry list \<Rightarrow> world" where
  "create_entries now w entries =
     w\<lparr>ledger_entries := ledger_entries w @ assign_ids (next_ledger_id w) now entries,
       next_ledger_id := next_ledger_id w + length entries\<rparr>"

text \<open>
  The rows of \<^verbatim>\<open>ledger_entries le JOIN reward_events re ON le.reward_event_id = re.id\<close>
  with \<^verbatim>\<open>le.entry_type = 'STOCK' AND le.stock_symbol IS NOT NULL\<close> and a condition on
  \<open>re\<close>, as (symbol, quantity) pairs.
\<close>

definition stock_rows :: "(RewardEvent \<Rightarrow> bool) \<Rightarrow> RewardEvent list \<Rightarrow> LedgerEntry list \<Rightarrow> (string \<times> decimal) list" where
  "stock_rows cond res les =
     concat (map (\<lambda>le.
        case le_StockSymbol le of
          None \<Rightarrow> []
        | Some symbol \<Rightarrow>
            if le_EntryType le = EntryTypeStock
            then map (\<lambda>re. (symbol, le_Quantity le))
                   (filter (\<lambda>re. re_ID re = le_RewardEventID le \<and> cond re) res)
            else []) les)"

text \<open>\<^verbatim>\<open>GROUP BY le.stock_symbol HAVING SUM(le.quantity) > 0\<close>.\<close>

definition total_qty :: "(string \<times> decimal) list \<Rightarrow> string \<Rightarrow> decimal" where
  "total_qty rows symbol = sum_list (map snd (filter (\<lambda>r. fst r = symbol) rows))"

definition group_having :: "(string \<times> decimal) list \<Rightarrow> (string \<times> decimal) list" where
  "group_having rows =
     filter (\<lambda>(symbol, total). total > 0)
       (map (\<lambda>symbol. (symbol, total_qty rows symbol)) (remdups (map fst rows)))"

definition holdings_of :: "world \<Rightarrow> int \<Rightarrow> (string \<times> decimal) list" where
  "holdings_of w userID =
     group_having (stock_rows (\<lambda>re. re_UserID re = userID \<and> re_DeletedAt re = None)
                     (reward_events w) (ledger_entries w))"

definition holdings_up_to :: "world \<Rightarrow> int \<Rightarrow> time \<Rightarrow> (string \<times> decimal) list" where
  "holdings_up_to w userID endDate =
     group_having (stock_rows (\<lambda>re. re_UserID re = userID \<and> re_DeletedAt re = None
                                     \<and> re_Timestamp re \<le> endDate)
                     (reward_events w) (ledger_entries w))"

text \<open>
  The result is a Go map from symbol to quantity; it is kept as the list of the query's
  rows (one per symbol). The callers range over the map, in an order that Go leaves
  unspecified; their loops below walk the list in order, and what is proved about them is
  stated on sets and sums, which do not depend on the order.
\<close>

definition GetUserStockHoldings :: "env \<Rightarrow> world \<Rightarrow> int \<Rightarrow> error + (string \<times> decimal) list" where
  "GetUserStockHoldings e w userID =
     (if fails e (QueryHoldings userID) then Inl FetchHoldingsFailed
      else Inr (holdings_of w userID))"

definition GetUserStockHoldingsUpToDate ::
  "env \<Rightarrow> world \<Rightarrow> int \<Rightarrow> time \<Rightarrow> error + (string \<times> decimal) list" where
  "GetUserStockHoldingsUpToDate e w userID endDate =
     (if fails e (QueryHoldingsUpTo userID endDate) then Inl FetchHoldingsFailed
      else Inr (holdings_up_to w userID endDate))"

text \<open>CreateReversalEntries: every entry found for the reward is negated into a new row.\<close>

definition reversal_of :: "time \<Rightarrow> LedgerEntry \<Rightarrow> LedgerEntry" where
  "reversal_of now entry =
     \<lparr>le_ID = 0, le_RewardEventID = le_RewardEventID entry, le_EntryType = le_EntryType entry,
      le_StockSymbol = le_StockSymbol entry, le_Quantity = - le_Quantity entry,
      le_AmountINR = - le_AmountINR entry, le_Timestamp = now, le_CreatedAt = 0\<rparr>"

fun reversal_loop :: "time \<Rightarrow> LedgerEntry list \<Rightarrow> LedgerEntry list \<Rightarrow> LedgerEntry list" where
  "reversal_loop now [] reversalEntries = reversalEntries"
| "reversal_loop now (entry # rest) reversalEntries =
     reversal_loop now rest (reversalEntries @ [reversal_of now entry])"

definition entries_of_reward :: "world \<Rightarrow> nat \<Rightarrow> LedgerEntry list" where
  "entries_of_reward w rewardID = filter (\<lambda>le. le_RewardEventID le = rewardID) (ledger_entries w)"

text \<open>gorm's \<^verbatim>\<open>Create\<close> refuses an empty slice (\<^verbatim>\<open>ErrEmptySlice\<close>).\<close>

definition CreateReversalEntries :: "env \<Rightarrow> time \<Rightarrow> world \<Rightarrow> RewardEvent \<Rightarrow> error option \<times> world" where
  "CreateReversalEntries e now w rewardEvent =
     (if fails e (QueryEntries (re_ID rewardEvent)) then (Some FetchOriginalEntriesFailed, w)
      else let originalEntries = entries_of_reward w (re_ID rewardEvent);
               reversalEntries = reversal_loop now originalEntries []
           in if reversalEntries = [] \<or> fails e (InsertReversal (re_ID rewardEvent))
              then (Some CreateReversalEntriesFailed, w)
              else (None, create_entries now w reversalEntries))"

section \<open>Reward service\<close>

text \<open>
  The duplicate check of CreateReward. \<^verbatim>\<open>RewardEvent\<close> has a \<^verbatim>\<open>gorm.DeletedAt\<close> field, so
  gorm restricts the query to live rows; \<^verbatim>\<open>First\<close> orders by primary key.
\<close>

definition same_reward :: "int \<Rightarrow> string \<Rightarrow> decimal \<Rightarrow> time \<Rightarrow> RewardEvent \<Rightarrow> bool" where
  "same_reward userID symbol quantity timestamp r \<longleftrightarrow>
     re_UserID r = userID \<and> re_StockSymbol r = symbol \<and> re_Quantity r = quantity \<and>
     re_Timestamp r = timestamp \<and> re_DeletedAt r = None"

definition find_duplicate :: "world \<Rightarrow> int \<Rightarrow> string \<Rightarrow> decimal \<Rightarrow> time \<Rightarrow> RewardEvent option" where
  "find_duplicate w userID symbol quantity timestamp =
     first_by (\<lambda>a b. re_ID a < re_ID b)
       (filter (same_reward userID symbol quantity timestamp) (reward_events w))"

definition createLedgerEntriesInTx ::
  "env \<Rightarrow> time \<Rightarrow> world \<Rightarrow> RewardEvent \<Rightarrow> decimal \<Rightarrow> error option \<times> world" where
  "createLedgerEntriesInTx e now tx rewardEvent pricePerShare =
     (let quantity = re_Quantity rewardEvent;
          symbol = re_StockSymbol rewardEvent;
          timestamp = re_Timestamp rewardEvent;
          totalValue = RoundINR (pricePerShare * quantity);
          (brokerage, stt, gst, totalFees) = CalculateFees pricePerShare quantity;
          entries =
            [\<lparr>le_ID = 0, le_RewardEventID = re_ID rewardEvent, le_EntryType = EntryTypeStock,
              le_StockSymbol = Some symbol, le_Quantity = quantity, le_AmountINR = totalValue,
              le_Timestamp = timestamp, le_CreatedAt = 0\<rparr>,
             \<lparr>le_ID = 0, le_RewardEventID = re_ID rewardEvent, le_EntryType = EntryTypeCash,
              le_StockSymbol = Some symbol, le_Quantity = 0, le_AmountINR = - totalValue,
              le_Timestamp = timestamp, le_CreatedAt = 0\<rparr>,
             \<lparr>le_ID = 0, le_RewardEventID = re_ID rewardEvent, le_EntryType = EntryTypeFee,
              le_StockSymbol = Some symbol, le_Quantity = 0, le_AmountINR = - totalFees,
              le_Timestamp = timestamp, le_CreatedAt = 0\<rparr>]
      in if fails e InsertEntries then (Some CreateLedgerEntriesFailed, tx)
         else (None, create_entries now tx entries))"

text \<open>
  CreateReward. The price lookup runs on the connection, before the transaction: what
  it saves stays when the transaction is rolled back. The insert of the reward also
  fails on the unique index \<^verbatim>\<open>idx_reward_dedup\<close> over the live rows. A rollback and a
  failed commit leave the state as it was before \<^verbatim>\<open>Begin\<close>.
\<close>

definition CreateReward ::
  "env \<Rightarrow> time \<Rightarrow> world \<Rightarrow> int \<Rightarrow> string \<Rightarrow> decimal \<Rightarrow> time \<Rightarrow> error option \<times> world" where
  "CreateReward e now w userID symbol quantity0 timestamp =
     (if ValidateStockSymbol symbol \<noteq> None then (ValidateStockSymbol symbol, w)
      else if ValidateQuantity quantity0 \<noteq> None then (ValidateQuantity quantity0, w)
      else
        let quantity = Round 6 quantity0 in
        if fails e QueryDuplicate then (Some DuplicateCheckFailed, w)
        else
          case find_duplicate w userID symbol quantity timestamp of
            Some existingReward \<Rightarrow> (Some DuplicateReward, w)
          | None \<Rightarrow>
              (case GetCurrentPrice e now w symbol of
                 (Inl err, w1) \<Rightarrow> (Some GetStockPriceFailed, w1)
               | (Inr pricePerShare, w1) \<Rightarrow>
                   let rewardEvent =
                         \<lparr>re_ID = next_reward_id w1, re_UserID = userID, re_StockSymbol = symbol,
                          re_Quantity = quantity, re_Timestamp = timestamp, re_CreatedAt = now,
                          re_UpdatedAt = now, re_DeletedAt = None\<rparr>
                   in
                   if fails e InsertReward
                      \<or> find_duplicate w1 userID symbol quantity timestamp \<noteq> None
                   then (Some CreateRewardEventFailed, w1)
                   else
                     let tx = w1\<lparr>reward_events := reward_events w1 @ [rewardEvent],
                                  next_reward_id := next_reward_id w1 + 1\<rparr>
                     in
                     (case createLedgerEntriesInTx e now tx rewardEvent pricePerShare of
                        (Some err, tx') \<Rightarrow> (Some CreateLedgerEntriesFailed, w1)
                      | (None, tx') \<Rightarrow>
                          if fails e CommitTx then (Some CommitFailed, w1) else (None, tx'))))"

text \<open>GetTodayRewards: today's live rewards of the user, latest first.\<close>

definition GetTodayRewards :: "env \<Rightarrow> time \<Rightarrow> world \<Rightarrow> int \<Rightarrow> error + RewardEvent list" where
  "GetTodayRewards e now w userID =
     (let startOfDay = StartOfDayUTC now;
          endOfDay = EndOfDayUTC now
      in if fails e (QueryTodayRewards userID) then Inl FetchTodayRewardsFailed
         else Inr (sort_key (\<lambda>r. - re_Timestamp r)
                (filter (\<lambda>r. re_UserID r = userID \<and> startOfDay \<le> re_Timestamp r
                              \<and> re_Timestamp r \<le> endOfDay \<and> re_DeletedAt r = None)
                   (reward_events w))))"

text \<open>\<^verbatim>\<open>Where("user_id = ?").Order("timestamp ASC").First\<close> of GetHistoricalINR.\<close>

definition reward_before :: "RewardEvent \<Rightarrow> RewardEvent \<Rightarrow> bool" where
  "reward_before a b \<longleftrightarrow>
     re_Timestamp a < re_Timestamp b \<or> (re_Timestamp a = re_Timestamp b \<and> re_ID a < re_ID b)"

definition first_reward :: "world \<Rightarrow> int \<Rightarrow> RewardEvent option" where
  "first_reward w userID =
     first_by reward_before
       (filter (\<lambda>r. re_UserID r = userID \<and> re_DeletedAt r = None) (reward_events w))"

text \<open>
  The inner loop of GetHistoricalINR over the day's holdings: a symbol whose price
  lookup fails is skipped.
\<close>

fun historical_value_loop ::
  "env \<Rightarrow> time \<Rightarrow> time \<Rightarrow> (string \<times> decimal) list \<Rightarrow> decimal \<Rightarrow> world \<Rightarrow> decimal \<times> world" where
  "historical_value_loop e now endOfDate [] totalValue w = (totalValue, w)"
| "historical_value_loop e now endOfDate ((symbol, qty) # rest) totalValue w =
     (case GetPriceAtTime e now w symbol endOfDate of
        (Inl err, w1) \<Rightarrow> historical_value_loop e now endOfDate rest totalValue w1
      | (Inr price, w1) \<Rightarrow>
          historical_value_loop e now endOfDate rest (totalValue + price * qty) w1)"

text \<open>
  The outer loop over the dates: a day whose holdings lookup fails is skipped. A row is
  (date, valueINR); the date is kept as the day's first instant (the source prints it
  as YYYY-MM-DD).
\<close>

fun historical_loop ::
  "env \<Rightarrow> time \<Rightarrow> int \<Rightarrow> time list \<Rightarrow> (time \<times> decimal) list \<Rightarrow> world
     \<Rightarrow> (time \<times> decimal) list \<times> world" where
  "historical_loop e now userID [] result w = (result, w)"
| "historical_loop e now userID (date # rest) result w =
     (let endOfDate = EndOfDayUTC date in
      case GetUserStockHoldingsUpToDate e w userID endOfDate of
        Inl err \<Rightarrow> historical_loop e now userID rest result w
      | Inr holdings \<Rightarrow>
          (case historical_value_loop e now endOfDate holdings 0 w of
             (totalValue, w1) \<Rightarrow>
               historical_loop e now userID rest (result @ [(date, RoundINR totalValue)]) w1))"

definition GetHistoricalINR ::
  "env \<Rightarrow> time \<Rightarrow> world \<Rightarrow> int \<Rightarrow> (error + (time \<times> decimal) list) \<times> world" where
  "GetHistoricalINR e now w userID =
     (let yesterday = GetYesterday now in
      if fails e (QueryFirstReward userID) then (Inl FetchFirstRewardFailed, w)
      else case first_reward w userID of
             None \<Rightarrow> (Inr [], w)
           | Some firstReward \<Rightarrow>
               (let startDate = StartOfDayUTC (re_Timestamp firstReward);
                    dates = GetPastDates startDate yesterday
                in case historical_loop e now userID dates [] w of
                     (result, w1) \<Rightarrow> (Inr result, w1)))"

text \<open>The grouping loop of GetStats.\<close>

fun group_by_stock :: "RewardEvent list \<Rightarrow> (string \<rightharpoonup> decimal) \<Rightarrow> (string \<rightharpoonup> decimal)" where
  "group_by_stock [] todayRewardsByStock = todayRewardsByStock"
| "group_by_stock (reward # rest) todayRewardsByStock =
     (case todayRewardsByStock (re_StockSymbol reward) of
        Some current \<Rightarrow>
          group_by_stock rest
            (todayRewardsByStock(re_StockSymbol reward \<mapsto> current + re_Quantity reward))
      | None \<Rightarrow>
          group_by_stock rest (todayRewardsByStock(re_StockSymbol reward \<mapsto> re_Quantity reward)))"

text \<open>The valuation loop of GetStats: a symbol whose price lookup fails is skipped.\<close>

fun stats_value_loop ::
  "env \<Rightarrow> time \<Rightarrow> (string \<times> decimal) list \<Rightarrow> decimal \<Rightarrow> world \<Rightarrow> decimal \<times> world" where
  "stats_value_loop e now [] totalValue w = (totalValue, w)"
| "stats_value_loop e now ((symbol, qty) # rest) totalValue w =
     (case GetCurrentPrice e now w symbol of
        (Inl err, w1) \<Rightarrow> stats_value_loop e now rest totalValue w1
      | (Inr price, w1) \<Rightarrow> stats_value_loop e now rest (totalValue + price * qty) w1)"

definition GetStats ::
  "env \<Rightarrow> time \<Rightarrow> world \<Rightarrow> int \<Rightarrow> (error + (string \<rightharpoonup> decimal) \<times> decimal) \<times> world" where
  "GetStats e now w userID =
     (case GetTodayRewards e now w userID of
        Inl err \<Rightarrow> (Inl err, w)
      | Inr todayRewards \<Rightarrow>
          (let todayRewardsByStock = group_by_stock todayRewards Map.empty in
           case GetUserStockHoldings e w userID of
             Inl err \<Rightarrow> (Inl FetchHoldingsFailed, w)
           | Inr holdings \<Rightarrow>
               (case stats_value_loop e now holdings 0 w of
                  (totalValue, w1) \<Rightarrow> (Inr (todayRewardsByStock, RoundINR totalValue), w1))))"

text \<open>
  The loop of GetPortfolio; an item is (symbol, quantity, currentPrice, currentValue).
  A symbol whose price lookup fails is skipped. The items come out in the order of the
  holdings list, which stands for the unspecified order of the map.
\<close>

fun portfolio_loop ::
  "env \<Rightarrow> time \<Rightarrow> (string \<times> decimal) list \<Rightarrow> (string \<times> decimal \<times> decimal \<times> decimal) list
     \<Rightarrow> decimal \<Rightarrow> world \<Rightarrow> ((string \<times> decimal \<times> decimal \<times> decimal) list \<times> decimal) \<times> world" where
  "portfolio_loop e now [] portfolioItems totalValue w = ((portfolioItems, totalValue), w)"
| "portfolio_loop e now ((symbol, qty) # rest) portfolioItems totalValue w =
     (case GetCurrentPrice e now w symbol of
        (Inl err, w1) \<Rightarrow> portfolio_loop e now rest portfolioItems totalValue w1
      | (Inr price, w1) \<Rightarrow>
          (let value = price * qty in
           portfolio_loop e now rest
             (portfolioItems @ [(symbol, qty, RoundINR price, RoundINR value)])
             (totalValue + value) w1))"

definition GetPortfolio ::
  "env \<Rightarrow> time \<Rightarrow> world \<Rightarrow> int
     \<Rightarrow> (error + (string \<times> decimal \<times> decimal \<times> decimal) list \<times> decimal) \<times> world" where
  "GetPortfolio e now w userID =
     (case GetUserStockHoldings e w userID of
        Inl err \<Rightarrow> (Inl FetchHoldingsFailed, w)
      | Inr holdings \<Rightarrow>
          (case portfolio_loop e now holdings [] 0 w of
             ((portfolioItems, totalValue), w1) \<Rightarrow>
               (Inr (portfolioItems, RoundINR totalValue), w1)))"

section \<open>Rounding and fees\<close>

lemma floor_rat_numeral [simp]:
  "\<lfloor>numeral a / (numeral b :: rat)\<rfloor> = numeral a div numeral b"
  using floor_divide_of_int_eq [of "numeral a" "numeral b", where ?'a = rat] by simp

lemma Round4_at_cap:
  assumes "20 \<le> x" and "x \<le> 20000001 / 1000000"
  shows "Round 4 x = 20"
proof -
  have "\<lfloor>x * 10 ^ 4 + 1 / 2\<rfloor> = 200000"
    using assms by (simp add: floor_eq_iff)
  with assms show ?thesis by (simp add: Round_def)
qed

lemma Round4_le_cap:
  assumes "x \<le> 20"
  shows "Round 4 x \<le> 20"
proof (cases "x < 0")
  case True
  define k where "k = \<lfloor>(- x) * 10 ^ 4 + 1 / 2\<rfloor>"
  from True have "0 \<le> k" unfolding k_def by simp
  then have "(0::rat) \<le> of_int k / 10 ^ 4" by simp
  moreover from True have "Round 4 x = - (of_int k / 10 ^ 4)"
    unfolding Round_def k_def by (simp only: if_True)
  ultimately show ?thesis by linarith
next
  case False
  have "\<lfloor>x * 10 ^ 4 + 1 / 2\<rfloor> \<le> 200000"
    using assms by (simp add: floor_le_iff)
  then have "(of_int \<lfloor>x * 10 ^ 4 + 1 / 2\<rfloor> :: rat) \<le> 200000"
    by (metis of_int_le_iff of_int_numeral)
  with False show ?thesis by (simp add: Round_def)
qed

text \<open>
  C9. The brokerage that CalculateFees returns never exceeds 20; for a total value
  \<open>p * q\<close> of at most 66666.67 it is 0.03% of the total value rounded to 4 places, and
  for a larger total value it is exactly 20.
\<close>

theorem brokerage_capped:
  "fee_brokerage p q \<le> 20 \<and>
   (p * q \<le> 6666667 / 100 \<longrightarrow> fee_brokerage p q = Round 4 (3 / 10000 * (p * q))) \<and>
   (p * q > 6666667 / 100 \<longrightarrow> fee_brokerage p q = 20)"
proof (intro conjI impI)
  show "fee_brokerage p q \<le> 20"
    by (simp add: fee_brokerage_def CalculateFees_def Let_def Round4_le_cap)
next
  assume le: "p * q \<le> 6666667 / 100"
  show "fee_brokerage p q = Round 4 (3 / 10000 * (p * q))"
  proof (cases "p * q * (3 / 10000) > 20")
    case True
    with le have "Round 4 (p * q * (3 / 10000)) = 20"
      by (intro Round4_at_cap) simp_all
    moreover have "Round 4 20 = 20" by (simp add: Round_def)
    ultimately show ?thesis using True
      by (simp add: fee_brokerage_def CalculateFees_def Let_def mult.commute)
  next
    case False
    then show ?thesis
      by (simp add: fee_brokerage_def CalculateFees_def Let_def mult.commute)
  qed
next
  assume "p * q > 6666667 / 100"
  then have "p * q * (3 / 10000) > 20" by simp
  moreover have "Round 4 20 = 20" by (simp add: Round_def)
  ultimately show "fee_brokerage p q = 20"
    by (simp add: fee_brokerage_def CalculateFees_def Let_def)
qed

text \<open>
  The bound at work: a total value of 66666.67 (price 6666667/100, quantity 1) lies
  above the point where 0.03% reaches 20, and the rounded brokerage is 20 either way;
  a total value of 6126.25 gives 1.8379.
\<close>

theorem brokerage_capped_witness:
  "fee_brokerage (6666667 / 100) 1 = Round 4 (3 / 10000 * (6666667 / 100 * 1)) \<and>
   fee_brokerage (6666667 / 100) 1 = 20 \<and>
   fee_brokerage 100000 1 = 20 \<and>
   fee_brokerage (24505 / 10) (5 / 2) = 18379 / 10000"
proof -
  have a: "fee_brokerage (6666667 / 100) 1 = Round 4 (3 / 10000 * (6666667 / 100 * 1))"
    using brokerage_capped [of "6666667 / 100" 1] by simp
  have b: "fee_brokerage 100000 1 = 20"
    using brokerage_capped [of 100000 1] by simp
  have c: "fee_brokerage (24505 / 10) (5 / 2) = Round 4 (3 / 10000 * (24505 / 10 * (5 / 2)))"
    using brokerage_capped [of "24505 / 10" "5 / 2"] by simp
  from a b c show ?thesis by (simp add: Round_def)
qed

text \<open>
  C3, as stated: each component is rounded to 4 places before it is summed into the
  total. At price 2450.50 and quantity 2.5 the rounded components sum to 8.2950, and
  the total that CalculateFees returns is 8.2949.
\<close>

theorem fees_sum_of_rounded_counterexample:
  "fee_total (24505 / 10) (5 / 2)
     \<noteq> Round 4 (fee_brokerage (24505 / 10) (5 / 2) + fee_stt (24505 / 10) (5 / 2)
                  + fee_gst (24505 / 10) (5 / 2))"
  by (simp add: fee_total_def fee_brokerage_def fee_stt_def fee_gst_def CalculateFees_def
      Round_def Let_def)

text \<open>
  C3, amended: brokerage is the lower of 0.03% of the total value and 20, STT is 0.10%
  of the total value and GST is 18% of the brokerage; each returned component is rounded
  to 4 places, and the total is the sum of the unrounded components, rounded to 4
  places. At price 2450.50 and quantity 2.5 the total is 8.2949 (the FEE entry's amount
  is its negation).
\<close>

theorem CalculateFees_total_of_unrounded:
  "CalculateFees p q =
     (Round 4 (min (3 / 10000 * (p * q)) 20),
      Round 4 (1 / 1000 * (p * q)),
      Round 4 (18 / 100 * min (3 / 10000 * (p * q)) 20),
      Round 4 (min (3 / 10000 * (p * q)) 20 + 1 / 1000 * (p * q)
               + 18 / 100 * min (3 / 10000 * (p * q)) 20))
   \<and> - fee_total (24505 / 10) (5 / 2) = - (82949 / 10000)"
proof
  show "CalculateFees p q =
     (Round 4 (min (3 / 10000 * (p * q)) 20),
      Round 4 (1 / 1000 * (p * q)),
      Round 4 (18 / 100 * min (3 / 10000 * (p * q)) 20),
      Round 4 (min (3 / 10000 * (p * q)) 20 + 1 / 1000 * (p * q)
               + 18 / 100 * min (3 / 10000 * (p * q)) 20))"
    by (simp add: CalculateFees_def Let_def min_def mult.commute)
next
  show "- fee_total (24505 / 10) (5 / 2) = - (82949 / 10000)"
    by (simp add: fee_total_def CalculateFees_def Round_def Let_def)
qed

section \<open>Current price\<close>

lemma first_by_None_iff: "first_by before xs = None \<longleftrightarrow> xs = []"
  by (induction xs) (auto split: option.splits)

lemma first_by_mem: "first_by before xs = Some r \<Longrightarrow> r \<in> set xs"
  by (induction xs arbitrary: r) (auto split: option.splits if_splits)

lemma first_by_price_latest:
  "first_by price_before xs = Some r \<Longrightarrow> p \<in> set xs \<Longrightarrow> ph_Timestamp p \<le> ph_Timestamp r"
proof (induction xs arbitrary: r)
  case Nil
  then show ?case by simp
next
  case (Cons x xs)
  show ?case
  proof (cases "first_by price_before xs")
    case None
    then have "xs = []" by (simp add: first_by_None_iff)
    with Cons.prems None show ?thesis by simp
  next
    case (Some y)
    note ih = Cons.IH [OF Some]
    show ?thesis
    proof (cases "price_before y x")
      case True
      with Some Cons.prems(1) have "r = y" by simp
      moreover from True have "ph_Timestamp x \<le> ph_Timestamp y"
        by (auto simp: price_before_def)
      ultimately show ?thesis using Cons.prems(2) ih by auto
    next
      case False
      with Some Cons.prems(1) have r: "r = x" by simp
      show ?thesis
      proof (cases "p = x")
        case True
        with r show ?thesis by simp
      next
        case False
        with Cons.prems(2) have "p \<in> set xs" by simp
        then have "ph_Timestamp p \<le> ph_Timestamp y" by (rule ih)
        moreover have "y \<in> set xs" using Some by (rule first_by_mem)
        ultimately show ?thesis using r \<open>\<not> price_before y x\<close>
          by (auto simp: price_before_def)
      qed
    qed
  qed
qed

lemma Round_idem: "Round n (Round n x) = Round n x"
proof -
  have pos: "Round n (of_int k / 10 ^ n) = of_int k / 10 ^ n" if "0 \<le> k" for k :: int
  proof -
    have "(0::rat) \<le> of_int k / 10 ^ n" using that by (intro divide_nonneg_nonneg) simp_all
    then have "\<not> (of_int k / 10 ^ n :: rat) < 0" by linarith
    moreover have "\<lfloor>(of_int k :: rat) + 1 / 2\<rfloor> = k" by (simp add: floor_eq_iff)
    ultimately show ?thesis by (simp add: Round_def)
  qed
  have neg: "Round n (- (of_int k / 10 ^ n)) = - (of_int k / 10 ^ n)" if "0 \<le> k" for k :: int
  proof (cases "k = 0")
    case True
    then show ?thesis by (simp add: Round_def floor_eq_iff)
  next
    case False
    with that have "(0::rat) < of_int k / 10 ^ n" by (intro divide_pos_pos) simp_all
    then have "(- (of_int k / 10 ^ n) :: rat) < 0" by linarith
    moreover have "\<lfloor>(of_int k :: rat) + 1 / 2\<rfloor> = k" by (simp add: floor_eq_iff)
    ultimately show ?thesis by (simp add: Round_def)
  qed
  show ?thesis
  proof (cases "x < 0")
    case True
    then have "0 \<le> (- x) * 10 ^ n" by (intro mult_nonneg_nonneg) simp_all
    then have "0 \<le> (- x) * 10 ^ n + 1 / 2" by linarith
    then have "0 \<le> \<lfloor>(- x) * 10 ^ n + 1 / 2\<rfloor>" by (simp only: zero_le_floor)
    from neg [OF this] True show ?thesis by (simp only: Round_def if_True)
  next
    case False
    then have "0 \<le> x * 10 ^ n" by (intro mult_nonneg_nonneg) simp_all
    then have "0 \<le> x * 10 ^ n + 1 / 2" by linarith
    then have "0 \<le> \<lfloor>x * 10 ^ n + 1 / 2\<rfloor>" by (simp only: zero_le_floor)
    from pos [OF this] False show ?thesis by (simp only: Round_def if_False)
  qed
qed

lemma GeneratePrice_fst:
  "fst (GeneratePrice e w symbol) =
     Round 4 ((case basePrices w symbol of Some b \<Rightarrow> b | None \<Rightarrow> 1000)
              * (1 + variation e (rng_draws w)))"
  by (cases "basePrices w symbol") (simp_all add: GeneratePrice_def Let_def)

lemma GeneratePrice_history:
  "price_history (snd (GeneratePrice e w symbol)) = price_history w"
  "next_price_id (snd (GeneratePrice e w symbol)) = next_price_id w"
  by (cases "basePrices w symbol"; simp add: GeneratePrice_def Let_def)+

lemma generate_and_save_fst:
  "fst (generate_and_save e now w symbol) = Inr (fst (GeneratePrice e w symbol))"
  by (simp add: generate_and_save_def Let_def split: prod.splits)

lemma generate_and_save_history:
  "price_history (snd (generate_and_save e now w symbol)) =
     (if fails e (InsertPrice symbol) then price_history w
      else price_history w @
             [\<lparr>ph_ID = next_price_id w, ph_StockSymbol = symbol,
               ph_PriceINR = fst (GeneratePrice e w symbol),
               ph_Timestamp = now, ph_CreatedAt = now\<rparr>])"
proof -
  obtain price w1 where g: "GeneratePrice e w symbol = (price, w1)"
    by (cases "GeneratePrice e w symbol")
  have "RoundINR price = price"
    using GeneratePrice_fst [of e w symbol] g by (simp add: RoundINR_def Round_idem)
  moreover have "price_history w1 = price_history w" "next_price_id w1 = next_price_id w"
    using GeneratePrice_history [of e w symbol] g by simp_all
  ultimately show ?thesis
    using g by (simp add: generate_and_save_def SavePrice_def Let_def)
qed

lemma latest_price_props:
  assumes "latest_price w symbol = Some r"
  shows "r \<in> set (price_history w)" and "ph_StockSymbol r = symbol"
    and "\<forall>p\<in>set (price_history w). ph_StockSymbol p = symbol \<longrightarrow> ph_Timestamp p \<le> ph_Timestamp r"
proof -
  from assms have "r \<in> set (filter (\<lambda>p. ph_StockSymbol p = symbol) (price_history w))"
    unfolding latest_price_def by (rule first_by_mem)
  then show "r \<in> set (price_history w)" and "ph_StockSymbol r = symbol" by simp_all
  show "\<forall>p\<in>set (price_history w). ph_StockSymbol p = symbol \<longrightarrow> ph_Timestamp p \<le> ph_Timestamp r"
  proof (intro ballI impI)
    fix p assume "p \<in> set (price_history w)" and "ph_StockSymbol p = symbol"
    then have "p \<in> set (filter (\<lambda>p. ph_StockSymbol p = symbol) (price_history w))" by simp
    with assms show "ph_Timestamp p \<le> ph_Timestamp r"
      unfolding latest_price_def by (rule first_by_price_latest)
  qed
qed

lemma latest_price_None:
  "latest_price w symbol = None \<longleftrightarrow> (\<forall>p\<in>set (price_history w). ph_StockSymbol p \<noteq> symbol)"
  by (simp add: latest_price_def first_by_None_iff filter_empty_conv)

text \<open>
  C7. When the lookup of the latest sample does not fail, GetCurrentPrice returns the
  most recent stored sample of the symbol (no sample of the symbol has a later
  timestamp) if it is at most 2 hours old, and leaves the state as it is. If the most
  recent sample is older than 2 hours, or the symbol has no sample, it returns the price
  that GeneratePrice synthesizes, and (unless the insert fails) the price history gains
  exactly one sample: that price for the symbol at the current instant.
\<close>

theorem GetCurrentPrice_fresh_or_synthesized:
  assumes "\<not> fails e (QueryLatestPrice symbol)"
  shows "case latest_price w symbol of
           Some r \<Rightarrow>
             r \<in> set (price_history w) \<and> ph_StockSymbol r = symbol \<and>
             (\<forall>p\<in>set (price_history w).
                 ph_StockSymbol p = symbol \<longrightarrow> ph_Timestamp p \<le> ph_Timestamp r) \<and>
             (if now - ph_Timestamp r \<le> 2 * nsPerHour
              then GetCurrentPrice e now w symbol = (Inr (ph_PriceINR r), w)
              else fst (GetCurrentPrice e now w symbol) = Inr (fst (GeneratePrice e w symbol)) \<and>
                   (\<not> fails e (InsertPrice symbol) \<longrightarrow>
                    price_history (snd (GetCurrentPrice e now w symbol)) =
                      price_history w @
                        [\<lparr>ph_ID = next_price_id w, ph_StockSymbol = symbol,
                          ph_PriceINR = fst (GeneratePrice e w symbol),
                          ph_Timestamp = now, ph_CreatedAt = now\<rparr>]))
         | None \<Rightarrow>
             (\<forall>p\<in>set (price_history w). ph_StockSymbol p \<noteq> symbol) \<and>
             fst (GetCurrentPrice e now w symbol) = Inr (fst (GeneratePrice e w symbol)) \<and>
             (\<not> fails e (InsertPrice symbol) \<longrightarrow>
              price_history (snd (GetCurrentPrice e now w symbol)) =
                price_history w @
                  [\<lparr>ph_ID = next_price_id w, ph_StockSymbol = symbol,
                    ph_PriceINR = fst (GeneratePrice e w symbol),
                    ph_Timestamp = now, ph_CreatedAt = now\<rparr>])"
proof (cases "latest_price w symbol")
  case None
  then have "\<forall>p\<in>set (price_history w). ph_StockSymbol p \<noteq> symbol"
    by (simp add: latest_price_None)
  moreover from None assms have "GetCurrentPrice e now w symbol = generate_and_save e now w symbol"
    by (simp add: GetCurrentPrice_def)
  ultimately show ?thesis using None
    by (simp add: generate_and_save_fst generate_and_save_history)
next
  case (Some r)
  note props = latest_price_props [OF Some]
  show ?thesis
  proof (cases "now - ph_Timestamp r \<le> 2 * nsPerHour")
    case True
    with Some assms have "GetCurrentPrice e now w symbol = (Inr (ph_PriceINR r), w)"
      by (simp add: GetCurrentPrice_def)
    with True Some props show ?thesis by simp
  next
    case False
    with Some assms have "GetCurrentPrice e now w symbol = generate_and_save e now w symbol"
      by (simp add: GetCurrentPrice_def)
    with False Some props show ?thesis
      by (simp add: generate_and_save_fst generate_and_save_history)
  qed
qed

text \<open>
  Scenario C: the only sample of TCS (3680.75) is 3 hours old. With a variation of +1%
  the call returns the synthesized 3717.5575 and appends it to the price history.
\<close>

theorem GetCurrentPrice_fresh_or_synthesized_witness:
  "fst (GetCurrentPrice \<lparr>fails = (\<lambda>op. False), variation = (\<lambda>n. 1 / 100)\<rparr> 10800000000000
     \<lparr>reward_events = [], ledger_entries = [],
      price_history = [\<lparr>ph_ID = 1, ph_StockSymbol = ''TCS'', ph_PriceINR = 368075 / 100,
                         ph_Timestamp = 0, ph_CreatedAt = 0\<rparr>],
      next_reward_id = 1, next_ledger_id = 1, next_price_id = 2,
      basePrices = [''TCS'' \<mapsto> 368075 / 100], rng_draws = 0\<rparr> ''TCS'')
     = Inr (37175575 / 10000) \<and>
   price_history (snd (GetCurrentPrice \<lparr>fails = (\<lambda>op. False), variation = (\<lambda>n. 1 / 100)\<rparr> 10800000000000
     \<lparr>reward_events = [], ledger_entries = [],
      price_history = [\<lparr>ph_ID = 1, ph_StockSymbol = ''TCS'', ph_PriceINR = 368075 / 100,
                         ph_Timestamp = 0, ph_CreatedAt = 0\<rparr>],
      next_reward_id = 1, next_ledger_id = 1, next_price_id = 2,
      basePrices = [''TCS'' \<mapsto> 368075 / 100], rng_draws = 0\<rparr> ''TCS''))
     = [\<lparr>ph_ID = 1, ph_StockSymbol = ''TCS'', ph_PriceINR = 368075 / 100,
          ph_Timestamp = 0, ph_CreatedAt = 0\<rparr>,
        \<lparr>ph_ID = 2, ph_StockSymbol = ''TCS'', ph_PriceINR = 37175575 / 10000,
          ph_Timestamp = 10800000000000, ph_CreatedAt = 10800000000000\<rparr>]"
  using GetCurrentPrice_fresh_or_synthesized
          [of "\<lparr>fails = (\<lambda>op. False), variation = (\<lambda>n. 1 / 100)\<rparr>" "''TCS''"
              "\<lparr>reward_events = [], ledger_entries = [],
                price_history = [\<lparr>ph_ID = 1, ph_StockSymbol = ''TCS'', ph_PriceINR = 368075 / 100,
                                   ph_Timestamp = 0, ph_CreatedAt = 0\<rparr>],
                next_reward_id = 1, next_ledger_id = 1, next_price_id = 2,
                basePrices = [''TCS'' \<mapsto> 368075 / 100], rng_draws = 0\<rparr>"
              10800000000000]
  by (simp add: latest_price_def price_before_def nsPerHour_def GeneratePrice_def Round_def)

section \<open>Recording a reward\<close>

lemma generate_and_save_frame:
  "reward_events (snd (generate_and_save e now w symbol)) = reward_events w"
  "ledger_entries (snd (generate_and_save e now w symbol)) = ledger_entries w"
  "next_reward_id (snd (generate_and_save e now w symbol)) = next_reward_id w"
  "next_ledger_id (snd (generate_and_save e now w symbol)) = next_ledger_id w"
  by (cases "basePrices w symbol";
      simp add: generate_and_save_def GeneratePrice_def SavePrice_def Let_def)+

lemma GetCurrentPrice_frame:
  "reward_events (snd (GetCurrentPrice e now w symbol)) = reward_events w"
  "ledger_entries (snd (GetCurrentPrice e now w symbol)) = ledger_entries w"
  "next_reward_id (snd (GetCurrentPrice e now w symbol)) = next_reward_id w"
  "next_ledger_id (snd (GetCurrentPrice e now w symbol)) = next_ledger_id w"
  by (simp_all add: GetCurrentPrice_def generate_and_save_frame split: option.splits)

lemma CreateReward_success:
  assumes "CreateReward e now w userID symbol quantity timestamp = (None, w')"
    and "GetCurrentPrice e now w symbol = (r, w1)"
  shows "\<exists>p. r = Inr p \<and>
     ValidateStockSymbol symbol = None \<and> ValidateQuantity quantity = None \<and>
     find_duplicate w userID symbol (Round 6 quantity) timestamp = None \<and>
     w' = w1\<lparr>reward_events := reward_events w @
               [\<lparr>re_ID = next_reward_id w, re_UserID = userID, re_StockSymbol = symbol,
                 re_Quantity = Round 6 quantity, re_Timestamp = timestamp, re_CreatedAt = now,
                 re_UpdatedAt = now, re_DeletedAt = None\<rparr>],
             next_reward_id := next_reward_id w + 1,
             ledger_entries := ledger_entries w @
               [\<lparr>le_ID = next_ledger_id w, le_RewardEventID = next_reward_id w,
                 le_EntryType = EntryTypeStock, le_StockSymbol = Some symbol,
                 le_Quantity = Round 6 quantity,
                 le_AmountINR = RoundINR (p * Round 6 quantity),
                 le_Timestamp = timestamp, le_CreatedAt = now\<rparr>,
                \<lparr>le_ID = next_ledger_id w + 1, le_RewardEventID = next_reward_id w,
                 le_EntryType = EntryTypeCash, le_StockSymbol = Some symbol,
                 le_Quantity = 0,
                 le_AmountINR = - RoundINR (p * Round 6 quantity),
                 le_Timestamp = timestamp, le_CreatedAt = now\<rparr>,
                \<lparr>le_ID = next_ledger_id w + 2, le_RewardEventID = next_reward_id w,
                 le_EntryType = EntryTypeFee, le_StockSymbol = Some symbol,
                 le_Quantity = 0,
                 le_AmountINR = - fee_total p (Round 6 quantity),
                 le_Timestamp = timestamp, le_CreatedAt = now\<rparr>],
             next_ledger_id := next_ledger_id w + 3\<rparr>"
proof -
  have fr: "reward_events w1 = reward_events w" "ledger_entries w1 = ledger_entries w"
    "next_reward_id w1 = next_reward_id w" "next_ledger_id w1 = next_ledger_id w"
    using GetCurrentPrice_frame [of e now w symbol] assms(2) by simp_all
  from assms show ?thesis
    by (cases r)
       (auto simp: CreateReward_def createLedgerEntriesInTx_def create_entries_def Let_def
          fee_total_def fr find_duplicate_def eval_nat_numeral
          split: if_splits option.splits prod.splits)
qed

lemma fee_total_formula:
  "fee_total p q =
     Round 4 (min (3 / 10000 * (p * q)) 20 + 1 / 1000 * (p * q)
              + 18 / 100 * min (3 / 10000 * (p * q)) 20)"
  by (simp add: fee_total_def CalculateFees_def Let_def min_def mult.commute)

text \<open>
  C2. A successful CreateReward at price \<open>p\<close> (the price GetCurrentPrice gave it),
  with \<open>q\<close> the quantity rounded to 6 places, appends exactly three ledger entries for
  the new reward: a STOCK entry with quantity \<open>q\<close> and amount \<open>p * q\<close> rounded to 4
  places, a CASH entry with quantity 0 and the negated amount, and a FEE entry with
  quantity 0 and amount -totalFees, where totalFees is the total of the fee
  computation. The amounts of the three entries sum to -totalFees.
\<close>

theorem CreateReward_three_entries:
  assumes "CreateReward e now w userID symbol quantity timestamp = (None, w')"
    and "fst (GetCurrentPrice e now w symbol) = Inr p"
  shows "let q = Round 6 quantity;
             brokerage = min (3 / 10000 * (p * q)) 20;
             totalFees = Round 4 (brokerage + 1 / 1000 * (p * q) + 18 / 100 * brokerage)
         in ledger_entries w' = ledger_entries w @
              [\<lparr>le_ID = next_ledger_id w, le_RewardEventID = next_reward_id w,
                le_EntryType = EntryTypeStock, le_StockSymbol = Some symbol,
                le_Quantity = q, le_AmountINR = Round 4 (p * q),
                le_Timestamp = timestamp, le_CreatedAt = now\<rparr>,
               \<lparr>le_ID = next_ledger_id w + 1, le_RewardEventID = next_reward_id w,
                le_EntryType = EntryTypeCash, le_StockSymbol = Some symbol,
                le_Quantity = 0, le_AmountINR = - Round 4 (p * q),
                le_Timestamp = timestamp, le_CreatedAt = now\<rparr>,
               \<lparr>le_ID = next_ledger_id w + 2, le_RewardEventID = next_reward_id w,
                le_EntryType = EntryTypeFee, le_StockSymbol = Some symbol,
                le_Quantity = 0, le_AmountINR = - totalFees,
                le_Timestamp = timestamp, le_CreatedAt = now\<rparr>]
          \<and> sum_list (map le_AmountINR (drop (length (ledger_entries w)) (ledger_entries w')))
              = - totalFees
          \<and> totalFees = fee_total p q"
proof -
  obtain r w1 where g: "GetCurrentPrice e now w symbol = (r, w1)"
    by (cases "GetCurrentPrice e now w symbol")
  with assms(2) have "r = Inr p" by simp
  with CreateReward_success [OF assms(1) g] show ?thesis
    by (auto simp: Let_def RoundINR_def fee_total_formula)
qed

text \<open>
  Inputs of the scenarios below: an environment in which no statement fails and the
  generator draws no variation, and a state whose only row is a RELIANCE price sample of
  2450.50.
\<close>

definition calm :: env where
  "calm = \<lparr>fails = (\<lambda>op. False), variation = (\<lambda>n. 0)\<rparr>"

definition reliance_priced :: world where
  "reliance_priced =
     \<lparr>reward_events = [], ledger_entries = [],
      price_history = [\<lparr>ph_ID = 1, ph_StockSymbol = ''RELIANCE'', ph_PriceINR = 24505 / 10,
                         ph_Timestamp = 1000, ph_CreatedAt = 1000\<rparr>],
      next_reward_id = 1, next_ledger_id = 1, next_price_id = 2,
      basePrices = [''RELIANCE'' \<mapsto> 24505 / 10], rng_draws = 0\<rparr>"

lemma calm_fails [simp]: "\<not> fails calm op"
  by (simp add: calm_def)

lemma calm_variation [simp]: "variation calm n = 0"
  by (simp add: calm_def)

lemma reliance_priced_fields [simp]:
  "reward_events reliance_priced = []" "ledger_entries reliance_priced = []"
  "next_reward_id reliance_priced = 1" "next_ledger_id reliance_priced = 1"
  by (simp_all add: reliance_priced_def)

lemma reliance_price:
  "GetCurrentPrice calm 2000 reliance_priced ''RELIANCE'' = (Inr (24505 / 10), reliance_priced)"
  by (simp add: GetCurrentPrice_def reliance_priced_def latest_price_def nsPerHour_def)

lemma Round6_five_halves: "Round 6 (5 / 2) = 5 / 2"
  by (simp add: Round_def)

lemma scenario_A:
  "CreateReward calm 2000 reliance_priced 1 ''RELIANCE'' (5 / 2) 1500 =
     (None,
      reliance_priced\<lparr>reward_events :=
           [\<lparr>re_ID = 1, re_UserID = 1, re_StockSymbol = ''RELIANCE'',
             re_Quantity = 5 / 2, re_Timestamp = 1500, re_CreatedAt = 2000,
             re_UpdatedAt = 2000, re_DeletedAt = None\<rparr>],
         next_reward_id := 2,
         ledger_entries :=
           [\<lparr>le_ID = 1, le_RewardEventID = 1, le_EntryType = EntryTypeStock,
             le_StockSymbol = Some ''RELIANCE'', le_Quantity = 5 / 2,
             le_AmountINR = 612625 / 100, le_Timestamp = 1500, le_CreatedAt = 2000\<rparr>,
            \<lparr>le_ID = 2, le_RewardEventID = 1, le_EntryType = EntryTypeCash,
             le_StockSymbol = Some ''RELIANCE'', le_Quantity = 0,
             le_AmountINR = - (612625 / 100), le_Timestamp = 1500, le_CreatedAt = 2000\<rparr>,
            \<lparr>le_ID = 3, le_RewardEventID = 1, le_EntryType = EntryTypeFee,
             le_StockSymbol = Some ''RELIANCE'', le_Quantity = 0,
             le_AmountINR = - (82949 / 10000), le_Timestamp = 1500, le_CreatedAt = 2000\<rparr>],
         next_ledger_id := 4\<rparr>)"
  apply (simp add: CreateReward_def reliance_price Round6_five_halves
        ValidateStockSymbol_def ValidateQuantity_def find_duplicate_def
        createLedgerEntriesInTx_def create_entries_def CalculateFees_def Let_def)
  apply (simp add: reliance_priced_def RoundINR_def Round_def)
  done

text \<open>
  A state whose only row is a RELIANCE price sample of 2450.5001, and the reward
  (1, RELIANCE, 2.5000004, T) recorded on it: the quantity is rounded to 2.5, and
  2450.5001 * 2.5 = 6126.25025 is rounded to 6126.2503.
\<close>

definition reliance_priced_fine :: world where
  "reliance_priced_fine =
     \<lparr>reward_events = [], ledger_entries = [],
      price_history = [\<lparr>ph_ID = 1, ph_StockSymbol = ''RELIANCE'',
                         ph_PriceINR = 24505001 / 10000,
                         ph_Timestamp = 1000, ph_CreatedAt = 1000\<rparr>],
      next_reward_id = 1, next_ledger_id = 1, next_price_id = 2,
      basePrices = [''RELIANCE'' \<mapsto> 24505 / 10], rng_draws = 0\<rparr>"

lemma reliance_priced_fine_fields [simp]:
  "reward_events reliance_priced_fine = []" "ledger_entries reliance_priced_fine = []"
  "next_reward_id reliance_priced_fine = 1" "next_ledger_id reliance_priced_fine = 1"
  by (simp_all add: reliance_priced_fine_def)

lemma reliance_fine_price:
  "GetCurrentPrice calm 2000 reliance_priced_fine ''RELIANCE''
     = (Inr (24505001 / 10000), reliance_priced_fine)"
  by (simp add: GetCurrentPrice_def reliance_priced_fine_def latest_price_def nsPerHour_def)

lemma Round6_fine: "Round 6 (25000004 / 10000000) = 5 / 2"
  by (simp add: Round_def)

lemma fine_reward_succeeds:
  "fst (CreateReward calm 2000 reliance_priced_fine 1 ''RELIANCE'' (25000004 / 10000000) 1500)
     = None"
  by (simp add: CreateReward_def reliance_fine_price Round6_fine
        ValidateStockSymbol_def ValidateQuantity_def find_duplicate_def
        createLedgerEntriesInTx_def create_entries_def CalculateFees_def Let_def)

text \<open>
  Scenario A: reward (1, RELIANCE, 2.5, T) at price 2450.50 posts STOCK 2.5 / 6126.25,
  CASH -6126.25 and FEE -8.2949. At price 2450.5001 and quantity 2.5000004 the entries
  are STOCK 2.5 / 6126.2503, CASH -6126.2503 and FEE -8.2949.
\<close>

theorem CreateReward_three_entries_witness:
  "ledger_entries (snd (CreateReward calm 2000 reliance_priced 1 ''RELIANCE'' (5 / 2) 1500)) =
     [\<lparr>le_ID = 1, le_RewardEventID = 1, le_EntryType = EntryTypeStock,
       le_StockSymbol = Some ''RELIANCE'', le_Quantity = 5 / 2,
       le_AmountINR = 612625 / 100, le_Timestamp = 1500, le_CreatedAt = 2000\<rparr>,
      \<lparr>le_ID = 2, le_RewardEventID = 1, le_EntryType = EntryTypeCash,
       le_StockSymbol = Some ''RELIANCE'', le_Quantity = 0,
       le_AmountINR = - (612625 / 100), le_Timestamp = 1500, le_CreatedAt = 2000\<rparr>,
      \<lparr>le_ID = 3, le_RewardEventID = 1, le_EntryType = EntryTypeFee,
       le_StockSymbol = Some ''RELIANCE'', le_Quantity = 0,
       le_AmountINR = - (82949 / 10000), le_Timestamp = 1500, le_CreatedAt = 2000\<rparr>]
   \<and> sum_list (map le_AmountINR
         (ledger_entries (snd (CreateReward calm 2000 reliance_priced 1 ''RELIANCE'' (5 / 2) 1500))))
       = - (82949 / 10000)
   \<and> ledger_entries (snd (CreateReward calm 2000 reliance_priced_fine 1 ''RELIANCE''
         (25000004 / 10000000) 1500)) =
     [\<lparr>le_ID = 1, le_RewardEventID = 1, le_EntryType = EntryTypeStock,
       le_StockSymbol = Some ''RELIANCE'', le_Quantity = 5 / 2,
       le_AmountINR = 61262503 / 10000, le_Timestamp = 1500, le_CreatedAt = 2000\<rparr>,
      \<lparr>le_ID = 2, le_RewardEventID = 1, le_EntryType = EntryTypeCash,
       le_StockSymbol = Some ''RELIANCE'', le_Quantity = 0,
       le_AmountINR = - (61262503 / 10000), le_Timestamp = 1500, le_CreatedAt = 2000\<rparr>,
      \<lparr>le_ID = 3, le_RewardEventID = 1, le_EntryType = EntryTypeFee,
       le_StockSymbol = Some ''RELIANCE'', le_Quantity = 0,
       le_AmountINR = - (82949 / 10000), le_Timestamp = 1500, le_CreatedAt = 2000\<rparr>]"
proof -
  have a: "CreateReward calm 2000 reliance_priced 1 ''RELIANCE'' (5 / 2) 1500 =
      (None, snd (CreateReward calm 2000 reliance_priced 1 ''RELIANCE'' (5 / 2) 1500))"
    by (simp add: scenario_A)
  have b: "fst (GetCurrentPrice calm 2000 reliance_priced ''RELIANCE'') = Inr (24505 / 10)"
    by (simp add: reliance_price)
  have c: "CreateReward calm 2000 reliance_priced_fine 1 ''RELIANCE'' (25000004 / 10000000) 1500 =
      (None, snd (CreateReward calm 2000 reliance_priced_fine 1 ''RELIANCE''
         (25000004 / 10000000) 1500))"
    using fine_reward_succeeds by (simp add: prod_eq_iff)
  have d: "fst (GetCurrentPrice calm 2000 reliance_priced_fine ''RELIANCE'')
      = Inr (24505001 / 10000)"
    by (simp add: reliance_fine_price)
  have first: "ledger_entries (snd (CreateReward calm 2000 reliance_priced 1 ''RELIANCE'' (5 / 2) 1500)) =
     [\<lparr>le_ID = 1, le_RewardEventID = 1, le_EntryType = EntryTypeStock,
       le_StockSymbol = Some ''RELIANCE'', le_Quantity = 5 / 2,
       le_AmountINR = 612625 / 100, le_Timestamp = 1500, le_CreatedAt = 2000\<rparr>,
      \<lparr>le_ID = 2, le_RewardEventID = 1, le_EntryType = EntryTypeCash,
       le_StockSymbol = Some ''RELIANCE'', le_Quantity = 0,
       le_AmountINR = - (612625 / 100), le_Timestamp = 1500, le_CreatedAt = 2000\<rparr>,
      \<lparr>le_ID = 3, le_RewardEventID = 1, le_EntryType = EntryTypeFee,
       le_StockSymbol = Some ''RELIANCE'', le_Quantity = 0,
       le_AmountINR = - (82949 / 10000), le_Timestamp = 1500, le_CreatedAt = 2000\<rparr>]"
    using CreateReward_three_entries [OF a b]
    by (simp add: Let_def Round6_five_halves Round_def)
  have second: "ledger_entries (snd (CreateReward calm 2000 reliance_priced_fine 1 ''RELIANCE''
         (25000004 / 10000000) 1500)) =
     [\<lparr>le_ID = 1, le_RewardEventID = 1, le_EntryType = EntryTypeStock,
       le_StockSymbol = Some ''RELIANCE'', le_Quantity = 5 / 2,
       le_AmountINR = 61262503 / 10000, le_Timestamp = 1500, le_CreatedAt = 2000\<rparr>,
      \<lparr>le_ID = 2, le_RewardEventID = 1, le_EntryType = EntryTypeCash,
       le_StockSymbol = Some ''RELIANCE'', le_Quantity = 0,
       le_AmountINR = - (61262503 / 10000), le_Timestamp = 1500, le_CreatedAt = 2000\<rparr>,
      \<lparr>le_ID = 3, le_RewardEventID = 1, le_EntryType = EntryTypeFee,
       le_StockSymbol = Some ''RELIANCE'', le_Quantity = 0,
       le_AmountINR = - (82949 / 10000), le_Timestamp = 1500, le_CreatedAt = 2000\<rparr>]"
    using CreateReward_three_entries [OF c d]
    by (simp add: Let_def Round6_fine Round_def)
  from first second show ?thesis by simp
qed

section \<open>Rejecting an identical reward\<close>

text \<open>
  Serial primary keys and the foreign key of \<^verbatim>\<open>ledger_entries\<close>: every reward's key
  is below the counter, and every entry refers to a stored reward.
\<close>

definition keys_consistent :: "world \<Rightarrow> bool" where
  "keys_consistent w \<longleftrightarrow>
     (\<forall>r\<in>set (reward_events w). re_ID r < next_reward_id w) \<and>
     (\<forall>l\<in>set (ledger_entries w). le_RewardEventID l \<in> re_ID ` set (reward_events w))"

lemma GetCurrentPrice_returns:
  assumes "\<not> fails e (QueryLatestPrice symbol)"
  shows "\<exists>p. fst (GetCurrentPrice e now w symbol) = Inr p"
  using assms
  by (simp add: GetCurrentPrice_def generate_and_save_fst split: option.splits)

lemma find_duplicate_None_iff:
  "find_duplicate w userID symbol quantity timestamp = None \<longleftrightarrow>
     filter (same_reward userID symbol quantity timestamp) (reward_events w) = []"
  by (simp add: find_duplicate_def first_by_None_iff)

lemma CreateReward_succeeds:
  assumes "ValidateStockSymbol symbol = None" and "ValidateQuantity quantity = None"
    and "find_duplicate w userID symbol (Round 6 quantity) timestamp = None"
    and "\<not> fails e QueryDuplicate" and "\<not> fails e (QueryLatestPrice symbol)"
    and "\<not> fails e InsertReward" and "\<not> fails e InsertEntries" and "\<not> fails e CommitTx"
  shows "fst (CreateReward e now w userID symbol quantity timestamp) = None"
proof -
  obtain r w1 where g: "GetCurrentPrice e now w symbol = (r, w1)"
    by (cases "GetCurrentPrice e now w symbol")
  from GetCurrentPrice_returns [OF assms(5), of now w] g obtain p where p: "r = Inr p"
    by auto
  have "reward_events w1 = reward_events w"
    using GetCurrentPrice_frame(1) [of e now w symbol] g by simp
  with assms(3) have "find_duplicate w1 userID symbol (Round 6 quantity) timestamp = None"
    by (simp add: find_duplicate_def)
  with assms g p show ?thesis
    by (simp add: CreateReward_def createLedgerEntriesInTx_def Let_def split: prod.splits)
qed

lemma keys_consistent_CreateReward:
  assumes "keys_consistent w"
  shows "keys_consistent (snd (CreateReward e now w userID symbol quantity timestamp))"
proof (cases "fst (CreateReward e now w userID symbol quantity timestamp)")
  case None
  obtain r w1 where g: "GetCurrentPrice e now w symbol = (r, w1)"
    by (cases "GetCurrentPrice e now w symbol")
  from None have "CreateReward e now w userID symbol quantity timestamp =
      (None, snd (CreateReward e now w userID symbol quantity timestamp))"
    by (simp add: prod_eq_iff)
  from CreateReward_success [OF this g] obtain p where
    w': "snd (CreateReward e now w userID symbol quantity timestamp) =
      w1\<lparr>reward_events := reward_events w @
               [\<lparr>re_ID = next_reward_id w, re_UserID = userID, re_StockSymbol = symbol,
                 re_Quantity = Round 6 quantity, re_Timestamp = timestamp, re_CreatedAt = now,
                 re_UpdatedAt = now, re_DeletedAt = None\<rparr>],
             next_reward_id := next_reward_id w + 1,
             ledger_entries := ledger_entries w @
               [\<lparr>le_ID = next_ledger_id w, le_RewardEventID = next_reward_id w,
                 le_EntryType = EntryTypeStock, le_StockSymbol = Some symbol,
                 le_Quantity = Round 6 quantity,
                 le_AmountINR = RoundINR (p * Round 6 quantity),
                 le_Timestamp = timestamp, le_CreatedAt = now\<rparr>,
                \<lparr>le_ID = next_ledger_id w + 1, le_RewardEventID = next_reward_id w,
                 le_EntryType = EntryTypeCash, le_StockSymbol = Some symbol,
                 le_Quantity = 0,
                 le_AmountINR = - RoundINR (p * Round 6 quantity),
                 le_Timestamp = timestamp, le_CreatedAt = now\<rparr>,
                \<lparr>le_ID = next_ledger_id w + 2, le_RewardEventID = next_reward_id w,
                 le_EntryType = EntryTypeFee, le_StockSymbol = Some symbol,
                 le_Quantity = 0,
                 le_AmountINR = - fee_total p (Round 6 quantity),
                 le_Timestamp = timestamp, le_CreatedAt = now\<rparr>],
             next_ledger_id := next_ledger_id w + 3\<rparr>"
    by blast
  from assms show ?thesis
    unfolding w' keys_consistent_def by (auto simp: less_Suc_eq)
next
  case (Some err)
  have "reward_events (snd (CreateReward e now w userID symbol quantity timestamp)) = reward_events w
      \<and> ledger_entries (snd (CreateReward e now w userID symbol quantity timestamp)) = ledger_entries w
      \<and> next_reward_id (snd (CreateReward e now w userID symbol quantity timestamp)) = next_reward_id w"
    using Some GetCurrentPrice_frame [of e now w symbol]
    by (auto simp: CreateReward_def createLedgerEntriesInTx_def Let_def
        split: if_splits option.splits prod.splits sum.splits)
  with assms show ?thesis by (simp add: keys_consistent_def)
qed

text \<open>
  C1. Two CreateReward calls with the same user, symbol and timestamp and with
  quantities that are equal after rounding to 6 places, one after the other, on a state
  that holds no live reward with that tuple, valid inputs and no failing statement: the
  first call succeeds, the second is rejected as DuplicateReward and leaves the state
  exactly as the first call left it. Afterwards one live reward has the tuple, exactly
  3 ledger entries belong to it, and the user's holdings are those after the first
  call.
\<close>

theorem identical_reward_rejected:
  assumes "ValidateStockSymbol symbol = None" and "ValidateQuantity quantity = None"
    and "find_duplicate w userID symbol (Round 6 quantity) timestamp = None"
    and "keys_consistent w"
    and "\<not> fails e QueryDuplicate" and "\<not> fails e (QueryLatestPrice symbol)"
    and "\<not> fails e InsertReward" and "\<not> fails e InsertEntries" and "\<not> fails e CommitTx"
    and "\<not> fails e' QueryDuplicate"
    and "CreateReward e now w userID symbol quantity timestamp = (r1, w1)"
    and "CreateReward e' now' w1 userID symbol quantity' timestamp = (r2, w2)"
    and "ValidateQuantity quantity' = None" and "Round 6 quantity' = Round 6 quantity"
  shows "r1 = None \<and> r2 = Some DuplicateReward \<and> w2 = w1 \<and>
     length (filter (same_reward userID symbol (Round 6 quantity) timestamp)
               (reward_events w2)) = 1 \<and>
     length (filter (\<lambda>l. \<exists>r\<in>set (reward_events w2). re_ID r = le_RewardEventID l \<and>
                       same_reward userID symbol (Round 6 quantity) timestamp r)
               (ledger_entries w2)) = 3 \<and>
     holdings_of w2 userID = holdings_of w1 userID"
proof -
  let ?same = "same_reward userID symbol (Round 6 quantity) timestamp"
  let ?new = "\<lparr>re_ID = next_reward_id w, re_UserID = userID, re_StockSymbol = symbol,
                 re_Quantity = Round 6 quantity, re_Timestamp = timestamp, re_CreatedAt = now,
                 re_UpdatedAt = now, re_DeletedAt = None\<rparr>"
  have r1: "r1 = None"
    using CreateReward_succeeds [OF assms(1,2,3,5,6,7,8,9), of now] assms(11) by simp
  obtain r wp where g: "GetCurrentPrice e now w symbol = (r, wp)"
    by (cases "GetCurrentPrice e now w symbol")
  from assms(11) r1 have "CreateReward e now w userID symbol quantity timestamp = (None, w1)"
    by simp
  from CreateReward_success [OF this g] obtain p where
    res: "reward_events w1 = reward_events w @ [?new]"
    and les: "ledger_entries w1 = ledger_entries w @
               [\<lparr>le_ID = next_ledger_id w, le_RewardEventID = next_reward_id w,
                 le_EntryType = EntryTypeStock, le_StockSymbol = Some symbol,
                 le_Quantity = Round 6 quantity,
                 le_AmountINR = RoundINR (p * Round 6 quantity),
                 le_Timestamp = timestamp, le_CreatedAt = now\<rparr>,
                \<lparr>le_ID = next_ledger_id w + 1, le_RewardEventID = next_reward_id w,
                 le_EntryType = EntryTypeCash, le_StockSymbol = Some symbol,
                 le_Quantity = 0,
                 le_AmountINR = - RoundINR (p * Round 6 quantity),
                 le_Timestamp = timestamp, le_CreatedAt = now\<rparr>,
                \<lparr>le_ID = next_ledger_id w + 2, le_RewardEventID = next_reward_id w,
                 le_EntryType = EntryTypeFee, le_StockSymbol = Some symbol,
                 le_Quantity = 0,
                 le_AmountINR = - fee_total p (Round 6 quantity),
                 le_Timestamp = timestamp, le_CreatedAt = now\<rparr>]"
    by auto
  have new: "?same ?new" by (simp add: same_reward_def)
  have old: "filter ?same (reward_events w) = []"
    using assms(3) by (simp add: find_duplicate_None_iff)
  have one: "filter ?same (reward_events w1) = [?new]"
    using res new old by simp
  then have "find_duplicate w1 userID symbol (Round 6 quantity) timestamp \<noteq> None"
    by (simp add: find_duplicate_None_iff)
  then obtain d where "find_duplicate w1 userID symbol (Round 6 quantity) timestamp = Some d"
    by blast
  with assms(1,10,12,13,14) have second: "r2 = Some DuplicateReward" "w2 = w1"
    by (simp_all add: CreateReward_def)
  have old_entries: "\<not> (\<exists>r\<in>set (reward_events w1). re_ID r = le_RewardEventID l \<and> ?same r)"
    if "l \<in> set (ledger_entries w)" for l
  proof
    assume "\<exists>r\<in>set (reward_events w1). re_ID r = le_RewardEventID l \<and> ?same r"
    then obtain r where r: "r \<in> set (reward_events w1)" "re_ID r = le_RewardEventID l" "?same r"
      by blast
    from r(1,3) have "r \<in> set (filter ?same (reward_events w1))" by simp
    then have "r = ?new" unfolding one by simp
    with r(2) have "le_RewardEventID l = next_reward_id w" by simp
    moreover from that assms(4) have "le_RewardEventID l < next_reward_id w"
      by (auto simp: keys_consistent_def)
    ultimately show False by simp
  qed
  then have "filter (\<lambda>l. \<exists>r\<in>set (reward_events w1). re_ID r = le_RewardEventID l \<and> ?same r)
               (ledger_entries w) = []"
    by (simp add: filter_empty_conv)
  moreover have "\<exists>r\<in>set (reward_events w1). re_ID r = next_reward_id w \<and> ?same r"
    using res new by auto
  ultimately have three:
    "length (filter (\<lambda>l. \<exists>r\<in>set (reward_events w1). re_ID r = le_RewardEventID l \<and> ?same r)
               (ledger_entries w1)) = 3"
    by (simp add: les)
  from r1 second one three show ?thesis by simp
qed

text \<open>
  Scenario B: on a state with a fresh RELIANCE price and no rewards, reward
  (1, RELIANCE, 2.5, T) is recorded and its repetition is rejected; 3 entries exist.
\<close>

theorem identical_reward_rejected_witness:
  "fst (CreateReward calm 2000 reliance_priced 1 ''RELIANCE'' (5 / 2) 1500) = None \<and>
   CreateReward calm 3000
       (snd (CreateReward calm 2000 reliance_priced 1 ''RELIANCE'' (5 / 2) 1500))
       1 ''RELIANCE'' (5 / 2) 1500
     = (Some DuplicateReward,
        snd (CreateReward calm 2000 reliance_priced 1 ''RELIANCE'' (5 / 2) 1500)) \<and>
   length (ledger_entries (snd (CreateReward calm 3000
       (snd (CreateReward calm 2000 reliance_priced 1 ''RELIANCE'' (5 / 2) 1500))
       1 ''RELIANCE'' (5 / 2) 1500))) = 3"
proof -
  let ?first = "CreateReward calm 2000 reliance_priced 1 ''RELIANCE'' (5 / 2) 1500"
  let ?second = "CreateReward calm 3000 (snd ?first) 1 ''RELIANCE'' (5 / 2) 1500"
  have v1: "ValidateStockSymbol ''RELIANCE'' = None"
    by (simp add: ValidateStockSymbol_def)
  have v2: "ValidateQuantity (5 / 2) = None"
    by (simp add: ValidateQuantity_def)
  have fresh: "find_duplicate reliance_priced 1 ''RELIANCE'' (Round 6 (5 / 2)) 1500 = None"
    by (simp add: find_duplicate_def)
  have keys: "keys_consistent reliance_priced"
    by (simp add: keys_consistent_def)
  have c1: "?first = (fst ?first, snd ?first)" by simp
  have c2: "?second = (fst ?second, snd ?second)" by simp
  from identical_reward_rejected [OF v1 v2 fresh keys calm_fails calm_fails calm_fails
      calm_fails calm_fails calm_fails c1 c2 v2 refl]
  have "fst ?first = None" and "fst ?second = Some DuplicateReward"
    and "snd ?second = snd ?first"
    by simp_all
  moreover have "length (ledger_entries (snd ?first)) = 3"
    by (simp add: scenario_A)
  ultimately show ?thesis by (simp add: prod_eq_iff)
qed

section \<open>Reversal\<close>

lemma reversal_loop_eq:
  "reversal_loop now entries acc = acc @ map (reversal_of now) entries"
  by (induction entries arbitrary: acc) simp_all

lemma length_assign_ids [simp]: "length (assign_ids n now entries) = length entries"
  by (induction entries arbitrary: n) simp_all

lemma assign_ids_append:
  "assign_ids n now (xs @ ys) = assign_ids n now xs @ assign_ids (n + length xs) now ys"
  by (induction xs arbitrary: n) simp_all

lemma filter_reward_assign_ids:
  assumes "\<forall>le\<in>set entries. le_RewardEventID le = rid"
  shows "filter (\<lambda>le. le_RewardEventID le = rid) (assign_ids n now entries)
           = assign_ids n now entries"
  using assms by (induction entries arbitrary: n) simp_all

lemma map_assign_ids:
  assumes "\<And>x k t. f (x\<lparr>le_ID := k, le_CreatedAt := t\<rparr>) = f x"
  shows "map f (assign_ids n now entries) = map f entries"
  by (induction entries arbitrary: n) (simp_all add: assms)

lemma CreateReversalEntries_success:
  assumes "CreateReversalEntries e now w rewardEvent = (None, w')"
  shows "entries_of_reward w (re_ID rewardEvent) \<noteq> []"
    and "w' = w\<lparr>ledger_entries := ledger_entries w @
               assign_ids (next_ledger_id w) now
                 (map (reversal_of now) (entries_of_reward w (re_ID rewardEvent))),
             next_ledger_id := next_ledger_id w
               + length (entries_of_reward w (re_ID rewardEvent))\<rparr>"
  using assms
  by (auto simp: CreateReversalEntries_def reversal_loop_eq create_entries_def Let_def
      split: if_splits)

lemma entries_of_reward_after:
  assumes "CreateReversalEntries e now w rewardEvent = (None, w')"
  shows "entries_of_reward w' (re_ID rewardEvent) =
     entries_of_reward w (re_ID rewardEvent) @
     assign_ids (next_ledger_id w) now
       (map (reversal_of now) (entries_of_reward w (re_ID rewardEvent)))"
proof -
  let ?rid = "re_ID rewardEvent"
  have "filter (\<lambda>le. le_RewardEventID le = ?rid)
          (assign_ids n now (map (reversal_of now) (entries_of_reward w ?rid)))
        = assign_ids n now (map (reversal_of now) (entries_of_reward w ?rid))" for n
    by (rule filter_reward_assign_ids) (simp add: entries_of_reward_def reversal_of_def)
  then show ?thesis
    unfolding CreateReversalEntries_success(2) [OF assms]
    by (simp add: entries_of_reward_def)
qed

subsection \<open>Summed quantities\<close>

lemma total_qty_append:
  "total_qty (xs @ ys) symbol = total_qty xs symbol + total_qty ys symbol"
  by (simp add: total_qty_def)

lemma stock_rows_Nil [simp]: "stock_rows cond res [] = []"
  by (simp add: stock_rows_def)

lemma stock_rows_append:
  "stock_rows cond res (xs @ ys) = stock_rows cond res xs @ stock_rows cond res ys"
  by (simp add: stock_rows_def)

lemma total_qty_stock_rows_Cons:
  "total_qty (stock_rows cond res (le # les)) symbol =
     total_qty (stock_rows cond res [le]) symbol + total_qty (stock_rows cond res les) symbol"
proof -
  have "le # les = [le] @ les" by simp
  then show ?thesis by (simp only: stock_rows_append total_qty_append)
qed

lemma total_qty_replicated:
  "total_qty (map (\<lambda>re. (s, q)) rs) symbol = (if s = symbol then of_nat (length rs) * q else 0)"
  by (induction rs) (auto simp: total_qty_def algebra_simps comp_def)

lemma total_qty_single_reversal:
  "total_qty (stock_rows cond res [(reversal_of now le)\<lparr>le_ID := k, le_CreatedAt := t\<rparr>]) symbol
     = - total_qty (stock_rows cond res [le]) symbol"
  by (cases "le_StockSymbol le")
     (simp_all add: stock_rows_def reversal_of_def total_qty_replicated, simp_all add: total_qty_def)

lemma total_qty_reversals:
  "total_qty (stock_rows cond res (assign_ids n now (map (reversal_of now) les))) symbol
     = - total_qty (stock_rows cond res les) symbol"
proof (induction les arbitrary: n)
  case Nil
  show ?case by (simp add: total_qty_def)
next
  case (Cons le les)
  let ?x = "(reversal_of now le)\<lparr>le_ID := n, le_CreatedAt := now\<rparr>"
  let ?rest = "assign_ids (Suc n) now (map (reversal_of now) les)"
  have "assign_ids n now (map (reversal_of now) (le # les)) = ?x # ?rest"
    by simp
  then have "total_qty (stock_rows cond res (assign_ids n now (map (reversal_of now) (le # les)))) symbol
      = total_qty (stock_rows cond res [?x]) symbol + total_qty (stock_rows cond res ?rest) symbol"
    using total_qty_stock_rows_Cons [of cond res ?x ?rest symbol] by (simp only:)
  also have "\<dots> = - total_qty (stock_rows cond res [le]) symbol
                   - total_qty (stock_rows cond res les) symbol"
    using total_qty_single_reversal [where cond = cond and res = res and now = now and le = le
        and k = n and t = now and symbol = symbol] Cons.IH [of "Suc n"]
    by linarith
  also have "\<dots> = - total_qty (stock_rows cond res (le # les)) symbol"
    using total_qty_stock_rows_Cons [of cond res le les symbol] by linarith
  finally show ?case .
qed

lemma total_qty_partition:
  "total_qty (stock_rows cond res les) symbol =
     total_qty (stock_rows cond res (filter (\<lambda>le. le_RewardEventID le = rid) les)) symbol
     + total_qty (stock_rows cond res (filter (\<lambda>le. le_RewardEventID le \<noteq> rid) les)) symbol"
proof (induction les)
  case Nil
  show ?case by (simp add: total_qty_def)
next
  case (Cons le les)
  let ?mine = "filter (\<lambda>le. le_RewardEventID le = rid) les"
  let ?others = "filter (\<lambda>le. le_RewardEventID le \<noteq> rid) les"
  show ?case
  proof (cases "le_RewardEventID le = rid")
    case True
    then have f: "filter (\<lambda>le. le_RewardEventID le = rid) (le # les) = le # ?mine"
      "filter (\<lambda>le. le_RewardEventID le \<noteq> rid) (le # les) = ?others"
      by simp_all
    show ?thesis
      unfolding f
      using Cons.IH total_qty_stock_rows_Cons [of cond res le les symbol]
        total_qty_stock_rows_Cons [of cond res le ?mine symbol]
      by linarith
  next
    case False
    then have f: "filter (\<lambda>le. le_RewardEventID le = rid) (le # les) = ?mine"
      "filter (\<lambda>le. le_RewardEventID le \<noteq> rid) (le # les) = le # ?others"
      by simp_all
    show ?thesis
      unfolding f
      using Cons.IH total_qty_stock_rows_Cons [of cond res le les symbol]
        total_qty_stock_rows_Cons [of cond res le ?others symbol]
      by linarith
  qed
qed

lemma total_qty_after_reversal:
  assumes "CreateReversalEntries e now w rewardEvent = (None, w')"
  shows "total_qty (stock_rows cond (reward_events w') (ledger_entries w')) symbol =
     total_qty (stock_rows cond (reward_events w)
        (filter (\<lambda>le. le_RewardEventID le \<noteq> re_ID rewardEvent) (ledger_entries w))) symbol"
  unfolding CreateReversalEntries_success(2) [OF assms]
  by (simp add: stock_rows_append total_qty_append total_qty_reversals entries_of_reward_def
      total_qty_partition [of cond "reward_events w" "ledger_entries w" symbol "re_ID rewardEvent"])

lemma total_qty_absent:
  assumes "symbol \<notin> fst ` set rows"
  shows "total_qty rows symbol = 0"
proof -
  from assms have "filter (\<lambda>r. fst r = symbol) rows = []"
    by (auto simp: filter_empty_conv)
  then show ?thesis by (simp add: total_qty_def)
qed

lemma map_of_filter_keys:
  "map_of (filter (\<lambda>(symbol, total). total > (0::rat)) (map (\<lambda>symbol. (symbol, f symbol)) keys)) k
     = (if k \<in> set keys \<and> f k > 0 then Some (f k) else None)"
  by (induction keys) auto

lemma map_of_group_having:
  "map_of (group_having rows) symbol =
     (if total_qty rows symbol > 0 then Some (total_qty rows symbol) else None)"
proof (cases "symbol \<in> fst ` set rows")
  case True
  then show ?thesis by (simp add: group_having_def map_of_filter_keys)
next
  case False
  then have "total_qty rows symbol = 0" by (rule total_qty_absent)
  with False show ?thesis by (simp add: group_having_def map_of_filter_keys)
qed

lemma sum_kind_reversals:
  "sum_list (map le_Quantity (filter (\<lambda>l. le_EntryType l = kind)
       (assign_ids n now (map (reversal_of now) les))))
     = - sum_list (map le_Quantity (filter (\<lambda>l. le_EntryType l = kind) les))"
  "sum_list (map le_AmountINR (filter (\<lambda>l. le_EntryType l = kind)
       (assign_ids n now (map (reversal_of now) les))))
     = - sum_list (map le_AmountINR (filter (\<lambda>l. le_EntryType l = kind) les))"
  by (induction les arbitrary: n) (simp_all add: reversal_of_def)

text \<open>
  The state with the ledger entries of one reward left out: what the other rewards
  contribute.
\<close>

definition without_reward :: "world \<Rightarrow> nat \<Rightarrow> world" where
  "without_reward w rewardID =
     w\<lparr>ledger_entries := filter (\<lambda>le. le_RewardEventID le \<noteq> rewardID) (ledger_entries w)\<rparr>"

lemma holdings_after_reversal:
  assumes "CreateReversalEntries e now w rewardEvent = (None, w')"
  shows "map_of (group_having (stock_rows cond (reward_events w') (ledger_entries w'))) =
     map_of (group_having (stock_rows cond (reward_events (without_reward w (re_ID rewardEvent)))
        (ledger_entries (without_reward w (re_ID rewardEvent)))))"
  by (rule ext)
     (simp add: map_of_group_having total_qty_after_reversal [OF assms] without_reward_def)

text \<open>The state after Scenario A and the reward it recorded.\<close>

definition reliance_reward :: RewardEvent where
  "reliance_reward =
     \<lparr>re_ID = 1, re_UserID = 1, re_StockSymbol = ''RELIANCE'', re_Quantity = 5 / 2,
      re_Timestamp = 1500, re_CreatedAt = 2000, re_UpdatedAt = 2000, re_DeletedAt = None\<rparr>"

definition reliance_rewarded :: world where
  "reliance_rewarded =
     reliance_priced\<lparr>reward_events := [reliance_reward],
         next_reward_id := 2,
         ledger_entries :=
           [\<lparr>le_ID = 1, le_RewardEventID = 1, le_EntryType = EntryTypeStock,
             le_StockSymbol = Some ''RELIANCE'', le_Quantity = 5 / 2,
             le_AmountINR = 612625 / 100, le_Timestamp = 1500, le_CreatedAt = 2000\<rparr>,
            \<lparr>le_ID = 2, le_RewardEventID = 1, le_EntryType = EntryTypeCash,
             le_StockSymbol = Some ''RELIANCE'', le_Quantity = 0,
             le_AmountINR = - (612625 / 100), le_Timestamp = 1500, le_CreatedAt = 2000\<rparr>,
            \<lparr>le_ID = 3, le_RewardEventID = 1, le_EntryType = EntryTypeFee,
             le_StockSymbol = Some ''RELIANCE'', le_Quantity = 0,
             le_AmountINR = - (82949 / 10000), le_Timestamp = 1500, le_CreatedAt = 2000\<rparr>],
         next_ledger_id := 4\<rparr>"

lemma reliance_rewarded_is_scenario_A:
  "CreateReward calm 2000 reliance_priced 1 ''RELIANCE'' (5 / 2) 1500 = (None, reliance_rewarded)"
  by (simp add: scenario_A reliance_rewarded_def reliance_reward_def)

lemma reliance_rewarded_fields [simp]:
  "reward_events reliance_rewarded = [reliance_reward]"
  "ledger_entries reliance_rewarded =
           [\<lparr>le_ID = 1, le_RewardEventID = 1, le_EntryType = EntryTypeStock,
             le_StockSymbol = Some ''RELIANCE'', le_Quantity = 5 / 2,
             le_AmountINR = 612625 / 100, le_Timestamp = 1500, le_CreatedAt = 2000\<rparr>,
            \<lparr>le_ID = 2, le_RewardEventID = 1, le_EntryType = EntryTypeCash,
             le_StockSymbol = Some ''RELIANCE'', le_Quantity = 0,
             le_AmountINR = - (612625 / 100), le_Timestamp = 1500, le_CreatedAt = 2000\<rparr>,
            \<lparr>le_ID = 3, le_RewardEventID = 1, le_EntryType = EntryTypeFee,
             le_StockSymbol = Some ''RELIANCE'', le_Quantity = 0,
             le_AmountINR = - (82949 / 10000), le_Timestamp = 1500, le_CreatedAt = 2000\<rparr>]"
  "next_ledger_id reliance_rewarded = 4" "next_reward_id reliance_rewarded = 2"
  by (simp_all add: reliance_rewarded_def)

lemma reliance_reward_fields [simp]:
  "re_ID reliance_reward = 1" "re_UserID reliance_reward = 1"
  "re_StockSymbol reliance_reward = ''RELIANCE''" "re_Quantity reliance_reward = 5 / 2"
  "re_Timestamp reliance_reward = 1500" "re_DeletedAt reliance_reward = None"
  by (simp_all add: reliance_reward_def)

text \<open>The first reversal of that reward, at instant 9000.\<close>

lemma first_reversal:
  "CreateReversalEntries calm 9000 reliance_rewarded reliance_reward =
     (None,
      reliance_rewarded\<lparr>ledger_entries := ledger_entries reliance_rewarded @
           [\<lparr>le_ID = 4, le_RewardEventID = 1, le_EntryType = EntryTypeStock,
             le_StockSymbol = Some ''RELIANCE'', le_Quantity = - (5 / 2),
             le_AmountINR = - (612625 / 100), le_Timestamp = 9000, le_CreatedAt = 9000\<rparr>,
            \<lparr>le_ID = 5, le_RewardEventID = 1, le_EntryType = EntryTypeCash,
             le_StockSymbol = Some ''RELIANCE'', le_Quantity = 0,
             le_AmountINR = 612625 / 100, le_Timestamp = 9000, le_CreatedAt = 9000\<rparr>,
            \<lparr>le_ID = 6, le_RewardEventID = 1, le_EntryType = EntryTypeFee,
             le_StockSymbol = Some ''RELIANCE'', le_Quantity = 0,
             le_AmountINR = 82949 / 10000, le_Timestamp = 9000, le_CreatedAt = 9000\<rparr>],
         next_ledger_id := 7\<rparr>)"
  by (simp add: CreateReversalEntries_def entries_of_reward_def reversal_of_def
      create_entries_def eval_nat_numeral)

text \<open>
  C5. After a successful CreateReversalEntries the reward's entries are the ones it
  had, followed by one counterpart for each of them with the same kind and symbol and
  with negated quantity and negated amount. So for every entry kind the reward's
  quantities and amounts sum to zero, and every user's holdings are the holdings
  computed without that reward's entries.
\<close>

theorem reversal_nullifies:
  assumes "CreateReversalEntries e now w rewardEvent = (None, w')"
  shows "let rid = re_ID rewardEvent;
             before = entries_of_reward w rid;
             after = entries_of_reward w' rid;
             added = drop (length before) after
         in take (length before) after = before \<and> length added = length before \<and>
            map le_EntryType added = map le_EntryType before \<and>
            map le_StockSymbol added = map le_StockSymbol before \<and>
            map le_Quantity added = map (\<lambda>l. - le_Quantity l) before \<and>
            map le_AmountINR added = map (\<lambda>l. - le_AmountINR l) before \<and>
            (\<forall>kind.
               sum_list (map le_Quantity (filter (\<lambda>l. le_EntryType l = kind) after)) = 0 \<and>
               sum_list (map le_AmountINR (filter (\<lambda>l. le_EntryType l = kind) after)) = 0) \<and>
            (\<forall>userID. map_of (holdings_of w' userID)
                         = map_of (holdings_of (without_reward w rid) userID))"
proof -
  let ?rid = "re_ID rewardEvent"
  let ?before = "entries_of_reward w ?rid"
  let ?added = "assign_ids (next_ledger_id w) now (map (reversal_of now) ?before)"
  have after: "entries_of_reward w' ?rid = ?before @ ?added"
    using assms by (rule entries_of_reward_after)
  have kinds: "map le_EntryType ?added = map le_EntryType ?before"
    by (subst map_assign_ids) (simp_all add: reversal_of_def comp_def)
  have syms: "map le_StockSymbol ?added = map le_StockSymbol ?before"
    by (subst map_assign_ids) (simp_all add: reversal_of_def comp_def)
  have qtys: "map le_Quantity ?added = map (\<lambda>l. - le_Quantity l) ?before"
    by (subst map_assign_ids) (simp_all add: reversal_of_def comp_def)
  have amts: "map le_AmountINR ?added = map (\<lambda>l. - le_AmountINR l) ?before"
    by (subst map_assign_ids) (simp_all add: reversal_of_def comp_def)
  have sums: "sum_list (map le_Quantity (filter (\<lambda>l. le_EntryType l = kind)
                  (entries_of_reward w' ?rid))) = 0 \<and>
              sum_list (map le_AmountINR (filter (\<lambda>l. le_EntryType l = kind)
                  (entries_of_reward w' ?rid))) = 0" for kind
    unfolding after by (simp add: sum_kind_reversals)
  have hold: "map_of (holdings_of w' userID)
                = map_of (holdings_of (without_reward w ?rid) userID)" for userID
    unfolding holdings_of_def by (rule holdings_after_reversal [OF assms])
  show ?thesis
    unfolding Let_def after
    using kinds syms qtys amts sums [unfolded after] hold by simp
qed

text \<open>
  Reversing the reward of Scenario A once: user 1 held 2.5 RELIANCE before and holds
  nothing afterwards; the reward then has 6 entries.
\<close>

theorem reversal_nullifies_witness:
  "map_of (holdings_of reliance_rewarded 1) ''RELIANCE'' = Some (5 / 2) \<and>
   map_of (holdings_of (snd (CreateReversalEntries calm 9000 reliance_rewarded reliance_reward)) 1)
      ''RELIANCE'' = None \<and>
   length (entries_of_reward
      (snd (CreateReversalEntries calm 9000 reliance_rewarded reliance_reward)) 1) = 6"
proof -
  let ?w' = "snd (CreateReversalEntries calm 9000 reliance_rewarded reliance_reward)"
  have ok: "CreateReversalEntries calm 9000 reliance_rewarded reliance_reward = (None, ?w')"
    by (simp add: first_reversal)
  from reversal_nullifies [OF ok]
  have "map_of (holdings_of ?w' 1) = map_of (holdings_of (without_reward reliance_rewarded 1) 1)"
    and "length (drop (length (entries_of_reward reliance_rewarded 1)) (entries_of_reward ?w' 1))
          = length (entries_of_reward reliance_rewarded 1)"
    by (simp_all add: Let_def)
  moreover have "holdings_of (without_reward reliance_rewarded 1) 1 = []"
    by (simp add: holdings_of_def without_reward_def stock_rows_def group_having_def)
  moreover have "holdings_of reliance_rewarded 1 = [(''RELIANCE'', 5 / 2)]"
    by (simp add: holdings_of_def stock_rows_def group_having_def total_qty_def)
  moreover have "length (entries_of_reward reliance_rewarded 1) = 3"
    by (simp add: entries_of_reward_def)
  moreover have "length (entries_of_reward ?w' 1) = 6"
    by (simp add: first_reversal entries_of_reward_def)
  ultimately show ?thesis by simp
qed
lemma reversal_row:
  assumes "l \<in> set (assign_ids n now (map (reversal_of now) entries))"
  shows "\<exists>x\<in>set entries. le_Timestamp l = now \<and> le_RewardEventID l = le_RewardEventID x"
  using assms by (induction entries arbitrary: n) (auto simp: reversal_of_def)

text \<open>
  C10. After a successful CreateReversalEntries, the holdings as of any instant \<open>t\<close>
  (also one before the reversal was made) are the holdings computed without the
  reversed reward's entries: the added rows carry the instant of the reversal as
  their own timestamp and the reward's key as their reference, and the as-of query
  filters on the reward's timestamp.
\<close>

theorem reversal_is_retroactive:
  assumes "CreateReversalEntries e now w rewardEvent = (None, w')"
  shows "(\<forall>userID t. map_of (holdings_up_to w' userID t)
                        = map_of (holdings_up_to (without_reward w (re_ID rewardEvent)) userID t)) \<and>
         (\<forall>l\<in>set (drop (length (ledger_entries w)) (ledger_entries w')).
            le_Timestamp l = now \<and> le_RewardEventID l = re_ID rewardEvent)"
proof -
  let ?rid = "re_ID rewardEvent"
  let ?added = "assign_ids (next_ledger_id w) now
                  (map (reversal_of now) (entries_of_reward w ?rid))"
  have holdings: "map_of (holdings_up_to w' userID t)
          = map_of (holdings_up_to (without_reward w ?rid) userID t)" for userID t
    unfolding holdings_up_to_def by (rule holdings_after_reversal [OF assms])
  have "ledger_entries w' = ledger_entries w @ ?added"
    unfolding CreateReversalEntries_success(2) [OF assms] by simp
  then have added: "drop (length (ledger_entries w)) (ledger_entries w') = ?added"
    by simp
  have "le_Timestamp l = now \<and> le_RewardEventID l = ?rid" if "l \<in> set ?added" for l
  proof -
    from reversal_row [OF that] obtain x where "x \<in> set (entries_of_reward w ?rid)"
      and "le_Timestamp l = now" and "le_RewardEventID l = le_RewardEventID x"
      by blast
    then show ?thesis by (simp add: entries_of_reward_def)
  qed
  with holdings show ?thesis unfolding added by blast
qed

text \<open>
  The reward of Scenario A (event timestamp 1500) is reversed at instant 9000. As of
  instant 5000, before the reversal, user 1 held 2.5 RELIANCE in the state before the
  reversal and holds nothing in the state after it.
\<close>

theorem reversal_is_retroactive_witness:
  "map_of (holdings_up_to reliance_rewarded 1 5000) ''RELIANCE'' = Some (5 / 2) \<and>
   map_of (holdings_up_to
      (snd (CreateReversalEntries calm 9000 reliance_rewarded reliance_reward)) 1 5000)
      ''RELIANCE'' = None"
proof -
  let ?w' = "snd (CreateReversalEntries calm 9000 reliance_rewarded reliance_reward)"
  have ok: "CreateReversalEntries calm 9000 reliance_rewarded reliance_reward = (None, ?w')"
    by (simp add: first_reversal)
  from reversal_is_retroactive [OF ok]
  have "map_of (holdings_up_to ?w' 1 5000)
          = map_of (holdings_up_to (without_reward reliance_rewarded 1) 1 5000)"
    by simp
  moreover have "holdings_up_to (without_reward reliance_rewarded 1) 1 5000 = []"
    by (simp add: holdings_up_to_def without_reward_def stock_rows_def group_having_def)
  moreover have "holdings_up_to reliance_rewarded 1 5000 = [(''RELIANCE'', 5 / 2)]"
    by (simp add: holdings_up_to_def stock_rows_def group_having_def total_qty_def)
  ultimately show ?thesis by simp
qed
subsection \<open>Repeated reversal\<close>

lemma sum_reversals:
  "sum_list (map le_Quantity (assign_ids n now (map (reversal_of now) les)))
     = - sum_list (map le_Quantity les)"
  "sum_list (map le_AmountINR (assign_ids n now (map (reversal_of now) les)))
     = - sum_list (map le_AmountINR les)"
  by (induction les arbitrary: n) (simp_all add: reversal_of_def)

lemma first_reversal_entries:
  "entries_of_reward (snd (CreateReversalEntries calm 9000 reliance_rewarded reliance_reward))
     (Suc 0) =
      ledger_entries reliance_rewarded @
           [\<lparr>le_ID = 4, le_RewardEventID = 1, le_EntryType = EntryTypeStock,
             le_StockSymbol = Some ''RELIANCE'', le_Quantity = - (5 / 2),
             le_AmountINR = - (612625 / 100), le_Timestamp = 9000, le_CreatedAt = 9000\<rparr>,
            \<lparr>le_ID = 5, le_RewardEventID = 1, le_EntryType = EntryTypeCash,
             le_StockSymbol = Some ''RELIANCE'', le_Quantity = 0,
             le_AmountINR = 612625 / 100, le_Timestamp = 9000, le_CreatedAt = 9000\<rparr>,
            \<lparr>le_ID = 6, le_RewardEventID = 1, le_EntryType = EntryTypeFee,
             le_StockSymbol = Some ''RELIANCE'', le_Quantity = 0,
             le_AmountINR = 82949 / 10000, le_Timestamp = 9000, le_CreatedAt = 9000\<rparr>]"
  by (simp add: first_reversal entries_of_reward_def)

lemma second_reversal_succeeds:
  "CreateReversalEntries calm 9500
      (snd (CreateReversalEntries calm 9000 reliance_rewarded reliance_reward)) reliance_reward
   = (None, snd (CreateReversalEntries calm 9500
      (snd (CreateReversalEntries calm 9000 reliance_rewarded reliance_reward)) reliance_reward))"
  using first_reversal_entries
  by (simp add: CreateReversalEntries_def reversal_loop_eq Let_def)

text \<open>
  C4, as stated: after the n-th reversal the reward has 3 + 3n entries. The reward of
  Scenario A, reversed twice, has 12 entries, not 3 + 3 * 2.
\<close>

theorem second_reversal_counterexample:
  "length (entries_of_reward
     (snd (CreateReversalEntries calm 9500
        (snd (CreateReversalEntries calm 9000 reliance_rewarded reliance_reward))
        reliance_reward)) 1) \<noteq> 3 + 3 * 2"
  using entries_of_reward_after [OF second_reversal_succeeds]
  by (simp add: first_reversal_entries)

text \<open>
  C4, amended. Every successful CreateReversalEntries negates all entries stored for
  the reward at that moment, the rows of earlier reversals included: it appends one
  row per stored entry, with negated quantity and amount, so the number of the
  reward's entries doubles, and after it the reward's quantities and amounts sum to
  zero.
\<close>

theorem reversal_doubles_entries:
  assumes "CreateReversalEntries e now w rewardEvent = (None, w')"
  shows "length (entries_of_reward w' (re_ID rewardEvent))
           = 2 * length (entries_of_reward w (re_ID rewardEvent)) \<and>
         map (\<lambda>l. (le_EntryType l, le_Quantity l, le_AmountINR l))
             (drop (length (entries_of_reward w (re_ID rewardEvent)))
                (entries_of_reward w' (re_ID rewardEvent)))
           = map (\<lambda>l. (le_EntryType l, - le_Quantity l, - le_AmountINR l))
               (entries_of_reward w (re_ID rewardEvent)) \<and>
         sum_list (map le_Quantity (entries_of_reward w' (re_ID rewardEvent))) = 0 \<and>
         sum_list (map le_AmountINR (entries_of_reward w' (re_ID rewardEvent))) = 0"
proof -
  let ?before = "entries_of_reward w (re_ID rewardEvent)"
  let ?added = "assign_ids (next_ledger_id w) now (map (reversal_of now) ?before)"
  have "map (\<lambda>l. (le_EntryType l, le_Quantity l, le_AmountINR l)) ?added
      = map (\<lambda>l. (le_EntryType l, - le_Quantity l, - le_AmountINR l)) ?before"
    by (subst map_assign_ids) (simp_all add: reversal_of_def comp_def)
  then show ?thesis
    unfolding entries_of_reward_after [OF assms] by (simp add: sum_reversals)
qed

text \<open>
  The second reversal of the reward of Scenario A: 12 entries afterwards; its 6 rows
  negate the 3 original rows and the 3 rows of the first reversal.
\<close>

theorem reversal_doubles_entries_witness:
  "length (entries_of_reward
     (snd (CreateReversalEntries calm 9500
        (snd (CreateReversalEntries calm 9000 reliance_rewarded reliance_reward))
        reliance_reward)) 1) = 12 \<and>
   map (\<lambda>l. (le_EntryType l, le_Quantity l, le_AmountINR l))
     (drop 6 (entries_of_reward
       (snd (CreateReversalEntries calm 9500
          (snd (CreateReversalEntries calm 9000 reliance_rewarded reliance_reward))
          reliance_reward)) 1))
   = [(EntryTypeStock, - (5 / 2), - (612625 / 100)),
      (EntryTypeCash, 0, 612625 / 100),
      (EntryTypeFee, 0, 82949 / 10000),
      (EntryTypeStock, 5 / 2, 612625 / 100),
      (EntryTypeCash, 0, - (612625 / 100)),
      (EntryTypeFee, 0, - (82949 / 10000))]"
  using reversal_doubles_entries [OF second_reversal_succeeds]
  by (simp add: first_reversal_entries eval_nat_numeral)

section \<open>Holdings as sums over the joined rows\<close>

lemma sum_list_matching:
  "sum_list (concat (map (\<lambda>re. if P re then [q] else []) res))
     = of_nat (length (filter P res)) * (q::rat)"
  by (induction res) (simp_all add: algebra_simps)

lemma concat_no_rows: "concat (map (\<lambda>re. []) res) = []"
  by (induction res) simp_all

lemma total_qty_single:
  "total_qty (stock_rows cond res [le]) symbol =
     sum_list [le_Quantity le. re \<leftarrow> res,
        re_ID re = le_RewardEventID le \<and> cond re \<and> le_EntryType le = EntryTypeStock
          \<and> le_StockSymbol le = Some symbol]"
proof (cases "le_EntryType le = EntryTypeStock \<and> le_StockSymbol le = Some symbol")
  case True
  then show ?thesis
    by (simp add: stock_rows_def total_qty_replicated sum_list_matching)
next
  case False
  then have "total_qty (stock_rows cond res [le]) symbol = 0"
    by (cases "le_StockSymbol le")
       (auto simp: stock_rows_def total_qty_replicated total_qty_def)
  moreover from False have "(\<lambda>re. if re_ID re = le_RewardEventID le \<and> cond re
        \<and> le_EntryType le = EntryTypeStock \<and> le_StockSymbol le = Some symbol
        then [le_Quantity le] else []) = (\<lambda>re. [])"
    by auto
  ultimately show ?thesis by (simp add: concat_no_rows)
qed

lemma total_qty_joined:
  "total_qty (stock_rows cond res les) symbol =
     sum_list [le_Quantity le. le \<leftarrow> les, re \<leftarrow> res,
        re_ID re = le_RewardEventID le \<and> cond re \<and> le_EntryType le = EntryTypeStock
          \<and> le_StockSymbol le = Some symbol]"
proof (induction les)
  case Nil
  show ?case by (simp add: total_qty_def)
next
  case (Cons le les)
  show ?case
    using total_qty_stock_rows_Cons [of cond res le les symbol]
      total_qty_single [of cond res le symbol] Cons.IH
    by simp
qed

lemma group_having_keys:
  "group_having rows =
     map (\<lambda>symbol. (symbol, total_qty rows symbol))
       (filter (\<lambda>symbol. 0 < total_qty rows symbol) (remdups (map fst rows)))"
  by (simp add: group_having_def filter_map comp_def)

lemma held_symbols:
  "set (filter (\<lambda>symbol. 0 < total_qty rows symbol) (remdups (map fst rows)))
     = {symbol. 0 < total_qty rows symbol}"
proof -
  have "symbol \<in> fst ` set rows" if "0 < total_qty rows symbol" for symbol
    using that total_qty_absent [of symbol rows] by fastforce
  then show ?thesis by auto
qed

lemma distinct_group_having: "distinct (map fst (group_having rows))"
  by (simp add: group_having_keys comp_def)

lemma set_group_having:
  "set (group_having rows) = (\<lambda>symbol. (symbol, total_qty rows symbol)) ` {symbol. 0 < total_qty rows symbol}"
  unfolding group_having_keys set_map held_symbols by (rule refl)

lemma sum_list_group_having:
  "(\<Sum>(symbol, qty)\<leftarrow>filter (\<lambda>(symbol, qty). P symbol) (group_having rows). F symbol qty)
     = (\<Sum>symbol | 0 < total_qty rows symbol \<and> P symbol. (F symbol (total_qty rows symbol) :: rat))"
proof -
  let ?keys = "filter (\<lambda>symbol. 0 < total_qty rows symbol) (remdups (map fst rows))"
  have "filter (\<lambda>(symbol, qty). P symbol) (group_having rows)
      = map (\<lambda>symbol. (symbol, total_qty rows symbol)) (filter P ?keys)"
    by (simp add: group_having_keys filter_map comp_def)
  then have "(\<Sum>(symbol, qty)\<leftarrow>filter (\<lambda>(symbol, qty). P symbol) (group_having rows). F symbol qty)
      = (\<Sum>symbol\<leftarrow>filter P ?keys. F symbol (total_qty rows symbol))"
    by (simp add: comp_def)
  also have "\<dots> = sum (\<lambda>symbol. F symbol (total_qty rows symbol)) (set (filter P ?keys))"
    by (rule sum_list_distinct_conv_sum_set) simp
  also have "set (filter P ?keys) = {symbol. 0 < total_qty rows symbol \<and> P symbol}"
    using held_symbols [of rows] by auto
  finally show ?thesis .
qed

lemma sum_list_group_having_all:
  "(\<Sum>(symbol, qty)\<leftarrow>group_having rows. F symbol qty)
     = (\<Sum>symbol | 0 < total_qty rows symbol. (F symbol (total_qty rows symbol) :: rat))"
  using sum_list_group_having [where P = "\<lambda>symbol. True" and rows = rows and F = F] by simp

lemma held_up_to:
  "total_qty (stock_rows (\<lambda>re. re_UserID re = userID \<and> re_DeletedAt re = None
                                  \<and> re_Timestamp re \<le> t)
                (reward_events w) (ledger_entries w)) symbol
     = sum_list [le_Quantity le. le \<leftarrow> ledger_entries w, re \<leftarrow> reward_events w,
          re_ID re = le_RewardEventID le \<and> re_UserID re = userID \<and> re_DeletedAt re = None
            \<and> re_Timestamp re \<le> t \<and> le_EntryType le = EntryTypeStock
            \<and> le_StockSymbol le = Some symbol]"
  by (simp add: total_qty_joined)

lemma held_now:
  "total_qty (stock_rows (\<lambda>re. re_UserID re = userID \<and> re_DeletedAt re = None)
                (reward_events w) (ledger_entries w)) symbol
     = sum_list [le_Quantity le. le \<leftarrow> ledger_entries w, re \<leftarrow> reward_events w,
          re_ID re = le_RewardEventID le \<and> re_UserID re = userID \<and> re_DeletedAt re = None
            \<and> le_EntryType le = EntryTypeStock \<and> le_StockSymbol le = Some symbol]"
  by (simp add: total_qty_joined)

section \<open>Historical daily values\<close>

lemma Round_zero [simp]: "Round n 0 = 0"
proof -
  have "\<lfloor>(1::rat) / 2\<rfloor> = 0" by (simp add: floor_eq_iff)
  then show ?thesis by (simp add: Round_def)
qed


lemma GetPastDates_loop_days:
  "GetPastDates_loop (a * nsPerDay) (b * nsPerDay) dates
     = dates @ map (\<lambda>k. k * nsPerDay) [a..b]"
proof (induction "nat (b + 1 - a)" arbitrary: a dates)
  case 0
  then have "b < a" by simp
  then have "a * nsPerDay > b * nsPerDay" by (simp add: nsPerDay_def)
  then show ?case
    using \<open>b < a\<close> by (subst GetPastDates_loop.simps) simp
next
  case (Suc n)
  then have le: "a \<le> b" and n: "n = nat (b + 1 - (a + 1))" by linarith+
  have "\<not> a * nsPerDay > b * nsPerDay" using le by (simp add: nsPerDay_def)
  then have "GetPastDates_loop (a * nsPerDay) (b * nsPerDay) dates
      = GetPastDates_loop ((a + 1) * nsPerDay) (b * nsPerDay) (dates @ [a * nsPerDay])"
    by (subst GetPastDates_loop.simps) (simp add: algebra_simps)
  also have "\<dots> = (dates @ [a * nsPerDay]) @ map (\<lambda>k. k * nsPerDay) [a + 1..b]"
    by (rule Suc.hyps(1) [OF n])
  also have "\<dots> = dates @ map (\<lambda>k. k * nsPerDay) [a..b]"
    using le by (simp add: upto_rec1)
  finally show ?case .
qed

lemma GetPastDates_days:
  "GetPastDates (StartOfDayUTC t) (GetYesterday now)
     = map (\<lambda>k. k * nsPerDay) [t div nsPerDay .. now div nsPerDay - 1]"
proof -
  have "StartOfDayUTC (StartOfDayUTC t) = (t div nsPerDay) * nsPerDay"
    by (simp add: StartOfDayUTC_def nsPerDay_def)
  moreover have "(now - nsPerDay) div nsPerDay = now div nsPerDay - 1"
    using div_add_self2 [of nsPerDay "now - nsPerDay"] by (simp add: nsPerDay_def)
  then have "StartOfDayUTC (GetYesterday now) = (now div nsPerDay - 1) * nsPerDay"
    by (simp add: StartOfDayUTC_def GetYesterday_def nsPerDay_def)
  ultimately show ?thesis
    using GetPastDates_loop_days [of "t div nsPerDay" "now div nsPerDay - 1" "[]"]
    by (simp add: GetPastDates_def)
qed

lemma today_not_listed:
  "StartOfDayUTC now \<notin> set (map (\<lambda>k. k * nsPerDay) [a .. now div nsPerDay - 1])"
  by (auto simp: StartOfDayUTC_def nsPerDay_def)

lemma first_by_reward_earliest:
  "first_by reward_before xs = Some r \<Longrightarrow> g \<in> set xs \<Longrightarrow> re_Timestamp r \<le> re_Timestamp g"
proof (induction xs arbitrary: r)
  case Nil
  then show ?case by simp
next
  case (Cons x xs)
  show ?case
  proof (cases "first_by reward_before xs")
    case None
    then have "xs = []" by (simp add: first_by_None_iff)
    with Cons.prems None show ?thesis by simp
  next
    case (Some y)
    note ih = Cons.IH [OF Some]
    show ?thesis
    proof (cases "reward_before y x")
      case True
      with Some Cons.prems(1) have "r = y" by simp
      moreover from True have "re_Timestamp y \<le> re_Timestamp x"
        by (auto simp: reward_before_def)
      ultimately show ?thesis using Cons.prems(2) ih by auto
    next
      case False
      with Some Cons.prems(1) have r: "r = x" by simp
      show ?thesis
      proof (cases "g = x")
        case True
        with r show ?thesis by simp
      next
        case False
        with Cons.prems(2) have "g \<in> set xs" by simp
        then have "re_Timestamp y \<le> re_Timestamp g" by (rule ih)
        then show ?thesis using r \<open>\<not> reward_before y x\<close>
          by (auto simp: reward_before_def)
      qed
    qed
  qed
qed

text \<open>
  The price that GetPriceAtTime finds among the stored samples: the latest sample at or
  before the instant, else (the fallback to GetCurrentPrice) the latest sample if it is
  not stale. \<open>None\<close> when a price would have to be synthesized.
\<close>

definition stored_price_at :: "world \<Rightarrow> time \<Rightarrow> string \<Rightarrow> time \<Rightarrow> decimal option" where
  "stored_price_at w now symbol timestamp =
     (case latest_price_at w symbol timestamp of
        Some priceHistory \<Rightarrow> Some (ph_PriceINR priceHistory)
      | None \<Rightarrow>
          (case latest_price w symbol of
             None \<Rightarrow> None
           | Some priceHistory \<Rightarrow>
               if now - ph_Timestamp priceHistory > 2 * nsPerHour then None
               else Some (ph_PriceINR priceHistory)))"

lemma GetPriceAtTime_stored:
  assumes "\<forall>op. \<not> fails e op" and "stored_price_at w now symbol timestamp = Some p"
  shows "GetPriceAtTime e now w symbol timestamp = (Inr p, w)"
  using assms
  by (auto simp: GetPriceAtTime_def GetCurrentPrice_def stored_price_at_def
      split: option.splits if_splits)

lemma historical_value_loop_stored:
  assumes "\<forall>op. \<not> fails e op"
    and "\<forall>(symbol, qty)\<in>set holdings. stored_price_at w now symbol endOfDate = Some (price symbol)"
  shows "historical_value_loop e now endOfDate holdings totalValue w
           = (totalValue + (\<Sum>(symbol, qty)\<leftarrow>holdings. price symbol * qty), w)"
  using assms(2)
proof (induction holdings arbitrary: totalValue)
  case Nil
  show ?case by simp
next
  case (Cons h holdings)
  obtain symbol qty where h: "h = (symbol, qty)" by (cases h)
  with Cons.prems have "stored_price_at w now symbol endOfDate = Some (price symbol)"
    by simp
  then have "GetPriceAtTime e now w symbol endOfDate = (Inr (price symbol), w)"
    by (rule GetPriceAtTime_stored [OF assms(1)])
  moreover from Cons.prems
  have "\<forall>(symbol, qty)\<in>set holdings. stored_price_at w now symbol endOfDate = Some (price symbol)"
    by simp
  ultimately show ?case
    using h by (simp add: Cons.IH algebra_simps)
qed

lemma historical_loop_stored:
  assumes "\<forall>op. \<not> fails e op"
    and "\<forall>date\<in>set dates. \<forall>(symbol, qty)\<in>set (holdings_up_to w userID (EndOfDayUTC date)).
           stored_price_at w now symbol (EndOfDayUTC date) = Some (price symbol date)"
  shows "historical_loop e now userID dates result w
           = (result @ map (\<lambda>date. (date, RoundINR
                 (\<Sum>(symbol, qty)\<leftarrow>holdings_up_to w userID (EndOfDayUTC date).
                     price symbol date * qty))) dates, w)"
  using assms(2)
proof (induction dates arbitrary: result)
  case Nil
  show ?case by simp
next
  case (Cons date dates)
  from Cons.prems
  have day: "\<forall>(symbol, qty)\<in>set (holdings_up_to w userID (EndOfDayUTC date)).
           stored_price_at w now symbol (EndOfDayUTC date) = Some (price symbol date)"
    and rest: "\<forall>date\<in>set dates. \<forall>(symbol, qty)\<in>set (holdings_up_to w userID (EndOfDayUTC date)).
           stored_price_at w now symbol (EndOfDayUTC date) = Some (price symbol date)"
    by simp_all
  have "historical_value_loop e now (EndOfDayUTC date)
          (holdings_up_to w userID (EndOfDayUTC date)) 0 w
        = (0 + (\<Sum>(symbol, qty)\<leftarrow>holdings_up_to w userID (EndOfDayUTC date).
                   price symbol date * qty), w)"
    using assms(1) day
    by (rule historical_value_loop_stored [where price = "\<lambda>symbol. price symbol date"])
  then show ?case
    using assms(1) by (simp add: GetUserStockHoldingsUpToDate_def Let_def Cons.IH [OF rest])
qed

lemma first_reward_None_iff:
  "first_reward w userID = None \<longleftrightarrow>
     (\<forall>r\<in>set (reward_events w). re_UserID r = userID \<longrightarrow> re_DeletedAt r \<noteq> None)"
  by (auto simp: first_reward_def first_by_None_iff filter_empty_conv)

lemma first_reward_earliest:
  assumes "first_reward w userID = Some firstReward"
  shows "\<forall>r\<in>set (reward_events w). re_UserID r = userID \<and> re_DeletedAt r = None
           \<longrightarrow> re_Timestamp firstReward \<le> re_Timestamp r"
proof (intro ballI impI)
  fix r assume "r \<in> set (reward_events w)" and "re_UserID r = userID \<and> re_DeletedAt r = None"
  then have "r \<in> set (filter (\<lambda>r. re_UserID r = userID \<and> re_DeletedAt r = None)
                      (reward_events w))"
    by simp
  with assms show "re_Timestamp firstReward \<le> re_Timestamp r"
    unfolding first_reward_def by (rule first_by_reward_earliest)
qed

subsection \<open>Prices synthesized along the way\<close>

text \<open>
  \<open>keeps_prices now w w'\<close>: the state \<open>w'\<close> has the rewards and ledger entries of \<open>w\<close>,
  and every price that \<open>w\<close> stores for an instant before \<open>now\<close> is the price \<open>w'\<close> stores
  for it.
\<close>

definition keeps_prices :: "time \<Rightarrow> world \<Rightarrow> world \<Rightarrow> bool" where
  "keeps_prices now w w' \<longleftrightarrow>
     reward_events w' = reward_events w \<and> ledger_entries w' = ledger_entries w \<and>
     (\<forall>symbol t p. t < now \<longrightarrow> stored_price_at w now symbol t = Some p
        \<longrightarrow> stored_price_at w' now symbol t = Some p)"

lemma keeps_prices_refl: "keeps_prices now w w"
  by (simp add: keeps_prices_def)

lemma keeps_prices_trans:
  "keeps_prices now w w1 \<Longrightarrow> keeps_prices now w1 w2 \<Longrightarrow> keeps_prices now w w2"
  by (simp add: keeps_prices_def)

lemma keeps_prices_holdings:
  "keeps_prices now w w' \<Longrightarrow> holdings_up_to w' userID t = holdings_up_to w userID t"
  by (simp add: keeps_prices_def holdings_up_to_def)

lemma first_by_snoc:
  assumes "\<forall>y\<in>set xs. before x y"
  shows "first_by before (xs @ [x]) = Some x"
  using assms by (induction xs) simp_all

lemma synthesized_price_settles:
  assumes nofail: "\<forall>op. \<not> fails e op" and t: "t < now"
    and none_at: "latest_price_at w symbol t = None"
    and stale: "case latest_price w symbol of None \<Rightarrow> True
                | Some ph \<Rightarrow> now - ph_Timestamp ph > 2 * nsPerHour"
  shows "\<exists>p w'. generate_and_save e now w symbol = (Inr p, w') \<and> keeps_prices now w w' \<and>
           stored_price_at w' now symbol t = Some p"
proof -
  let ?g = "fst (GeneratePrice e w symbol)"
  let ?w' = "snd (generate_and_save e now w symbol)"
  let ?new = "\<lparr>ph_ID = next_price_id w, ph_StockSymbol = symbol, ph_PriceINR = ?g,
               ph_Timestamp = now, ph_CreatedAt = now\<rparr>"
  have run: "generate_and_save e now w symbol = (Inr ?g, ?w')"
    using generate_and_save_fst [of e now w symbol] by (simp add: prod_eq_iff)
  have hist: "price_history ?w' = price_history w @ [?new]"
    using nofail by (simp add: generate_and_save_history)
  have at: "latest_price_at ?w' s' t' = latest_price_at w s' t'" if "t' < now" for s' t'
    using that by (simp add: latest_price_at_def hist)
  have other: "latest_price ?w' s' = latest_price w s'" if "s' \<noteq> symbol" for s'
    using that by (auto simp: latest_price_def hist)
  have older: "\<forall>y\<in>set (filter (\<lambda>p. ph_StockSymbol p = symbol) (price_history w)).
      price_before ?new y"
  proof (cases "latest_price w symbol")
    case None
    then have "filter (\<lambda>p. ph_StockSymbol p = symbol) (price_history w) = []"
      by (simp add: latest_price_def first_by_None_iff)
    then show ?thesis by simp
  next
    case (Some ph)
    with stale have "ph_Timestamp ph < now" by (simp add: nsPerHour_def)
    moreover have "ph_Timestamp y \<le> ph_Timestamp ph"
      if "y \<in> set (filter (\<lambda>p. ph_StockSymbol p = symbol) (price_history w))" for y
      using Some that unfolding latest_price_def by (rule first_by_price_latest)
    ultimately show ?thesis by (fastforce simp: price_before_def)
  qed
  have mine: "latest_price ?w' symbol = Some ?new"
    using first_by_snoc [where before = price_before and x = ?new
        and xs = "filter (\<lambda>p. ph_StockSymbol p = symbol) (price_history w)"] older
    by (simp add: latest_price_def hist)
  have stored: "stored_price_at ?w' now symbol t = Some ?g"
    using at [OF t, of symbol] none_at mine by (simp add: stored_price_at_def nsPerHour_def)
  have kept: "stored_price_at ?w' now s' t' = Some p'"
    if "t' < now" and "stored_price_at w now s' t' = Some p'" for s' t' p'
  proof (cases "s' = symbol")
    case False
    have "stored_price_at ?w' now s' t' = stored_price_at w now s' t'"
      unfolding stored_price_at_def at [OF that(1)] other [OF False] by (rule refl)
    with that(2) show ?thesis by simp
  next
    case True
    show ?thesis
    proof (cases "latest_price_at w symbol t'")
      case None
      with that(2) True stale have False
        by (auto simp: stored_price_at_def split: option.splits if_splits)
      then show ?thesis ..
    next
      case (Some ph)
      with that True at [OF that(1), of symbol] show ?thesis
        by (simp add: stored_price_at_def)
    qed
  qed
  have "keeps_prices now w ?w'"
    using generate_and_save_frame(1,2) [of e now w symbol] kept
    by (simp add: keeps_prices_def)
  with run stored show ?thesis by blast
qed

lemma GetPriceAtTime_settles:
  assumes nofail: "\<forall>op. \<not> fails e op" and t: "t < now"
  shows "\<exists>p w'. GetPriceAtTime e now w symbol t = (Inr p, w') \<and> keeps_prices now w w' \<and>
           stored_price_at w' now symbol t = Some p"
proof (cases "stored_price_at w now symbol t")
  case (Some p)
  then have "GetPriceAtTime e now w symbol t = (Inr p, w)"
    by (rule GetPriceAtTime_stored [OF nofail])
  with Some show ?thesis using keeps_prices_refl by blast
next
  case None
  then have none_at: "latest_price_at w symbol t = None"
    and stale: "case latest_price w symbol of None \<Rightarrow> True
                | Some ph \<Rightarrow> now - ph_Timestamp ph > 2 * nsPerHour"
    by (auto simp: stored_price_at_def split: option.splits if_splits)
  from stale nofail none_at
  have "GetPriceAtTime e now w symbol t = generate_and_save e now w symbol"
    by (auto simp: GetPriceAtTime_def GetCurrentPrice_def split: option.splits)
  with synthesized_price_settles [OF nofail t none_at stale] show ?thesis by simp
qed


lemma sum_prices_cong:
  assumes "\<forall>(symbol, qty)\<in>set holdings. f symbol = g symbol"
  shows "(\<Sum>(symbol, qty)\<leftarrow>holdings. f symbol * qty) = (\<Sum>(symbol, qty)\<leftarrow>holdings. g symbol * (qty::rat))"
  using assms by (induction holdings) auto

lemma historical_value_loop_settles:
  assumes nofail: "\<forall>op. \<not> fails e op" and t: "t < now"
  shows "\<exists>w'. historical_value_loop e now t holdings totalValue w
              = (totalValue + (\<Sum>(symbol, qty)\<leftarrow>holdings.
                                  the (stored_price_at w' now symbol t) * qty), w') \<and>
            keeps_prices now w w' \<and>
            (\<forall>(symbol, qty)\<in>set holdings. stored_price_at w' now symbol t \<noteq> None)"
proof (induction holdings arbitrary: totalValue w)
  case Nil
  show ?case by (simp add: keeps_prices_refl)
next
  case (Cons h holdings)
  obtain symbol qty where h: "h = (symbol, qty)" by (cases h)
  from GetPriceAtTime_settles [OF nofail t] obtain p w1 where
    step: "GetPriceAtTime e now w symbol t = (Inr p, w1)" and k1: "keeps_prices now w w1"
    and s1: "stored_price_at w1 now symbol t = Some p"
    by blast
  from Cons.IH [of "totalValue + p * qty" w1] obtain w' where
    rest: "historical_value_loop e now t holdings (totalValue + p * qty) w1
             = (totalValue + p * qty + (\<Sum>(symbol, qty)\<leftarrow>holdings.
                                  the (stored_price_at w' now symbol t) * qty), w')"
    and k2: "keeps_prices now w1 w'"
    and all: "\<forall>(symbol, qty)\<in>set holdings. stored_price_at w' now symbol t \<noteq> None"
    by blast
  from k2 t s1 have s2: "stored_price_at w' now symbol t = Some p"
    by (simp add: keeps_prices_def)
  have "historical_value_loop e now t (h # holdings) totalValue w
      = (totalValue + (\<Sum>(symbol, qty)\<leftarrow>h # holdings.
                          the (stored_price_at w' now symbol t) * qty), w')"
    using h step rest s2 by (simp add: algebra_simps)
  moreover have "keeps_prices now w w'"
    using k1 k2 by (rule keeps_prices_trans)
  moreover have "\<forall>(symbol, qty)\<in>set (h # holdings). stored_price_at w' now symbol t \<noteq> None"
    using h s2 all by simp
  ultimately show ?case by blast
qed

lemma historical_loop_settles:
  assumes nofail: "\<forall>op. \<not> fails e op" and early: "\<forall>date\<in>set dates. EndOfDayUTC date < now"
  shows "\<exists>w'. historical_loop e now userID dates result w
              = (result @ map (\<lambda>date. (date, RoundINR
                   (\<Sum>(symbol, qty)\<leftarrow>holdings_up_to w userID (EndOfDayUTC date).
                       the (stored_price_at w' now symbol (EndOfDayUTC date)) * qty))) dates, w') \<and>
            keeps_prices now w w' \<and>
            (\<forall>date\<in>set dates. \<forall>(symbol, qty)\<in>set (holdings_up_to w userID (EndOfDayUTC date)).
               stored_price_at w' now symbol (EndOfDayUTC date) \<noteq> None)"
  using early
proof (induction dates arbitrary: result w)
  case Nil
  show ?case by (simp add: keeps_prices_refl)
next
  case (Cons date dates)
  let ?t = "EndOfDayUTC date"
  let ?hs = "holdings_up_to w userID ?t"
  from Cons.prems have t: "?t < now" and later: "\<forall>date\<in>set dates. EndOfDayUTC date < now"
    by simp_all
  from historical_value_loop_settles [OF nofail t, of ?hs 0 w] obtain w1 where
    day: "historical_value_loop e now ?t ?hs 0 w
            = (0 + (\<Sum>(symbol, qty)\<leftarrow>?hs. the (stored_price_at w1 now symbol ?t) * qty), w1)"
    and k1: "keeps_prices now w w1"
    and all1: "\<forall>(symbol, qty)\<in>set ?hs. stored_price_at w1 now symbol ?t \<noteq> None"
    by blast
  let ?v1 = "\<Sum>(symbol, qty)\<leftarrow>?hs. the (stored_price_at w1 now symbol ?t) * qty"
  from Cons.IH [OF later, of "result @ [(date, RoundINR ?v1)]" w1] obtain w' where
    rest: "historical_loop e now userID dates (result @ [(date, RoundINR ?v1)]) w1
             = ((result @ [(date, RoundINR ?v1)]) @ map (\<lambda>date. (date, RoundINR
                   (\<Sum>(symbol, qty)\<leftarrow>holdings_up_to w1 userID (EndOfDayUTC date).
                       the (stored_price_at w' now symbol (EndOfDayUTC date)) * qty))) dates, w')"
    and k2: "keeps_prices now w1 w'"
    and all2: "\<forall>date\<in>set dates. \<forall>(symbol, qty)\<in>set (holdings_up_to w1 userID (EndOfDayUTC date)).
               stored_price_at w' now symbol (EndOfDayUTC date) \<noteq> None"
    by blast
  have same: "holdings_up_to w1 userID t' = holdings_up_to w userID t'" for t'
    using k1 by (rule keeps_prices_holdings)
  have kept: "stored_price_at w' now symbol ?t = stored_price_at w1 now symbol ?t"
    if "(symbol, qty) \<in> set ?hs" for symbol qty
  proof -
    from all1 that obtain p where "stored_price_at w1 now symbol ?t = Some p" by fastforce
    moreover from this k2 t have "stored_price_at w' now symbol ?t = Some p"
      by (simp add: keeps_prices_def)
    ultimately show ?thesis by simp
  qed
  then have v1: "?v1 = (\<Sum>(symbol, qty)\<leftarrow>?hs. the (stored_price_at w' now symbol ?t) * qty)"
    by (intro sum_prices_cong) auto
  have "historical_loop e now userID (date # dates) result w
      = historical_loop e now userID dates (result @ [(date, RoundINR ?v1)]) w1"
    using nofail day by (simp add: GetUserStockHoldingsUpToDate_def Let_def)
  then have "historical_loop e now userID (date # dates) result w
      = (result @ map (\<lambda>date. (date, RoundINR
                   (\<Sum>(symbol, qty)\<leftarrow>holdings_up_to w userID (EndOfDayUTC date).
                       the (stored_price_at w' now symbol (EndOfDayUTC date)) * qty)))
                  (date # dates), w')"
    unfolding rest same using v1 by simp
  moreover have "keeps_prices now w w'"
    using k1 k2 by (rule keeps_prices_trans)
  moreover have "\<forall>date\<in>set (date # dates).
      \<forall>(symbol, qty)\<in>set (holdings_up_to w userID (EndOfDayUTC date)).
        stored_price_at w' now symbol (EndOfDayUTC date) \<noteq> None"
    using all1 all2 kept unfolding same by fastforce
  ultimately show ?case by blast
qed

lemma listed_days_early:
  "\<forall>date\<in>set (map (\<lambda>k. k * nsPerDay) [a .. now div nsPerDay - 1]). EndOfDayUTC date < now"
proof -
  have "EndOfDayUTC (k * nsPerDay) < now" if "k \<le> now div nsPerDay - 1" for k
  proof -
    have "EndOfDayUTC (k * nsPerDay) = k * nsPerDay + (nsPerDay - 1)"
      by (simp add: EndOfDayUTC_def nsPerDay_def)
    moreover have "k * nsPerDay + nsPerDay \<le> (now div nsPerDay) * nsPerDay"
      using that mult_right_mono [of "k + 1" "now div nsPerDay" nsPerDay]
      by (simp add: nsPerDay_def algebra_simps)
    moreover have "(now div nsPerDay) * nsPerDay \<le> now"
      by (simp add: nsPerDay_def)
    ultimately show ?thesis by linarith
  qed
  then show ?thesis by auto
qed

subsection \<open>Prices among the stored samples\<close>

lemma first_by_price_first:
  "first_by price_before xs = Some r \<Longrightarrow> y \<in> set xs \<Longrightarrow>
     ph_Timestamp y < ph_Timestamp r \<or> ph_Timestamp y = ph_Timestamp r \<and> ph_ID r \<le> ph_ID y"
proof (induction xs arbitrary: r)
  case Nil
  then show ?case by simp
next
  case (Cons x xs)
  show ?case
  proof (cases "first_by price_before xs")
    case None
    then have "xs = []" by (simp add: first_by_None_iff)
    with Cons.prems None show ?thesis by simp
  next
    case (Some z)
    note ih = Cons.IH [OF Some]
    show ?thesis
    proof (cases "price_before z x")
      case True
      with Some Cons.prems(1) have "r = z" by simp
      with True Cons.prems(2) ih show ?thesis
        by (auto simp: price_before_def)
    next
      case False
      with Some Cons.prems(1) have r: "r = x" by simp
      show ?thesis
      proof (cases "y = x")
        case True
        with r show ?thesis by simp
      next
        case False
        with Cons.prems(2) have "y \<in> set xs" by simp
        from ih [OF this] r \<open>\<not> price_before z x\<close> show ?thesis
          by (auto simp: price_before_def)
      qed
    qed
  qed
qed


text \<open>
  \<open>latest_among samples ph\<close>: \<open>ph\<close> is one of the samples and none of them is later, or as
  late with a lower key. \<open>price_found now history symbol t p\<close>: \<open>p\<close> is the price of the
  latest sample of the symbol at or before \<open>t\<close>; if there is no such sample, of the latest
  sample of the symbol, which is at most two hours old.
\<close>

abbreviation latest_among :: "PriceHistory list \<Rightarrow> PriceHistory \<Rightarrow> bool" where
  "latest_among samples ph \<equiv>
     ph \<in> set samples \<and>
     (\<forall>ph'\<in>set samples. ph_Timestamp ph' < ph_Timestamp ph \<or>
        ph_Timestamp ph' = ph_Timestamp ph \<and> ph_ID ph \<le> ph_ID ph')"

abbreviation price_found :: "time \<Rightarrow> PriceHistory list \<Rightarrow> string \<Rightarrow> time \<Rightarrow> decimal \<Rightarrow> bool" where
  "price_found now history symbol t p \<equiv>
     (if filter (\<lambda>ph. ph_StockSymbol ph = symbol \<and> ph_Timestamp ph \<le> t) history \<noteq> []
      then \<exists>ph. latest_among (filter (\<lambda>ph. ph_StockSymbol ph = symbol \<and> ph_Timestamp ph \<le> t)
                                history) ph
                \<and> ph_PriceINR ph = p
      else \<exists>ph. latest_among (filter (\<lambda>ph. ph_StockSymbol ph = symbol) history) ph
                \<and> now - ph_Timestamp ph \<le> 7200000000000 \<and> ph_PriceINR ph = p)"

lemma stored_price_found:
  assumes "stored_price_at w now symbol t = Some p"
  shows "price_found now (price_history w) symbol t p"
proof (cases "latest_price_at w symbol t")
  case (Some ph)
  let ?upto = "filter (\<lambda>ph. ph_StockSymbol ph = symbol \<and> ph_Timestamp ph \<le> t) (price_history w)"
  from Some have f: "first_by price_before ?upto = Some ph"
    by (simp add: latest_price_at_def)
  then have mem: "ph \<in> set ?upto" by (rule first_by_mem)
  from length_pos_if_in_set [OF mem] have ne: "?upto \<noteq> []"
    by (simp only: length_greater_0_conv simp_thms)
  have "\<forall>ph'\<in>set ?upto. ph_Timestamp ph' < ph_Timestamp ph \<or>
          ph_Timestamp ph' = ph_Timestamp ph \<and> ph_ID ph \<le> ph_ID ph'"
    using first_by_price_first [OF f] by blast
  moreover from Some assms have "ph_PriceINR ph = p" by (simp add: stored_price_at_def)
  ultimately show ?thesis using mem ne by (simp only: simp_thms if_True) blast
next
  case None
  let ?upto = "filter (\<lambda>ph. ph_StockSymbol ph = symbol \<and> ph_Timestamp ph \<le> t) (price_history w)"
  let ?all = "filter (\<lambda>ph. ph_StockSymbol ph = symbol) (price_history w)"
  from None have e: "?upto = []" by (simp add: latest_price_at_def first_by_None_iff)
  from None assms obtain ph where l: "latest_price w symbol = Some ph"
    and fresh: "now - ph_Timestamp ph \<le> 7200000000000" and p: "ph_PriceINR ph = p"
    by (auto simp: stored_price_at_def nsPerHour_def split: option.splits if_splits)
  from l have f: "first_by price_before ?all = Some ph" by (simp add: latest_price_def)
  then have mem: "ph \<in> set ?all" by (rule first_by_mem)
  have "\<forall>ph'\<in>set ?all. ph_Timestamp ph' < ph_Timestamp ph \<or>
          ph_Timestamp ph' = ph_Timestamp ph \<and> ph_ID ph \<le> ph_ID ph'"
    using first_by_price_first [OF f] by blast
  with mem fresh p e show ?thesis by (simp only: simp_thms if_False) blast
qed

lemma found_price_stored:
  assumes "price_found now (price_history w) symbol t p"
  shows "stored_price_at w now symbol t \<noteq> None"
proof (cases "latest_price_at w symbol t")
  case (Some ph)
  then show ?thesis by (simp add: stored_price_at_def)
next
  case None
  let ?all = "filter (\<lambda>ph. ph_StockSymbol ph = symbol) (price_history w)"
  from None have "filter (\<lambda>ph. ph_StockSymbol ph = symbol \<and> ph_Timestamp ph \<le> t) (price_history w) = []"
    by (simp add: latest_price_at_def first_by_None_iff)
  with assms obtain ph where mem: "ph \<in> set ?all"
    and fresh: "now - ph_Timestamp ph \<le> 7200000000000"
    by (simp only: simp_thms if_False) blast
  from length_pos_if_in_set [OF mem] have "?all \<noteq> []"
    by (simp only: length_greater_0_conv simp_thms)
  then obtain r where r: "first_by price_before ?all = Some r"
    using first_by_None_iff [of price_before ?all] by (cases "first_by price_before ?all") auto
  from first_by_price_latest [OF r mem] fresh have "now - ph_Timestamp r \<le> 7200000000000"
    by linarith
  with r None show ?thesis
    by (simp add: stored_price_at_def latest_price_def nsPerHour_def)
qed

lemma earliest_is_first_reward:
  assumes "firstReward \<in> set (reward_events w)"
    and "re_UserID firstReward = userID" and "re_DeletedAt firstReward = None"
    and "\<forall>r\<in>set (reward_events w). re_UserID r = userID \<and> re_DeletedAt r = None
           \<longrightarrow> re_Timestamp firstReward \<le> re_Timestamp r"
  shows "\<exists>r. first_reward w userID = Some r \<and> re_Timestamp r = re_Timestamp firstReward"
proof -
  from assms(1-3) have "first_reward w userID \<noteq> None"
    by (auto simp: first_reward_None_iff)
  then obtain r where r: "first_reward w userID = Some r" by auto
  then have "r \<in> set (filter (\<lambda>r. re_UserID r = userID \<and> re_DeletedAt r = None) (reward_events w))"
    unfolding first_reward_def by (rule first_by_mem)
  with assms(4) have "re_Timestamp firstReward \<le> re_Timestamp r" by simp
  moreover from first_reward_earliest [OF r] assms(1-3)
  have "re_Timestamp r \<le> re_Timestamp firstReward" by blast
  ultimately show ?thesis using r by simp
qed

lemma EndOfDayUTC_listed:
  "date \<in> set (map (\<lambda>k. k * 86400000000000) [a .. b]) \<Longrightarrow> EndOfDayUTC date = date + 86399999999999"
  by (auto simp: EndOfDayUTC_def nsPerDay_def)

lemma held_symbol_iff:
  "(symbol, qty) \<in> set (holdings_up_to w userID t) \<longleftrightarrow>
     qty = total_qty (stock_rows (\<lambda>re. re_UserID re = userID \<and> re_DeletedAt re = None
                                  \<and> re_Timestamp re \<le> t)
                (reward_events w) (ledger_entries w)) symbol \<and> 0 < qty"
  by (auto simp: holdings_up_to_def set_group_having)

lemma holdings_value_as_sum:
  "(\<Sum>(symbol, qty)\<leftarrow>holdings_up_to w userID t. price symbol * qty)
     = (\<Sum>symbol | 0 < total_qty (stock_rows (\<lambda>re. re_UserID re = userID \<and> re_DeletedAt re = None
                                  \<and> re_Timestamp re \<le> t)
                (reward_events w) (ledger_entries w)) symbol.
          price symbol * total_qty (stock_rows (\<lambda>re. re_UserID re = userID \<and> re_DeletedAt re = None
                                  \<and> re_Timestamp re \<le> t)
                (reward_events w) (ledger_entries w)) symbol)"
  unfolding holdings_up_to_def by (rule sum_list_group_having_all)


lemma latest_among_unique:
  assumes "distinct (map ph_ID history)" and "set samples \<subseteq> set history"
    and "latest_among samples ph" and "latest_among samples ph'"
  shows "ph = ph'"
proof -
  from assms(3,4) have "ph_ID ph = ph_ID ph'" by force
  moreover from assms(2-4) have "ph \<in> set history" and "ph' \<in> set history" by auto
  moreover from assms(1) have "inj_on ph_ID (set history)" by (simp add: distinct_map)
  ultimately show ?thesis by (rule inj_onD [rotated])
qed

lemma price_found_unique:
  assumes "distinct (map ph_ID history)"
    and "price_found now history symbol t p" and "price_found now history symbol t p'"
  shows "p = p'"
proof (cases "filter (\<lambda>ph. ph_StockSymbol ph = symbol \<and> ph_Timestamp ph \<le> t) history = []")
  case False
  let ?upto = "filter (\<lambda>ph. ph_StockSymbol ph = symbol \<and> ph_Timestamp ph \<le> t) history"
  from False assms(2) obtain ph where a: "latest_among ?upto ph" and p: "ph_PriceINR ph = p"
    by (simp only: simp_thms if_True) blast
  from False assms(3) obtain ph' where b: "latest_among ?upto ph'" and p': "ph_PriceINR ph' = p'"
    by (simp only: simp_thms if_True) blast
  have "set ?upto \<subseteq> set history" by auto
  from latest_among_unique [OF assms(1) this a b] p p' show ?thesis by simp
next
  case True
  let ?all = "filter (\<lambda>ph. ph_StockSymbol ph = symbol) history"
  from True assms(2) obtain ph where a: "latest_among ?all ph" and p: "ph_PriceINR ph = p"
    by (simp only: simp_thms if_False) blast
  from True assms(3) obtain ph' where b: "latest_among ?all ph'" and p': "ph_PriceINR ph' = p'"
    by (simp only: simp_thms if_False) blast
  have "set ?all \<subseteq> set history" by auto
  from latest_among_unique [OF assms(1) this a b] p p' show ?thesis by simp
qed

subsection \<open>The daily values\<close>

text \<open>
  C6. When no lookup fails: a user without a live (not soft-deleted) reward gets the empty
  list. Otherwise, for \<open>firstReward\<close> any live reward of the user with the earliest
  timestamp, GetHistoricalINR returns exactly one row for each UTC day from the day of
  \<open>firstReward\<close> through the day before \<open>now\<close>, in order, each under the day's first
  instant; today's first instant is not among them. A day's value is, rounded to 4
  places, the sum over the symbols held at the end of that day of price times quantity
  held, where

    \<^item> \<open>held date symbol\<close> is the sum of the quantities of the STOCK ledger entries for
      the symbol that belong to live rewards of the user with a timestamp at or before
      the day's last nanosecond;

    \<^item> the price is that of the latest sample of the symbol at or before the day's last
      nanosecond (the lowest key among equally late ones); if the symbol has no such
      sample, it is the price of the latest sample of the symbol, which is then at most
      two hours old. Both are read in the price history as the call leaves it: a price
      that had to be synthesized has been stored by then.

  The call changes neither rewards nor ledger entries, and it leaves the whole state as
  it is when every price needed is found in the price history beforehand.
\<close>

theorem historical_daily_values:
  assumes "\<forall>op. \<not> fails e op"
  shows
    "let held = (\<lambda>date symbol.
           sum_list [le_Quantity le. le \<leftarrow> ledger_entries w, re \<leftarrow> reward_events w,
              re_ID re = le_RewardEventID le \<and> re_UserID re = userID \<and> re_DeletedAt re = None
                \<and> re_Timestamp re \<le> date + 86399999999999
                \<and> le_EntryType le = EntryTypeStock \<and> le_StockSymbol le = Some symbol]);
         latest = (\<lambda>samples ph. ph \<in> set samples \<and>
           (\<forall>ph'\<in>set samples. ph_Timestamp ph' < ph_Timestamp ph \<or>
               ph_Timestamp ph' = ph_Timestamp ph \<and> ph_ID ph \<le> ph_ID ph'));
         found = (\<lambda>history symbol date p.
           if filter (\<lambda>ph. ph_StockSymbol ph = symbol \<and> ph_Timestamp ph \<le> date + 86399999999999)
                history \<noteq> []
           then \<exists>ph. latest (filter (\<lambda>ph. ph_StockSymbol ph = symbol
                                       \<and> ph_Timestamp ph \<le> date + 86399999999999) history) ph
                     \<and> ph_PriceINR ph = p
           else \<exists>ph. latest (filter (\<lambda>ph. ph_StockSymbol ph = symbol) history) ph
                     \<and> now - ph_Timestamp ph \<le> 7200000000000 \<and> ph_PriceINR ph = p)
     in ((\<forall>r\<in>set (reward_events w). re_UserID r = userID \<longrightarrow> re_DeletedAt r \<noteq> None)
           \<longrightarrow> GetHistoricalINR e now w userID = (Inr [], w)) \<and>
        (\<forall>firstReward\<in>set (reward_events w).
           re_UserID firstReward = userID \<and> re_DeletedAt firstReward = None \<and>
           (\<forall>r\<in>set (reward_events w). re_UserID r = userID \<and> re_DeletedAt r = None
               \<longrightarrow> re_Timestamp firstReward \<le> re_Timestamp r)
           \<longrightarrow> (let days = map (\<lambda>k. k * 86400000000000)
                       [re_Timestamp firstReward div 86400000000000 .. now div 86400000000000 - 1]
                in now div 86400000000000 * 86400000000000 \<notin> set days \<and>
                   (\<exists>price w'.
                      GetHistoricalINR e now w userID =
                        (Inr (map (\<lambda>date. (date, Round 4
                                (\<Sum>symbol | 0 < held date symbol.
                                    price symbol date * held date symbol))) days), w') \<and>
                      reward_events w' = reward_events w \<and>
                      ledger_entries w' = ledger_entries w \<and>
                      (\<forall>date\<in>set days. \<forall>symbol. 0 < held date symbol \<longrightarrow>
                         found (price_history w') symbol date (price symbol date)) \<and>
                      ((\<forall>date\<in>set days. \<forall>symbol. 0 < held date symbol \<longrightarrow>
                          (\<exists>p. found (price_history w) symbol date p))
                       \<longrightarrow> w' = w))))"
proof -
  define held where "held = (\<lambda>date symbol.
           sum_list [le_Quantity le. le \<leftarrow> ledger_entries w, re \<leftarrow> reward_events w,
              re_ID re = le_RewardEventID le \<and> re_UserID re = userID \<and> re_DeletedAt re = None
                \<and> re_Timestamp re \<le> date + 86399999999999
                \<and> le_EntryType le = EntryTypeStock \<and> le_StockSymbol le = Some symbol])"
  define found where "found = (\<lambda>(history :: PriceHistory list) symbol date p.
           if filter (\<lambda>ph. ph_StockSymbol ph = symbol \<and> ph_Timestamp ph \<le> date + 86399999999999)
                history \<noteq> []
           then \<exists>ph. (ph \<in> set (filter (\<lambda>ph. ph_StockSymbol ph = symbol
                                       \<and> ph_Timestamp ph \<le> date + 86399999999999) history) \<and>
                      (\<forall>ph'\<in>set (filter (\<lambda>ph. ph_StockSymbol ph = symbol
                                       \<and> ph_Timestamp ph \<le> date + 86399999999999) history).
                         ph_Timestamp ph' < ph_Timestamp ph \<or>
                         ph_Timestamp ph' = ph_Timestamp ph \<and> ph_ID ph \<le> ph_ID ph'))
                     \<and> ph_PriceINR ph = p
           else \<exists>ph. (ph \<in> set (filter (\<lambda>ph. ph_StockSymbol ph = symbol) history) \<and>
                      (\<forall>ph'\<in>set (filter (\<lambda>ph. ph_StockSymbol ph = symbol) history).
                         ph_Timestamp ph' < ph_Timestamp ph \<or>
                         ph_Timestamp ph' = ph_Timestamp ph \<and> ph_ID ph \<le> ph_ID ph'))
                     \<and> now - ph_Timestamp ph \<le> 7200000000000 \<and> ph_PriceINR ph = p)"
  have held: "total_qty (stock_rows (\<lambda>re. re_UserID re = userID \<and> re_DeletedAt re = None
                                  \<and> re_Timestamp re \<le> date + 86399999999999)
                (reward_events w) (ledger_entries w)) symbol = held date symbol" for date symbol
    unfolding held_def by (rule held_up_to)
  have found_if: "found (price_history v) symbol date p"
    if "stored_price_at v now symbol (date + 86399999999999) = Some p" for v symbol date p
    unfolding found_def using that by (rule stored_price_found)
  have found_only_if: "stored_price_at v now symbol (date + 86399999999999) \<noteq> None"
    if "found (price_history v) symbol date p" for v symbol date p
    using that unfolding found_def by (rule found_price_stored)
  have none: "GetHistoricalINR e now w userID = (Inr [], w)"
    if "\<forall>r\<in>set (reward_events w). re_UserID r = userID \<longrightarrow> re_DeletedAt r \<noteq> None"
  proof -
    from that have "first_reward w userID = None" by (simp only: first_reward_None_iff)
    with assms show ?thesis by (simp add: GetHistoricalINR_def)
  qed
  have some: "let days = map (\<lambda>k. k * 86400000000000)
                       [re_Timestamp firstReward div 86400000000000 .. now div 86400000000000 - 1]
                in now div 86400000000000 * 86400000000000 \<notin> set days \<and>
                   (\<exists>price w'.
                      GetHistoricalINR e now w userID =
                        (Inr (map (\<lambda>date. (date, Round 4
                                (\<Sum>symbol | 0 < held date symbol.
                                    price symbol date * held date symbol))) days), w') \<and>
                      reward_events w' = reward_events w \<and>
                      ledger_entries w' = ledger_entries w \<and>
                      (\<forall>date\<in>set days. \<forall>symbol. 0 < held date symbol \<longrightarrow>
                         found (price_history w') symbol date (price symbol date)) \<and>
                      ((\<forall>date\<in>set days. \<forall>symbol. 0 < held date symbol \<longrightarrow>
                          (\<exists>p. found (price_history w) symbol date p))
                       \<longrightarrow> w' = w))"
    if fr: "firstReward \<in> set (reward_events w)"
      "re_UserID firstReward = userID \<and> re_DeletedAt firstReward = None \<and>
           (\<forall>r\<in>set (reward_events w). re_UserID r = userID \<and> re_DeletedAt r = None
               \<longrightarrow> re_Timestamp firstReward \<le> re_Timestamp r)"
    for firstReward
  proof -
    let ?days = "map (\<lambda>k. k * 86400000000000)
                   [re_Timestamp firstReward div 86400000000000 .. now div 86400000000000 - 1]"
    from fr(2) have mine: "re_UserID firstReward = userID"
      and live: "re_DeletedAt firstReward = None"
      and least: "\<forall>r\<in>set (reward_events w). re_UserID r = userID \<and> re_DeletedAt r = None
               \<longrightarrow> re_Timestamp firstReward \<le> re_Timestamp r"
      by simp_all
    from earliest_is_first_reward [OF fr(1) mine live least]
    obtain r where r: "first_reward w userID = Some r"
      and ts: "re_Timestamp r = re_Timestamp firstReward"
      by auto
    have dates: "GetPastDates (StartOfDayUTC (re_Timestamp r)) (GetYesterday now) = ?days"
      using GetPastDates_days [of "re_Timestamp r" now] by (simp add: ts nsPerDay_def)
    have run: "GetHistoricalINR e now w userID =
        (Inr (fst (historical_loop e now userID ?days [] w)),
         snd (historical_loop e now userID ?days [] w))"
      using assms r by (simp add: GetHistoricalINR_def Let_def dates split: prod.splits)
    have today: "now div 86400000000000 * 86400000000000 \<notin> set ?days"
      using today_not_listed [of now "re_Timestamp firstReward div 86400000000000"]
      by (simp add: StartOfDayUTC_def nsPerDay_def)
    have early: "\<forall>date\<in>set ?days. EndOfDayUTC date < now"
      using listed_days_early [of "re_Timestamp firstReward div 86400000000000" now]
      by (simp add: nsPerDay_def)
    have eod: "EndOfDayUTC date = date + 86399999999999" if "date \<in> set ?days" for date
      using that by (rule EndOfDayUTC_listed)
    from historical_loop_settles [OF assms early, where userID = userID and result = "[]" and w = w]
    obtain w' where
      loop: "historical_loop e now userID ?days [] w
               = ([] @ map (\<lambda>date. (date, RoundINR
                     (\<Sum>(symbol, qty)\<leftarrow>holdings_up_to w userID (EndOfDayUTC date).
                         the (stored_price_at w' now symbol (EndOfDayUTC date)) * qty))) ?days, w')"
      and kept: "keeps_prices now w w'"
      and all: "\<forall>date\<in>set ?days. \<forall>(symbol, qty)\<in>set (holdings_up_to w userID (EndOfDayUTC date)).
                 stored_price_at w' now symbol (EndOfDayUTC date) \<noteq> None"
      by blast
    let ?price = "\<lambda>symbol date. the (stored_price_at w' now symbol (date + 86399999999999))"
    have row: "RoundINR (\<Sum>(symbol, qty)\<leftarrow>holdings_up_to w userID (EndOfDayUTC date).
                   the (stored_price_at w' now symbol (EndOfDayUTC date)) * qty)
        = Round 4 (\<Sum>symbol | 0 < held date symbol. ?price symbol date * held date symbol)"
      if "date \<in> set ?days" for date
      unfolding eod [OF that] RoundINR_def
        holdings_value_as_sum [where price = "\<lambda>symbol. ?price symbol date"] held
      by (rule refl)
    have rows: "map (\<lambda>date. (date, RoundINR
                     (\<Sum>(symbol, qty)\<leftarrow>holdings_up_to w userID (EndOfDayUTC date).
                         the (stored_price_at w' now symbol (EndOfDayUTC date)) * qty))) ?days
        = map (\<lambda>date. (date, Round 4
              (\<Sum>symbol | 0 < held date symbol. ?price symbol date * held date symbol))) ?days"
      by (rule map_cong [OF refl]) (simp only: row)
    have member: "(symbol, held date symbol) \<in> set (holdings_up_to w userID (EndOfDayUTC date))"
      if "date \<in> set ?days" and "0 < held date symbol" for date symbol
      using that(2) unfolding eod [OF that(1)] held_symbol_iff held by simp
    have priced: "found (price_history w') symbol date (?price symbol date)"
      if "date \<in> set ?days" and "0 < held date symbol" for date symbol
    proof -
      from all that(1) member [OF that]
      have "stored_price_at w' now symbol (EndOfDayUTC date) \<noteq> None" by fastforce
      then have "stored_price_at w' now symbol (date + 86399999999999)
          = Some (?price symbol date)"
        unfolding eod [OF that(1)] by simp
      then show ?thesis by (rule found_if)
    qed
    have unchanged: "w' = w"
      if stored: "\<forall>date\<in>set ?days. \<forall>symbol. 0 < held date symbol \<longrightarrow>
                          (\<exists>p. found (price_history w) symbol date p)"
    proof -
      have "\<forall>date\<in>set ?days. \<forall>(symbol, qty)\<in>set (holdings_up_to w userID (EndOfDayUTC date)).
          stored_price_at w now symbol (EndOfDayUTC date)
            = Some (the (stored_price_at w now symbol (EndOfDayUTC date)))"
      proof (intro ballI, clarify)
        fix date symbol qty
        assume d: "date \<in> set ?days"
          and h: "(symbol, qty) \<in> set (holdings_up_to w userID (EndOfDayUTC date))"
        from h have "0 < held date symbol"
          unfolding eod [OF d] held_symbol_iff held by simp
        with stored d obtain p where "found (price_history w) symbol date p" by blast
        then have "stored_price_at w now symbol (date + 86399999999999) \<noteq> None"
          by (rule found_only_if)
        then show "stored_price_at w now symbol (EndOfDayUTC date)
            = Some (the (stored_price_at w now symbol (EndOfDayUTC date)))"
          unfolding eod [OF d] by simp
      qed
      from historical_loop_stored [OF assms this, of "[]"] loop show ?thesis by simp
    qed
    have "GetHistoricalINR e now w userID =
        (Inr (map (\<lambda>date. (date, Round 4
              (\<Sum>symbol | 0 < held date symbol. ?price symbol date * held date symbol))) ?days), w')"
      using run loop rows by simp
    moreover from kept have "reward_events w' = reward_events w"
      and "ledger_entries w' = ledger_entries w"
      by (simp_all add: keeps_prices_def)
    ultimately have "\<exists>price w'.
                      GetHistoricalINR e now w userID =
                        (Inr (map (\<lambda>date. (date, Round 4
                                (\<Sum>symbol | 0 < held date symbol.
                                    price symbol date * held date symbol))) ?days), w') \<and>
                      reward_events w' = reward_events w \<and>
                      ledger_entries w' = ledger_entries w \<and>
                      (\<forall>date\<in>set ?days. \<forall>symbol. 0 < held date symbol \<longrightarrow>
                         found (price_history w') symbol date (price symbol date)) \<and>
                      ((\<forall>date\<in>set ?days. \<forall>symbol. 0 < held date symbol \<longrightarrow>
                          (\<exists>p. found (price_history w) symbol date p))
                       \<longrightarrow> w' = w)"
      using priced unchanged by (intro exI [of _ ?price] exI [of _ w']) blast
    with today show ?thesis by (simp only: Let_def simp_thms)
  qed
  from none some have
    "((\<forall>r\<in>set (reward_events w). re_UserID r = userID \<longrightarrow> re_DeletedAt r \<noteq> None)
           \<longrightarrow> GetHistoricalINR e now w userID = (Inr [], w)) \<and>
        (\<forall>firstReward\<in>set (reward_events w).
           re_UserID firstReward = userID \<and> re_DeletedAt firstReward = None \<and>
           (\<forall>r\<in>set (reward_events w). re_UserID r = userID \<and> re_DeletedAt r = None
               \<longrightarrow> re_Timestamp firstReward \<le> re_Timestamp r)
           \<longrightarrow> (let days = map (\<lambda>k. k * 86400000000000)
                       [re_Timestamp firstReward div 86400000000000 .. now div 86400000000000 - 1]
                in now div 86400000000000 * 86400000000000 \<notin> set days \<and>
                   (\<exists>price w'.
                      GetHistoricalINR e now w userID =
                        (Inr (map (\<lambda>date. (date, Round 4
                                (\<Sum>symbol | 0 < held date symbol.
                                    price symbol date * held date symbol))) days), w') \<and>
                      reward_events w' = reward_events w \<and>
                      ledger_entries w' = ledger_entries w \<and>
                      (\<forall>date\<in>set days. \<forall>symbol. 0 < held date symbol \<longrightarrow>
                         found (price_history w') symbol date (price symbol date)) \<and>
                      ((\<forall>date\<in>set days. \<forall>symbol. 0 < held date symbol \<longrightarrow>
                          (\<exists>p. found (price_history w) symbol date p))
                       \<longrightarrow> w' = w))))"
    by blast
  then show ?thesis
    unfolding Let_def held_def found_def .
qed

text \<open>
  Two users and two stocks. User 2 is granted 7 TCS on day 0. User 1 is granted 2.5
  RELIANCE on day 1 and 1 TCS on day 2; a grant of 3 INFY to user 1 on day 0 has been
  soft-deleted. RELIANCE is sampled at 2450.5001 on day 1 and at 2500.0001 on day 2, TCS
  at 3680.75 on day 2; each sample precedes the grant of its day.
\<close>

definition mixed_ledger :: world where
  "mixed_ledger =
     \<lparr>reward_events =
        [\<lparr>re_ID = 1, re_UserID = 2, re_StockSymbol = ''TCS'', re_Quantity = 7,
          re_Timestamp = 100, re_CreatedAt = 100, re_UpdatedAt = 100, re_DeletedAt = None\<rparr>,
         \<lparr>re_ID = 2, re_UserID = 1, re_StockSymbol = ''RELIANCE'', re_Quantity = 5 / 2,
          re_Timestamp = 86400000001500, re_CreatedAt = 86400000001500,
          re_UpdatedAt = 86400000001500, re_DeletedAt = None\<rparr>,
         \<lparr>re_ID = 3, re_UserID = 1, re_StockSymbol = ''TCS'', re_Quantity = 1,
          re_Timestamp = 172800000001500, re_CreatedAt = 172800000001500,
          re_UpdatedAt = 172800000001500, re_DeletedAt = None\<rparr>,
         \<lparr>re_ID = 4, re_UserID = 1, re_StockSymbol = ''INFY'', re_Quantity = 3,
          re_Timestamp = 50, re_CreatedAt = 50, re_UpdatedAt = 60, re_DeletedAt = Some 60\<rparr>],
      ledger_entries =
        [\<lparr>le_ID = 1, le_RewardEventID = 1, le_EntryType = EntryTypeStock,
          le_StockSymbol = Some ''TCS'', le_Quantity = 7, le_AmountINR = 2576525 / 100,
          le_Timestamp = 100, le_CreatedAt = 100\<rparr>,
         \<lparr>le_ID = 2, le_RewardEventID = 2, le_EntryType = EntryTypeStock,
          le_StockSymbol = Some ''RELIANCE'', le_Quantity = 5 / 2,
          le_AmountINR = 61262503 / 10000,
          le_Timestamp = 86400000001500, le_CreatedAt = 86400000001500\<rparr>,
         \<lparr>le_ID = 3, le_RewardEventID = 2, le_EntryType = EntryTypeCash,
          le_StockSymbol = Some ''RELIANCE'', le_Quantity = 0,
          le_AmountINR = - (61262503 / 10000),
          le_Timestamp = 86400000001500, le_CreatedAt = 86400000001500\<rparr>,
         \<lparr>le_ID = 4, le_RewardEventID = 3, le_EntryType = EntryTypeStock,
          le_StockSymbol = Some ''TCS'', le_Quantity = 1, le_AmountINR = 368075 / 100,
          le_Timestamp = 172800000001500, le_CreatedAt = 172800000001500\<rparr>,
         \<lparr>le_ID = 5, le_RewardEventID = 4, le_EntryType = EntryTypeStock,
          le_StockSymbol = Some ''INFY'', le_Quantity = 3, le_AmountINR = 456090 / 100,
          le_Timestamp = 50, le_CreatedAt = 50\<rparr>],
      price_history =
        [\<lparr>ph_ID = 1, ph_StockSymbol = ''RELIANCE'', ph_PriceINR = 24505001 / 10000,
          ph_Timestamp = 86400000001000, ph_CreatedAt = 86400000001000\<rparr>,
         \<lparr>ph_ID = 2, ph_StockSymbol = ''TCS'', ph_PriceINR = 368075 / 100,
          ph_Timestamp = 172800000001000, ph_CreatedAt = 172800000001000\<rparr>,
         \<lparr>ph_ID = 3, ph_StockSymbol = ''RELIANCE'', ph_PriceINR = 25000001 / 10000,
          ph_Timestamp = 172800000002000, ph_CreatedAt = 172800000002000\<rparr>],
      next_reward_id = 5, next_ledger_id = 6, next_price_id = 4,
      basePrices = [''RELIANCE'' \<mapsto> 24505 / 10, ''TCS'' \<mapsto> 368075 / 100],
      rng_draws = 0\<rparr>"

lemma held_mixed:
  "sum_list [le_Quantity le. le \<leftarrow> ledger_entries mixed_ledger, re \<leftarrow> reward_events mixed_ledger,
      re_ID re = le_RewardEventID le \<and> re_UserID re = 1 \<and> re_DeletedAt re = None
        \<and> re_Timestamp re \<le> t
        \<and> le_EntryType le = EntryTypeStock \<and> le_StockSymbol le = Some symbol]
   = (if symbol = ''RELIANCE'' \<and> 86400000001500 \<le> t then 5 / 2 else 0)
     + (if symbol = ''TCS'' \<and> 172800000001500 \<le> t then 1 else 0)"
  by (simp add: mixed_ledger_def)

lemma mixed_ledger_fields [simp]:
  "reward_events mixed_ledger =
        [\<lparr>re_ID = 1, re_UserID = 2, re_StockSymbol = ''TCS'', re_Quantity = 7,
          re_Timestamp = 100, re_CreatedAt = 100, re_UpdatedAt = 100, re_DeletedAt = None\<rparr>,
         \<lparr>re_ID = 2, re_UserID = 1, re_StockSymbol = ''RELIANCE'', re_Quantity = 5 / 2,
          re_Timestamp = 86400000001500, re_CreatedAt = 86400000001500,
          re_UpdatedAt = 86400000001500, re_DeletedAt = None\<rparr>,
         \<lparr>re_ID = 3, re_UserID = 1, re_StockSymbol = ''TCS'', re_Quantity = 1,
          re_Timestamp = 172800000001500, re_CreatedAt = 172800000001500,
          re_UpdatedAt = 172800000001500, re_DeletedAt = None\<rparr>,
         \<lparr>re_ID = 4, re_UserID = 1, re_StockSymbol = ''INFY'', re_Quantity = 3,
          re_Timestamp = 50, re_CreatedAt = 50, re_UpdatedAt = 60, re_DeletedAt = Some 60\<rparr>]"
  "price_history mixed_ledger =
        [\<lparr>ph_ID = 1, ph_StockSymbol = ''RELIANCE'', ph_PriceINR = 24505001 / 10000,
          ph_Timestamp = 86400000001000, ph_CreatedAt = 86400000001000\<rparr>,
         \<lparr>ph_ID = 2, ph_StockSymbol = ''TCS'', ph_PriceINR = 368075 / 100,
          ph_Timestamp = 172800000001000, ph_CreatedAt = 172800000001000\<rparr>,
         \<lparr>ph_ID = 3, ph_StockSymbol = ''RELIANCE'', ph_PriceINR = 25000001 / 10000,
          ph_Timestamp = 172800000002000, ph_CreatedAt = 172800000002000\<rparr>]"
  by (simp_all add: mixed_ledger_def)

lemma mixed_days:
  "map (\<lambda>k. k * 86400000000000)
     [re_Timestamp \<lparr>re_ID = 2, re_UserID = 1, re_StockSymbol = ''RELIANCE'', re_Quantity = 5 / 2,
          re_Timestamp = 86400000001500, re_CreatedAt = 86400000001500,
          re_UpdatedAt = 86400000001500, re_DeletedAt = None\<rparr> div 86400000000000 ..
      259200000000005 div 86400000000000 - 1]
   = [86400000000000, 172800000000000]"
  by (simp add: upto_rec1)

lemma mixed_prices:
  "stored_price_at mixed_ledger 259200000000005 ''RELIANCE'' (86400000000000 + 86399999999999)
     = Some (24505001 / 10000)"
  "stored_price_at mixed_ledger 259200000000005 ''RELIANCE'' (172800000000000 + 86399999999999)
     = Some (25000001 / 10000)"
  "stored_price_at mixed_ledger 259200000000005 ''TCS'' (172800000000000 + 86399999999999)
     = Some (368075 / 100)"
  by (simp_all add: stored_price_at_def latest_price_at_def price_before_def)

lemma mixed_keys: "distinct (map ph_ID (price_history mixed_ledger))"
  by simp

text \<open>
  Called for user 1 early on day 3, with no failing lookup: a row for day 1 and a row for
  day 2, none for day 0 (the grant of user 2 and the soft-deleted grant) and none for
  day 3. Day 1 counts 2.5
  RELIANCE at the sample of day 1: 2450.5001 * 2.5 = 6126.25025, rounded to 6126.2503.
  Day 2 counts 2.5 RELIANCE at the sample of day 2 and 1 TCS: 6250.00025 + 3680.75,
  rounded to 9930.7503. The state is unchanged. User 3 has no reward: no row.
\<close>

theorem historical_daily_values_witness:
  "GetHistoricalINR calm 259200000000005 mixed_ledger 1
     = (Inr [(86400000000000, 61262503 / 10000), (172800000000000, 99307503 / 10000)],
        mixed_ledger) \<and>
   GetHistoricalINR calm 259200000000005 mixed_ledger 3 = (Inr [], mixed_ledger)"
proof -
  let ?r2 = "\<lparr>re_ID = 2, re_UserID = 1, re_StockSymbol = ''RELIANCE'', re_Quantity = 5 / 2,
          re_Timestamp = 86400000001500, re_CreatedAt = 86400000001500,
          re_UpdatedAt = 86400000001500, re_DeletedAt = None\<rparr>"
  let ?H = "\<lambda>(date::int) symbol.
      (if symbol = ''RELIANCE'' \<and> 86400000001500 \<le> date + 86399999999999 then 5 / 2 else 0)
      + (if symbol = ''TCS'' \<and> 172800000001500 \<le> date + 86399999999999 then 1 else (0::rat))"
  let ?now = "259200000000005 :: int"
  let ?d1 = "86400000000000 :: int"
  let ?d2 = "172800000000000 :: int"
  have nofail: "\<forall>op. \<not> fails calm op" by simp
  note user1 = historical_daily_values [where e = calm and w = mixed_ledger and userID = 1
      and now = ?now, OF nofail, unfolded Let_def held_mixed]
  note user3 = historical_daily_values [where e = calm and w = mixed_ledger and userID = 3
      and now = ?now, OF nofail, unfolded Let_def]
  have r2: "?r2 \<in> set (reward_events mixed_ledger)" by simp
  have first: "re_UserID ?r2 = 1 \<and> re_DeletedAt ?r2 = None \<and>
      (\<forall>r\<in>set (reward_events mixed_ledger). re_UserID r = 1 \<and> re_DeletedAt r = None
          \<longrightarrow> re_Timestamp ?r2 \<le> re_Timestamp r)"
    by simp
  from user1 [THEN conjunct2, THEN bspec, OF r2, THEN mp, OF first, unfolded mixed_days]
  have "\<exists>price w'.
    GetHistoricalINR calm ?now mixed_ledger 1 =
            (Inr (map (\<lambda>date. (date, Round 4
                (\<Sum>symbol | 0 < ?H date symbol. price symbol date * ?H date symbol)))
                [?d1, ?d2]), w') \<and>
    reward_events w' = reward_events mixed_ledger \<and>
    ledger_entries w' = ledger_entries mixed_ledger \<and>
    (\<forall>date\<in>set [?d1, ?d2]. \<forall>symbol. 0 < ?H date symbol \<longrightarrow>
        price_found ?now (price_history w') symbol (date + 86399999999999) (price symbol date)) \<and>
    ((\<forall>date\<in>set [?d1, ?d2]. \<forall>symbol. 0 < ?H date symbol \<longrightarrow>
        (\<exists>p. price_found ?now (price_history mixed_ledger) symbol (date + 86399999999999) p))
     \<longrightarrow> w' = mixed_ledger)"
    by (rule conjunct2)
  then obtain price where "\<exists>w'.
    GetHistoricalINR calm ?now mixed_ledger 1 =
            (Inr (map (\<lambda>date. (date, Round 4
                (\<Sum>symbol | 0 < ?H date symbol. price symbol date * ?H date symbol)))
                [?d1, ?d2]), w') \<and>
    reward_events w' = reward_events mixed_ledger \<and>
    ledger_entries w' = ledger_entries mixed_ledger \<and>
    (\<forall>date\<in>set [?d1, ?d2]. \<forall>symbol. 0 < ?H date symbol \<longrightarrow>
        price_found ?now (price_history w') symbol (date + 86399999999999) (price symbol date)) \<and>
    ((\<forall>date\<in>set [?d1, ?d2]. \<forall>symbol. 0 < ?H date symbol \<longrightarrow>
        (\<exists>p. price_found ?now (price_history mixed_ledger) symbol (date + 86399999999999) p))
     \<longrightarrow> w' = mixed_ledger)"
    ..
  then obtain w' where all: "
    GetHistoricalINR calm ?now mixed_ledger 1 =
            (Inr (map (\<lambda>date. (date, Round 4
                (\<Sum>symbol | 0 < ?H date symbol. price symbol date * ?H date symbol)))
                [?d1, ?d2]), w') \<and>
    reward_events w' = reward_events mixed_ledger \<and>
    ledger_entries w' = ledger_entries mixed_ledger \<and>
    (\<forall>date\<in>set [?d1, ?d2]. \<forall>symbol. 0 < ?H date symbol \<longrightarrow>
        price_found ?now (price_history w') symbol (date + 86399999999999) (price symbol date)) \<and>
    ((\<forall>date\<in>set [?d1, ?d2]. \<forall>symbol. 0 < ?H date symbol \<longrightarrow>
        (\<exists>p. price_found ?now (price_history mixed_ledger) symbol (date + 86399999999999) p))
     \<longrightarrow> w' = mixed_ledger)"
    ..
  note run = all [THEN conjunct1]
  note priced = all [THEN conjunct2, THEN conjunct2, THEN conjunct2, THEN conjunct1]
  note unchanged = all [THEN conjunct2, THEN conjunct2, THEN conjunct2, THEN conjunct2]
  have held1: "{symbol. 0 < ?H ?d1 symbol} = {''RELIANCE''}"
    by (auto split: if_splits)
  have held2: "{symbol. 0 < ?H ?d2 symbol} = {''RELIANCE'', ''TCS''}"
    by (auto split: if_splits)
  have "\<forall>date\<in>set [?d1, ?d2]. \<forall>symbol. 0 < ?H date symbol \<longrightarrow>
        (\<exists>p. price_found ?now (price_history mixed_ledger) symbol (date + 86399999999999) p)"
  proof (intro ballI allI impI)
    fix date symbol
    assume d: "date \<in> set [?d1, ?d2]" and h: "0 < ?H date symbol"
    from h have "symbol = ''RELIANCE'' \<and> 86400000001500 \<le> date + 86399999999999 \<or>
        symbol = ''TCS'' \<and> 172800000001500 \<le> date + 86399999999999"
      by (simp split: if_splits)
    moreover from d have "date = ?d1 \<or> date = ?d2" by simp
    ultimately consider "date = ?d1" and "symbol = ''RELIANCE''"
      | "date = ?d2" and "symbol = ''RELIANCE''"
      | "date = ?d2" and "symbol = ''TCS''"
      by auto
    then show "\<exists>p. price_found ?now (price_history mixed_ledger) symbol (date + 86399999999999) p"
    proof cases
      case 1
      show ?thesis unfolding 1 by (rule exI, rule stored_price_found, rule mixed_prices(1))
    next
      case 2
      show ?thesis unfolding 2 by (rule exI, rule stored_price_found, rule mixed_prices(2))
    next
      case 3
      show ?thesis unfolding 3 by (rule exI, rule stored_price_found, rule mixed_prices(3))
    qed
  qed
  with unchanged have same: "w' = mixed_ledger" by (rule mp)
  have m1: "?d1 \<in> set [?d1, ?d2]" and m2: "?d2 \<in> set [?d1, ?d2]" by simp_all
  have h1: "0 < ?H ?d1 ''RELIANCE''" and h2: "0 < ?H ?d2 ''RELIANCE''" and h3: "0 < ?H ?d2 ''TCS''"
    by simp_all
  have p1: "price ''RELIANCE'' ?d1 = 24505001 / 10000"
    using price_found_unique [OF mixed_keys
        priced [unfolded same, THEN bspec, OF m1, THEN spec, THEN mp, OF h1]
        stored_price_found [OF mixed_prices(1)]] .
  have p2: "price ''RELIANCE'' ?d2 = 25000001 / 10000"
    using price_found_unique [OF mixed_keys
        priced [unfolded same, THEN bspec, OF m2, THEN spec, THEN mp, OF h2]
        stored_price_found [OF mixed_prices(2)]] .
  have p3: "price ''TCS'' ?d2 = 368075 / 100"
    using price_found_unique [OF mixed_keys
        priced [unfolded same, THEN bspec, OF m2, THEN spec, THEN mp, OF h3]
        stored_price_found [OF mixed_prices(3)]] .
  have s1: "(\<Sum>symbol | 0 < ?H ?d1 symbol. price symbol ?d1 * ?H ?d1 symbol)
      = 24505001 / 10000 * (5 / 2)"
    unfolding held1 by (simp add: p1)
  have s2: "(\<Sum>symbol | 0 < ?H ?d2 symbol. price symbol ?d2 * ?H ?d2 symbol)
      = 25000001 / 10000 * (5 / 2) + 368075 / 100"
    unfolding held2 by (simp add: p2 p3)
  have "GetHistoricalINR calm ?now mixed_ledger 1
     = (Inr [(?d1, Round 4 (24505001 / 10000 * (5 / 2))),
             (?d2, Round 4 (25000001 / 10000 * (5 / 2) + 368075 / 100))], mixed_ledger)"
    using run unfolding list.map s1 s2 same .
  then have "GetHistoricalINR calm ?now mixed_ledger 1
     = (Inr [(?d1, 61262503 / 10000), (?d2, 99307503 / 10000)], mixed_ledger)"
    by (simp add: Round_def)
  moreover have "GetHistoricalINR calm ?now mixed_ledger 3 = (Inr [], mixed_ledger)"
    using user3 [THEN conjunct1] by simp
  ultimately show ?thesis by (rule conjI)
qed

section \<open>Failing lookups in the read queries\<close>

lemma GetCurrentPrice_isl:
  "isl (fst (GetCurrentPrice e now w symbol)) \<longleftrightarrow> fails e (QueryLatestPrice symbol)"
  by (simp add: GetCurrentPrice_def generate_and_save_fst split: option.splits)

text \<open>An environment in which exactly the lookup of the latest RELIANCE price fails.\<close>

definition price_lookup_down :: env where
  "price_lookup_down =
     \<lparr>fails = (\<lambda>op. op = QueryLatestPrice ''RELIANCE''), variation = (\<lambda>n. 0)\<rparr>"

text \<open>
  C8, as stated: if an underlying lookup fails, the query returns an error. User 1
  holds 2.5 RELIANCE and the price lookup for RELIANCE fails: GetPortfolio returns no
  error but an empty list of holdings and a total value of 0.
\<close>

theorem portfolio_price_failure_counterexample:
  "fails price_lookup_down (QueryLatestPrice ''RELIANCE'') \<and>
   holdings_of reliance_rewarded 1 = [(''RELIANCE'', 5 / 2)] \<and>
   GetPortfolio price_lookup_down 2000 reliance_rewarded 1 = (Inr ([], 0), reliance_rewarded)"
proof -
  have h: "holdings_of reliance_rewarded 1 = [(''RELIANCE'', 5 / 2)]"
    by (simp add: holdings_of_def stock_rows_def group_having_def total_qty_def)
  have f: "fails price_lookup_down (QueryLatestPrice ''RELIANCE'')"
    and nf: "\<not> fails price_lookup_down (QueryHoldings 1)"
    by (simp_all add: price_lookup_down_def)
  have "GetCurrentPrice price_lookup_down 2000 reliance_rewarded ''RELIANCE''
          = (Inl FetchPriceFailed, reliance_rewarded)"
    using f by (simp add: GetCurrentPrice_def)
  with h f nf show ?thesis
    by (simp add: GetPortfolio_def GetUserStockHoldings_def RoundINR_def)
qed

subsection \<open>The loops under failing lookups\<close>

text \<open>
  \<open>adds_prices now w w'\<close>: the state \<open>w'\<close> has the rewards and ledger entries of \<open>w\<close>, and
  its price history is that of \<open>w\<close> followed by samples taken at \<open>now\<close>.
\<close>

definition adds_prices :: "time \<Rightarrow> world \<Rightarrow> world \<Rightarrow> bool" where
  "adds_prices now w w' \<longleftrightarrow>
     reward_events w' = reward_events w \<and> ledger_entries w' = ledger_entries w \<and>
     (\<exists>added. price_history w' = price_history w @ added \<and>
        (\<forall>ph\<in>set added. ph_Timestamp ph = now))"

lemma adds_prices_refl: "adds_prices now w w"
  by (simp add: adds_prices_def)

lemma adds_prices_trans:
  assumes "adds_prices now w w1" and "adds_prices now w1 w2"
  shows "adds_prices now w w2"
proof -
  from assms(1) obtain a where a: "price_history w1 = price_history w @ a"
    "\<forall>ph\<in>set a. ph_Timestamp ph = now"
    by (auto simp: adds_prices_def)
  from assms(2) obtain b where b: "price_history w2 = price_history w1 @ b"
    "\<forall>ph\<in>set b. ph_Timestamp ph = now"
    by (auto simp: adds_prices_def)
  have "price_history w2 = price_history w @ (a @ b)" using a b by simp
  moreover have "\<forall>ph\<in>set (a @ b). ph_Timestamp ph = now" using a b by auto
  ultimately have "\<exists>added. price_history w2 = price_history w @ added \<and>
        (\<forall>ph\<in>set added. ph_Timestamp ph = now)"
    by blast
  with assms show ?thesis by (simp add: adds_prices_def)
qed

lemma generate_and_save_adds: "adds_prices now w (snd (generate_and_save e now w symbol))"
proof -
  let ?new = "\<lparr>ph_ID = next_price_id w, ph_StockSymbol = symbol,
               ph_PriceINR = fst (GeneratePrice e w symbol),
               ph_Timestamp = now, ph_CreatedAt = now\<rparr>"
  let ?added = "if fails e (InsertPrice symbol) then [] else [?new]"
  have "price_history (snd (generate_and_save e now w symbol)) = price_history w @ ?added"
    by (simp add: generate_and_save_history)
  moreover have "\<forall>ph\<in>set ?added. ph_Timestamp ph = now" by simp
  ultimately have "\<exists>added. price_history (snd (generate_and_save e now w symbol))
        = price_history w @ added \<and> (\<forall>ph\<in>set added. ph_Timestamp ph = now)"
    by blast
  then show ?thesis
    by (simp add: adds_prices_def generate_and_save_frame)
qed

lemma GetCurrentPrice_adds: "adds_prices now w (snd (GetCurrentPrice e now w symbol))"
  by (simp add: GetCurrentPrice_def generate_and_save_adds adds_prices_refl
      split: option.splits)

lemma GetPriceAtTime_adds: "adds_prices now w (snd (GetPriceAtTime e now w symbol t))"
  by (simp add: GetPriceAtTime_def GetCurrentPrice_adds adds_prices_refl split: option.splits)

lemma adds_prices_upto:
  assumes "adds_prices now w w'" and "t < now"
  shows "filter (\<lambda>ph. ph_StockSymbol ph = symbol \<and> ph_Timestamp ph \<le> t) (price_history w')
       = filter (\<lambda>ph. ph_StockSymbol ph = symbol \<and> ph_Timestamp ph \<le> t) (price_history w)"
proof -
  from assms(1) obtain added where a: "price_history w' = price_history w @ added"
    "\<forall>ph\<in>set added. ph_Timestamp ph = now"
    by (auto simp: adds_prices_def)
  from a(2) assms(2)
  have "filter (\<lambda>ph. ph_StockSymbol ph = symbol \<and> ph_Timestamp ph \<le> t) added = []"
    by (auto simp: filter_empty_conv)
  with a(1) show ?thesis by simp
qed

lemma adds_prices_at:
  assumes "adds_prices now w w'" and "t < now"
  shows "latest_price_at w' symbol t = latest_price_at w symbol t"
  unfolding latest_price_at_def adds_prices_upto [OF assms] by (rule refl)

lemma adds_prices_holdings:
  "adds_prices now w w' \<Longrightarrow> holdings_up_to w' userID t = holdings_up_to w userID t"
  by (simp add: adds_prices_def holdings_up_to_def)

text \<open>
  A price lookup for the end of a day is skipped when the query for the sample at or
  before that instant fails, or when there is no such sample and the query for the latest
  sample fails.
\<close>

abbreviation price_skipped :: "env \<Rightarrow> world \<Rightarrow> string \<Rightarrow> time \<Rightarrow> bool" where
  "price_skipped e w symbol t \<equiv>
     \<not> (\<not> fails e (QueryPriceAt symbol t) \<and>
        (filter (\<lambda>ph. ph_StockSymbol ph = symbol \<and> ph_Timestamp ph \<le> t) (price_history w) = []
           \<longrightarrow> \<not> fails e (QueryLatestPrice symbol)))"

definition price_at_or :: "world \<Rightarrow> string \<Rightarrow> time \<Rightarrow> decimal \<Rightarrow> decimal" where
  "price_at_or w symbol t p =
     (case latest_price_at w symbol t of Some ph \<Rightarrow> ph_PriceINR ph | None \<Rightarrow> p)"

lemma GetPriceAtTime_isl:
  "isl (fst (GetPriceAtTime e now w symbol t)) \<longleftrightarrow> price_skipped e w symbol t"
proof (cases "latest_price_at w symbol t")
  case None
  then have "filter (\<lambda>ph. ph_StockSymbol ph = symbol \<and> ph_Timestamp ph \<le> t) (price_history w) = []"
    by (simp add: latest_price_at_def first_by_None_iff)
  with None show ?thesis
    by (simp add: GetPriceAtTime_def GetCurrentPrice_isl)
next
  case (Some ph)
  then have "filter (\<lambda>ph. ph_StockSymbol ph = symbol \<and> ph_Timestamp ph \<le> t) (price_history w) \<noteq> []"
    using first_by_None_iff [of price_before
        "filter (\<lambda>ph. ph_StockSymbol ph = symbol \<and> ph_Timestamp ph \<le> t) (price_history w)"]
    by (simp add: latest_price_at_def)
  with Some show ?thesis
    by (simp add: GetPriceAtTime_def)
qed

lemma GetPriceAtTime_value:
  assumes "GetPriceAtTime e now w symbol t = (Inr p, w1)"
  shows "price_at_or w symbol t p = p"
  using assms
  by (auto simp: GetPriceAtTime_def price_at_or_def split: if_splits option.splits)

definition day_value :: "env \<Rightarrow> world \<Rightarrow> time \<Rightarrow> (string \<times> decimal) list \<Rightarrow> (string \<Rightarrow> decimal) \<Rightarrow> decimal" where
  "day_value e w t holdings fallback =
     (\<Sum>(symbol, qty)\<leftarrow>filter (\<lambda>(symbol, qty). \<not> price_skipped e w symbol t) holdings.
        price_at_or w symbol t (fallback symbol) * qty)"

lemma day_value_adds:
  assumes "adds_prices now w w'" and "t < now"
  shows "day_value e w' t holdings fallback = day_value e w t holdings fallback"
  unfolding day_value_def price_at_or_def adds_prices_upto [OF assms] adds_prices_at [OF assms]
  by (rule refl)

lemma day_value_Nil [simp]: "day_value e w t [] fallback = 0"
  by (simp add: day_value_def)

lemma day_value_Cons:
  "day_value e w t ((symbol, qty) # holdings) fallback =
     (if price_skipped e w symbol t then 0 else price_at_or w symbol t (fallback symbol) * qty)
     + day_value e w t holdings fallback"
  by (simp add: day_value_def)

lemma day_value_cong:
  assumes "\<forall>(symbol, qty)\<in>set holdings. f symbol = g symbol"
  shows "day_value e w t holdings f = day_value e w t holdings g"
  using assms by (induction holdings) (auto simp: day_value_Cons)

lemma historical_value_loop_faulty:
  assumes t: "t < now" and "distinct (map fst holdings)"
  shows "\<exists>fallback w'. historical_value_loop e now t holdings totalValue w
            = (totalValue + day_value e w t holdings fallback, w') \<and> adds_prices now w w'"
  using assms(2)
proof (induction holdings arbitrary: totalValue w)
  case Nil
  show ?case by (simp add: adds_prices_refl)
next
  case (Cons h holdings)
  obtain symbol qty where h: "h = (symbol, qty)" by (cases h)
  from Cons.prems h have fresh: "symbol \<notin> fst ` set holdings"
    and rest: "distinct (map fst holdings)"
    by simp_all
  obtain r w1 where g: "GetPriceAtTime e now w symbol t = (r, w1)"
    by (cases "GetPriceAtTime e now w symbol t")
  have a1: "adds_prices now w w1"
    using GetPriceAtTime_adds [of now w e symbol t] g by simp
  show ?case
  proof (cases r)
    case (Inl err)
    with g have skipped: "price_skipped e w symbol t"
      using GetPriceAtTime_isl [of e now w symbol t] by simp
    from Cons.IH [OF rest, of totalValue w1] obtain fallback w' where
      run: "historical_value_loop e now t holdings totalValue w1
            = (totalValue + day_value e w1 t holdings fallback, w')"
      and a2: "adds_prices now w1 w'"
      by blast
    have "historical_value_loop e now t (h # holdings) totalValue w
        = (totalValue + day_value e w t (h # holdings) fallback, w')"
      using h g Inl run skipped
      by (simp add: day_value_Cons day_value_adds [OF a1 t])
    with adds_prices_trans [OF a1 a2] show ?thesis by blast
  next
    case (Inr p)
    with g have valued: "\<not> price_skipped e w symbol t"
      using GetPriceAtTime_isl [of e now w symbol t] by simp
    from g Inr have p: "price_at_or w symbol t p = p"
      by (intro GetPriceAtTime_value) simp
    from Cons.IH [OF rest, of "totalValue + p * qty" w1] obtain fallback w' where
      run: "historical_value_loop e now t holdings (totalValue + p * qty) w1
            = (totalValue + p * qty + day_value e w1 t holdings fallback, w')"
      and a2: "adds_prices now w1 w'"
      by blast
    let ?fallback = "fallback(symbol := p)"
    have same: "day_value e w t holdings ?fallback = day_value e w t holdings fallback"
      using fresh by (intro day_value_cong) force
    have "day_value e w t (h # holdings) ?fallback = p * qty + day_value e w t holdings fallback"
      using valued p h same by (simp add: day_value_Cons)
    then have "historical_value_loop e now t (h # holdings) totalValue w
        = (totalValue + day_value e w t (h # holdings) ?fallback, w')"
      using h g Inr run by (simp add: day_value_adds [OF a1 t])
    with adds_prices_trans [OF a1 a2] show ?thesis by blast
  qed
qed

lemma historical_loop_faulty:
  assumes early: "\<forall>date\<in>set dates. EndOfDayUTC date < now" and "distinct dates"
  shows "\<exists>fallback w'. historical_loop e now userID dates result w
            = (result @ map (\<lambda>date. (date, RoundINR
                  (day_value e w (EndOfDayUTC date) (holdings_up_to w userID (EndOfDayUTC date))
                     (\<lambda>symbol. fallback symbol date))))
                 (filter (\<lambda>date. \<not> fails e (QueryHoldingsUpTo userID (EndOfDayUTC date))) dates),
               w') \<and>
            adds_prices now w w'"
  using assms
proof (induction dates arbitrary: result w)
  case Nil
  show ?case by (simp add: adds_prices_refl)
next
  case (Cons date dates)
  let ?t = "EndOfDayUTC date"
  let ?row = "\<lambda>w fallback date. (date, RoundINR
                  (day_value e w (EndOfDayUTC date) (holdings_up_to w userID (EndOfDayUTC date))
                     (\<lambda>symbol. fallback symbol date)))"
  let ?kept = "\<lambda>dates. filter (\<lambda>date. \<not> fails e (QueryHoldingsUpTo userID (EndOfDayUTC date))) dates"
  from Cons.prems have t: "?t < now" and later: "\<forall>date\<in>set dates. EndOfDayUTC date < now"
    and fresh: "date \<notin> set dates" and rest: "distinct dates"
    by simp_all
  show ?case
  proof (cases "fails e (QueryHoldingsUpTo userID ?t)")
    case True
    from Cons.IH [OF later rest, of result w] obtain fallback w' where
      run: "historical_loop e now userID dates result w
              = (result @ map (?row w fallback) (?kept dates), w')"
      and a: "adds_prices now w w'"
      by blast
    from True run have "historical_loop e now userID (date # dates) result w
        = (result @ map (?row w fallback) (?kept (date # dates)), w')"
      by (simp add: GetUserStockHoldingsUpToDate_def)
    with a show ?thesis
      by (intro exI [of _ fallback] exI [of _ w'] conjI)
  next
    case False
    let ?hs = "holdings_up_to w userID ?t"
    have "distinct (map fst ?hs)"
      unfolding holdings_up_to_def by (rule distinct_group_having)
    from historical_value_loop_faulty [OF t this, of e 0 w] obtain today w1 where
      day: "historical_value_loop e now ?t ?hs 0 w = (0 + day_value e w ?t ?hs today, w1)"
      and a1: "adds_prices now w w1"
      by blast
    let ?v = "RoundINR (day_value e w ?t ?hs today)"
    from Cons.IH [OF later rest, of "result @ [(date, ?v)]" w1] obtain fallback w' where
      run: "historical_loop e now userID dates (result @ [(date, ?v)]) w1
              = ((result @ [(date, ?v)]) @ map (?row w1 fallback) (?kept dates), w')"
      and a2: "adds_prices now w1 w'"
      by blast
    let ?fallback = "\<lambda>symbol d. if d = date then today symbol else fallback symbol d"
    have other: "?row w1 fallback d = ?row w ?fallback d" if "d \<in> set (?kept dates)" for d
    proof -
      from that fresh have "d \<noteq> date" and "d \<in> set dates" by auto
      with later have "EndOfDayUTC d < now" by simp
      from day_value_adds [OF a1 this] adds_prices_holdings [OF a1] \<open>d \<noteq> date\<close>
      show ?thesis by simp
    qed
    have "map (?row w1 fallback) (?kept dates) = map (?row w ?fallback) (?kept dates)"
      by (rule map_cong [OF refl]) (rule other)
    moreover have "historical_loop e now userID (date # dates) result w
        = historical_loop e now userID dates (result @ [(date, ?v)]) w1"
      using False day by (simp add: GetUserStockHoldingsUpToDate_def Let_def)
    ultimately have "historical_loop e now userID (date # dates) result w
        = (result @ map (?row w ?fallback) (?kept (date # dates)), w')"
      using run False by simp
    moreover have "adds_prices now w w'" using a1 a2 by (rule adds_prices_trans)
    ultimately show ?thesis
      by (intro exI [of _ ?fallback] exI [of _ w'] conjI)
  qed
qed

text \<open>The price GetCurrentPrice returns: the latest sample's if it is fresh, else \<open>p\<close>.\<close>

definition current_or :: "time \<Rightarrow> world \<Rightarrow> string \<Rightarrow> decimal \<Rightarrow> decimal" where
  "current_or now w symbol p =
     (case latest_price w symbol of
        None \<Rightarrow> p
      | Some ph \<Rightarrow> if now - ph_Timestamp ph > 2 * nsPerHour then p else ph_PriceINR ph)"

lemma GetCurrentPrice_value:
  assumes "GetCurrentPrice e now w symbol = (Inr p, w1)"
  shows "current_or now w symbol p = p"
  using assms
  by (auto simp: GetCurrentPrice_def current_or_def split: if_splits option.splits)

lemma generate_and_save_other:
  assumes "s \<noteq> symbol"
  shows "latest_price (snd (generate_and_save e now w symbol)) s = latest_price w s"
  using assms by (simp add: latest_price_def generate_and_save_history)

lemma GetCurrentPrice_other:
  assumes "s \<noteq> symbol"
  shows "latest_price (snd (GetCurrentPrice e now w symbol)) s = latest_price w s"
  using assms
  by (simp add: GetCurrentPrice_def generate_and_save_other split: option.splits)

definition valued_items ::
  "env \<Rightarrow> (string \<Rightarrow> decimal) \<Rightarrow> (string \<times> decimal) list
     \<Rightarrow> (string \<times> decimal \<times> decimal \<times> decimal) list" where
  "valued_items e price holdings =
     map (\<lambda>(symbol, qty). (symbol, qty, RoundINR (price symbol), RoundINR (price symbol * qty)))
       (filter (\<lambda>(symbol, qty). \<not> fails e (QueryLatestPrice symbol)) holdings)"

definition valued_total :: "env \<Rightarrow> (string \<Rightarrow> decimal) \<Rightarrow> (string \<times> decimal) list \<Rightarrow> decimal" where
  "valued_total e price holdings =
     (\<Sum>(symbol, qty)\<leftarrow>filter (\<lambda>(symbol, qty). \<not> fails e (QueryLatestPrice symbol)) holdings.
        price symbol * qty)"

lemma valued_Cons:
  "valued_items e price ((symbol, qty) # holdings) =
     (if fails e (QueryLatestPrice symbol) then []
      else [(symbol, qty, RoundINR (price symbol), RoundINR (price symbol * qty))])
     @ valued_items e price holdings"
  "valued_total e price ((symbol, qty) # holdings) =
     (if fails e (QueryLatestPrice symbol) then 0 else price symbol * qty)
     + valued_total e price holdings"
  by (simp_all add: valued_items_def valued_total_def)

lemma valued_Nil [simp]:
  "valued_items e price [] = []" "valued_total e price [] = 0"
  by (simp_all add: valued_items_def valued_total_def)

lemma valued_cong:
  assumes "\<forall>(symbol, qty)\<in>set holdings. f symbol = g symbol"
  shows "valued_items e f holdings = valued_items e g holdings"
    and "valued_total e f holdings = valued_total e g holdings"
  using assms by (induction holdings) (auto simp: valued_Cons)

lemma portfolio_loop_faulty:
  assumes "distinct (map fst holdings)"
  shows "\<exists>synthesized w'. portfolio_loop e now holdings items totalValue w
            = ((items @ valued_items e (\<lambda>symbol. current_or now w symbol (synthesized symbol)) holdings,
                totalValue
                  + valued_total e (\<lambda>symbol. current_or now w symbol (synthesized symbol)) holdings),
               w') \<and>
            (\<forall>s. s \<notin> fst ` set holdings \<longrightarrow> latest_price w' s = latest_price w s)"
  using assms
proof (induction holdings arbitrary: items totalValue w)
  case Nil
  show ?case by (simp add: valued_items_def valued_total_def)
next
  case (Cons h holdings)
  obtain symbol qty where h: "h = (symbol, qty)" by (cases h)
  from Cons.prems h have fresh: "symbol \<notin> fst ` set holdings"
    and rest: "distinct (map fst holdings)"
    by simp_all
  obtain r w1 where g: "GetCurrentPrice e now w symbol = (r, w1)"
    by (cases "GetCurrentPrice e now w symbol")
  have other: "latest_price w1 s = latest_price w s" if "s \<noteq> symbol" for s
    using GetCurrentPrice_other [OF that, of e now w] g by simp
  have same: "current_or now w1 s p = current_or now w s p" if "s \<noteq> symbol" for s p
    by (simp add: current_or_def other [OF that])
  show ?case
  proof (cases r)
    case (Inl err)
    with g have skipped: "fails e (QueryLatestPrice symbol)"
      using GetCurrentPrice_isl [of e now w symbol] by simp
    from Cons.IH [OF rest, of items totalValue w1] obtain synthesized w' where
      run: "portfolio_loop e now holdings items totalValue w1
            = ((items @ valued_items e (\<lambda>s. current_or now w1 s (synthesized s)) holdings,
                totalValue + valued_total e (\<lambda>s. current_or now w1 s (synthesized s)) holdings),
               w')"
      and late: "\<forall>s. s \<notin> fst ` set holdings \<longrightarrow> latest_price w' s = latest_price w1 s"
      by blast
    have "current_or now w1 s (synthesized s) = current_or now w s (synthesized s)"
      if "(s, q) \<in> set holdings" for s q
    proof -
      from that fresh have "s \<noteq> symbol" by force
      then show ?thesis by (rule same)
    qed
    then have agree: "\<forall>(s, q)\<in>set holdings.
        current_or now w1 s (synthesized s) = current_or now w s (synthesized s)"
      by blast
    have "portfolio_loop e now (h # holdings) items totalValue w
        = ((items @ valued_items e (\<lambda>s. current_or now w s (synthesized s)) (h # holdings),
            totalValue + valued_total e (\<lambda>s. current_or now w s (synthesized s)) (h # holdings)),
           w')"
      using h g Inl run skipped valued_cong [OF agree, of e]
      by (simp add: valued_Cons)
    moreover have "\<forall>s. s \<notin> fst ` set (h # holdings) \<longrightarrow> latest_price w' s = latest_price w s"
      using late other h by simp
    ultimately show ?thesis
      by (intro exI [of _ synthesized] exI [of _ w'] conjI)
  next
    case (Inr p)
    with g have valued: "\<not> fails e (QueryLatestPrice symbol)"
      using GetCurrentPrice_isl [of e now w symbol] by simp
    from g Inr have p: "current_or now w symbol p = p"
      by (intro GetCurrentPrice_value) simp
    let ?item = "(symbol, qty, RoundINR p, RoundINR (p * qty))"
    from Cons.IH [OF rest, of "items @ [?item]" "totalValue + p * qty" w1]
    obtain synthesized w' where
      run: "portfolio_loop e now holdings (items @ [?item]) (totalValue + p * qty) w1
            = (((items @ [?item])
                  @ valued_items e (\<lambda>s. current_or now w1 s (synthesized s)) holdings,
                totalValue + p * qty
                  + valued_total e (\<lambda>s. current_or now w1 s (synthesized s)) holdings),
               w')"
      and late: "\<forall>s. s \<notin> fst ` set holdings \<longrightarrow> latest_price w' s = latest_price w1 s"
      by blast
    let ?synthesized = "synthesized(symbol := p)"
    have "current_or now w1 s (synthesized s) = current_or now w s (?synthesized s)"
      if "(s, q) \<in> set holdings" for s q
    proof -
      from that fresh have "s \<noteq> symbol" by force
      then show ?thesis by (simp add: same)
    qed
    then have agree: "\<forall>(s, q)\<in>set holdings.
        current_or now w1 s (synthesized s) = current_or now w s (?synthesized s)"
      by blast
    have head: "current_or now w symbol (?synthesized symbol) = p"
      using p by simp
    have "portfolio_loop e now (h # holdings) items totalValue w
        = ((items @ valued_items e (\<lambda>s. current_or now w s (?synthesized s)) (h # holdings),
            totalValue + valued_total e (\<lambda>s. current_or now w s (?synthesized s)) (h # holdings)),
           w')"
      using h g Inr run valued valued_cong [OF agree, of e] head
      by (simp add: valued_Cons Let_def)
    moreover have "\<forall>s. s \<notin> fst ` set (h # holdings) \<longrightarrow> latest_price w' s = latest_price w s"
      using late other h by simp
    ultimately show ?thesis
      by (intro exI [of _ ?synthesized] exI [of _ w'] conjI)
  qed
qed

lemma stats_value_loop_portfolio:
  "stats_value_loop e now holdings totalValue w
     = (snd (fst (portfolio_loop e now holdings items totalValue w)),
        snd (portfolio_loop e now holdings items totalValue w))"
proof (induction holdings arbitrary: items totalValue w)
  case Nil
  show ?case by simp
next
  case (Cons h holdings)
  obtain symbol qty where h: "h = (symbol, qty)" by (cases h)
  obtain r w1 where g: "GetCurrentPrice e now w symbol = (r, w1)"
    by (cases "GetCurrentPrice e now w symbol")
  show ?case
    using h g Cons.IH by (cases r) (simp_all add: Let_def)
qed

lemma valued_total_as_sum:
  "valued_total e price (group_having rows)
     = (\<Sum>symbol | 0 < total_qty rows symbol \<and> \<not> fails e (QueryLatestPrice symbol).
          price symbol * total_qty rows symbol)"
  unfolding valued_total_def
  by (rule sum_list_group_having
        [where P = "\<lambda>symbol. \<not> fails e (QueryLatestPrice symbol)"
           and F = "\<lambda>symbol qty. price symbol * qty"])

lemma valued_items_as_set:
  "distinct (map fst (valued_items e price (group_having rows)))"
  "set (valued_items e price (group_having rows))
     = (\<lambda>symbol. (symbol, total_qty rows symbol, RoundINR (price symbol),
                    RoundINR (price symbol * total_qty rows symbol)))
       ` {symbol. 0 < total_qty rows symbol \<and> \<not> fails e (QueryLatestPrice symbol)}"
proof -
  have "map fst (valued_items e price holdings)
      = filter (\<lambda>symbol. \<not> fails e (QueryLatestPrice symbol)) (map fst holdings)" for holdings
    by (induction holdings) (auto simp: valued_Cons)
  then show "distinct (map fst (valued_items e price (group_having rows)))"
    using distinct_group_having [of rows] by simp
  show "set (valued_items e price (group_having rows))
     = (\<lambda>symbol. (symbol, total_qty rows symbol, RoundINR (price symbol),
                    RoundINR (price symbol * total_qty rows symbol)))
       ` {symbol. 0 < total_qty rows symbol \<and> \<not> fails e (QueryLatestPrice symbol)}"
    unfolding valued_items_def set_map set_filter set_group_having by force
qed

lemma day_value_as_sum:
  "day_value e w t (group_having rows) fallback
     = (\<Sum>symbol | 0 < total_qty rows symbol \<and> \<not> price_skipped e w symbol t.
          price_at_or w symbol t (fallback symbol) * total_qty rows symbol)"
  unfolding day_value_def
  by (rule sum_list_group_having
        [where P = "\<lambda>symbol. \<not> price_skipped e w symbol t"
           and F = "\<lambda>symbol qty. price_at_or w symbol t (fallback symbol) * qty"])

lemma current_or_latest:
  assumes "latest_among (filter (\<lambda>ph. ph_StockSymbol ph = symbol) (price_history w)) ph"
    and "now - ph_Timestamp ph \<le> 7200000000000"
  shows "\<exists>ph. latest_among (filter (\<lambda>ph. ph_StockSymbol ph = symbol) (price_history w)) ph \<and>
           current_or now w symbol p = ph_PriceINR ph"
proof -
  let ?all = "filter (\<lambda>ph. ph_StockSymbol ph = symbol) (price_history w)"
  from assms(1) have mem: "ph \<in> set ?all" by (rule conjunct1)
  from length_pos_if_in_set [OF mem] have "?all \<noteq> []"
    by (simp only: length_greater_0_conv simp_thms)
  then obtain r where r: "first_by price_before ?all = Some r"
    using first_by_None_iff [of price_before ?all] by (cases "first_by price_before ?all") auto
  have latest: "latest_among ?all r"
    using first_by_mem [OF r] first_by_price_first [OF r] by blast
  from first_by_price_latest [OF r mem] assms(2) have "now - ph_Timestamp r \<le> 7200000000000"
    by linarith
  with r have "current_or now w symbol p = ph_PriceINR r"
    by (simp add: current_or_def latest_price_def nsPerHour_def)
  with latest show ?thesis by blast
qed

lemma price_at_or_latest:
  assumes "filter (\<lambda>ph. ph_StockSymbol ph = symbol \<and> ph_Timestamp ph \<le> t) (price_history w) \<noteq> []"
  shows "\<exists>ph. latest_among (filter (\<lambda>ph. ph_StockSymbol ph = symbol \<and> ph_Timestamp ph \<le> t)
                              (price_history w)) ph \<and>
           price_at_or w symbol t p = ph_PriceINR ph"
proof -
  let ?upto = "filter (\<lambda>ph. ph_StockSymbol ph = symbol \<and> ph_Timestamp ph \<le> t) (price_history w)"
  from assms obtain r where r: "first_by price_before ?upto = Some r"
    using first_by_None_iff [of price_before ?upto] by (cases "first_by price_before ?upto") auto
  have latest: "latest_among ?upto r"
    using first_by_mem [OF r] first_by_price_first [OF r] by blast
  from r have "price_at_or w symbol t p = ph_PriceINR r"
    by (simp add: price_at_or_def latest_price_at_def)
  with latest show ?thesis by blast
qed

lemma distinct_days: "distinct (map (\<lambda>k. k * 86400000000000) [a .. (b::int)])"
  by (simp add: distinct_map inj_on_def)

lemma GetPortfolio_valued:
  assumes "\<not> fails e (QueryHoldings userID)"
  shows "\<exists>synthesized. fst (GetPortfolio e now w userID) =
           Inr (valued_items e (\<lambda>symbol. current_or now w symbol (synthesized symbol))
                  (holdings_of w userID),
                RoundINR (valued_total e (\<lambda>symbol. current_or now w symbol (synthesized symbol))
                  (holdings_of w userID)))"
proof -
  have "distinct (map fst (holdings_of w userID))"
    unfolding holdings_of_def by (rule distinct_group_having)
  from portfolio_loop_faulty [OF this, of e now "[]" 0 w] obtain synthesized w' where
    "portfolio_loop e now (holdings_of w userID) [] 0 w
       = (([] @ valued_items e (\<lambda>symbol. current_or now w symbol (synthesized symbol))
                  (holdings_of w userID),
           0 + valued_total e (\<lambda>symbol. current_or now w symbol (synthesized symbol))
                  (holdings_of w userID)), w')"
    by blast
  with assms have "fst (GetPortfolio e now w userID) =
           Inr (valued_items e (\<lambda>symbol. current_or now w symbol (synthesized symbol))
                  (holdings_of w userID),
                RoundINR (valued_total e (\<lambda>symbol. current_or now w symbol (synthesized symbol))
                  (holdings_of w userID)))"
    by (simp add: GetPortfolio_def GetUserStockHoldings_def)
  then show ?thesis by (rule exI [of _ synthesized])
qed

lemma GetStats_valued:
  assumes "\<not> fails e (QueryTodayRewards userID)" and "\<not> fails e (QueryHoldings userID)"
  shows "\<exists>synthesized today. fst (GetStats e now w userID) =
           Inr (today,
                RoundINR (valued_total e (\<lambda>symbol. current_or now w symbol (synthesized symbol))
                  (holdings_of w userID)))"
proof -
  have "distinct (map fst (holdings_of w userID))"
    unfolding holdings_of_def by (rule distinct_group_having)
  from portfolio_loop_faulty [OF this, of e now "[]" 0 w] obtain synthesized w' where
    "portfolio_loop e now (holdings_of w userID) [] 0 w
       = (([] @ valued_items e (\<lambda>symbol. current_or now w symbol (synthesized symbol))
                  (holdings_of w userID),
           0 + valued_total e (\<lambda>symbol. current_or now w symbol (synthesized symbol))
                  (holdings_of w userID)), w')"
    by blast
  then have "stats_value_loop e now (holdings_of w userID) 0 w
       = (valued_total e (\<lambda>symbol. current_or now w symbol (synthesized symbol))
                  (holdings_of w userID), w')"
    using stats_value_loop_portfolio [of e now "holdings_of w userID" 0 w "[]"] by simp
  with assms have "\<exists>today. fst (GetStats e now w userID) =
           Inr (today,
                RoundINR (valued_total e (\<lambda>symbol. current_or now w symbol (synthesized symbol))
                  (holdings_of w userID)))"
    by (simp add: GetStats_def GetTodayRewards_def GetUserStockHoldings_def Let_def)
  then show ?thesis by (rule exI [of _ synthesized])
qed

lemma GetHistoricalINR_valued:
  assumes "\<not> fails e (QueryFirstReward userID)" and "first_reward w userID = Some r"
  shows "\<exists>fallback. fst (GetHistoricalINR e now w userID) =
           Inr (map (\<lambda>date. (date, RoundINR
                  (day_value e w (EndOfDayUTC date) (holdings_up_to w userID (EndOfDayUTC date))
                     (\<lambda>symbol. fallback symbol date))))
                 (filter (\<lambda>date. \<not> fails e (QueryHoldingsUpTo userID (EndOfDayUTC date)))
                    (map (\<lambda>k. k * 86400000000000)
                       [re_Timestamp r div 86400000000000 .. now div 86400000000000 - 1])))"
proof -
  let ?days = "map (\<lambda>k. k * 86400000000000)
                 [re_Timestamp r div 86400000000000 .. now div 86400000000000 - 1]"
  have dates: "GetPastDates (StartOfDayUTC (re_Timestamp r)) (GetYesterday now) = ?days"
    using GetPastDates_days [of "re_Timestamp r" now] by (simp add: nsPerDay_def)
  have early: "\<forall>date\<in>set ?days. EndOfDayUTC date < now"
    using listed_days_early [of "re_Timestamp r div 86400000000000" now]
    by (simp add: nsPerDay_def)
  from historical_loop_faulty [OF early distinct_days, of e userID "[]" w]
  obtain fallback w' where
    "historical_loop e now userID ?days [] w
       = ([] @ map (\<lambda>date. (date, RoundINR
                  (day_value e w (EndOfDayUTC date) (holdings_up_to w userID (EndOfDayUTC date))
                     (\<lambda>symbol. fallback symbol date))))
                 (filter (\<lambda>date. \<not> fails e (QueryHoldingsUpTo userID (EndOfDayUTC date))) ?days),
          w')"
    by blast
  with assms have "fst (GetHistoricalINR e now w userID) =
           Inr (map (\<lambda>date. (date, RoundINR
                  (day_value e w (EndOfDayUTC date) (holdings_up_to w userID (EndOfDayUTC date))
                     (\<lambda>symbol. fallback symbol date))))
                 (filter (\<lambda>date. \<not> fails e (QueryHoldingsUpTo userID (EndOfDayUTC date))) ?days))"
    by (simp add: GetHistoricalINR_def Let_def dates)
  then show ?thesis by (rule exI [of _ fallback])
qed

subsection \<open>What the queries return\<close>

text \<open>
  C8, amended. Whatever lookups fail, GetPortfolio returns an error exactly when the
  holdings lookup fails, GetStats exactly when the lookup of today's rewards or the
  holdings lookup fails, and GetHistoricalINR exactly when the lookup of the first reward
  fails. A failing price lookup is not an error; the symbol is left out:

    \<^item> GetPortfolio returns one item for each held symbol whose lookup of the latest
      price does not fail, and no other item: the symbol, the quantity held, the price
      rounded to 4 places, and price times quantity rounded to 4 places. Its total is the
      sum of price times quantity over these symbols, rounded to 4 places.

    \<^item> GetStats returns that same total as the portfolio value.

    \<^item> In both, the price of a symbol whose latest sample is at most two hours old is
      the price of that sample.

    \<^item> GetHistoricalINR returns the empty list for a user without a live reward.
      Otherwise it has one row for each day, from the day of the earliest live reward
      through the day before \<open>now\<close>, whose holdings lookup does not fail. The day's value
      is the sum, rounded to 4 places, of price times quantity over the symbols held at
      the end of the day whose price lookup does not fail: the lookup of the sample at or
      before the end of the day and, where there is no such sample, the lookup of the
      latest sample. The price of a symbol that has a sample at or before the end of the
      day is the price of the latest such sample.

  \<open>held\<close> and \<open>held_on\<close> are the sums of the quantities of the STOCK ledger entries of the
  symbol that belong to live rewards of the user (for \<open>held_on\<close>: with a timestamp at or
  before the day's last nanosecond).
\<close>

theorem read_queries_errors:
  "let held = (\<lambda>symbol.
         sum_list [le_Quantity le. le \<leftarrow> ledger_entries w, re \<leftarrow> reward_events w,
            re_ID re = le_RewardEventID le \<and> re_UserID re = userID \<and> re_DeletedAt re = None
              \<and> le_EntryType le = EntryTypeStock \<and> le_StockSymbol le = Some symbol]);
       held_on = (\<lambda>date symbol.
         sum_list [le_Quantity le. le \<leftarrow> ledger_entries w, re \<leftarrow> reward_events w,
            re_ID re = le_RewardEventID le \<and> re_UserID re = userID \<and> re_DeletedAt re = None
              \<and> re_Timestamp re \<le> date + 86399999999999
              \<and> le_EntryType le = EntryTypeStock \<and> le_StockSymbol le = Some symbol]);
       latest = (\<lambda>samples ph. ph \<in> set samples \<and>
         (\<forall>ph'\<in>set samples. ph_Timestamp ph' < ph_Timestamp ph \<or>
             ph_Timestamp ph' = ph_Timestamp ph \<and> ph_ID ph \<le> ph_ID ph'));
       samples = (\<lambda>symbol. filter (\<lambda>ph. ph_StockSymbol ph = symbol) (price_history w));
       samples_on = (\<lambda>date symbol.
         filter (\<lambda>ph. ph_StockSymbol ph = symbol \<and> ph_Timestamp ph \<le> date + 86399999999999)
           (price_history w));
       valued = {symbol. 0 < held symbol \<and> \<not> fails e (QueryLatestPrice symbol)};
       valued_on = (\<lambda>date. {symbol. 0 < held_on date symbol \<and>
         \<not> fails e (QueryPriceAt symbol (date + 86399999999999)) \<and>
         (samples_on date symbol = [] \<longrightarrow> \<not> fails e (QueryLatestPrice symbol))});
       current = (\<lambda>price. \<forall>symbol.
         (\<exists>ph. latest (samples symbol) ph \<and> now - ph_Timestamp ph \<le> 7200000000000)
           \<longrightarrow> (\<exists>ph. latest (samples symbol) ph \<and> price symbol = ph_PriceINR ph))
   in (isl (fst (GetPortfolio e now w userID)) \<longleftrightarrow> fails e (QueryHoldings userID)) \<and>
      (isl (fst (GetStats e now w userID)) \<longleftrightarrow>
         fails e (QueryTodayRewards userID) \<or> fails e (QueryHoldings userID)) \<and>
      (isl (fst (GetHistoricalINR e now w userID)) \<longleftrightarrow> fails e (QueryFirstReward userID)) \<and>
      (\<not> fails e (QueryHoldings userID) \<longrightarrow>
         (\<exists>price items.
            fst (GetPortfolio e now w userID)
              = Inr (items, Round 4 (\<Sum>symbol\<in>valued. price symbol * held symbol)) \<and>
            distinct (map fst items) \<and>
            set items = (\<lambda>symbol. (symbol, held symbol, Round 4 (price symbol),
                                     Round 4 (price symbol * held symbol))) ` valued \<and>
            current price)) \<and>
      (\<not> fails e (QueryTodayRewards userID) \<and> \<not> fails e (QueryHoldings userID) \<longrightarrow>
         (\<exists>price today.
            fst (GetStats e now w userID)
              = Inr (today, Round 4 (\<Sum>symbol\<in>valued. price symbol * held symbol)) \<and>
            current price)) \<and>
      (\<not> fails e (QueryFirstReward userID) \<longrightarrow>
         ((\<forall>r\<in>set (reward_events w). re_UserID r = userID \<longrightarrow> re_DeletedAt r \<noteq> None)
            \<longrightarrow> fst (GetHistoricalINR e now w userID) = Inr []) \<and>
         (\<forall>firstReward\<in>set (reward_events w).
            re_UserID firstReward = userID \<and> re_DeletedAt firstReward = None \<and>
            (\<forall>r\<in>set (reward_events w). re_UserID r = userID \<and> re_DeletedAt r = None
                \<longrightarrow> re_Timestamp firstReward \<le> re_Timestamp r)
            \<longrightarrow> (\<exists>price.
                  fst (GetHistoricalINR e now w userID)
                    = Inr (map (\<lambda>date. (date, Round 4
                              (\<Sum>symbol\<in>valued_on date. price symbol date * held_on date symbol)))
                            (filter (\<lambda>date. \<not> fails e (QueryHoldingsUpTo userID
                                                          (date + 86399999999999)))
                               (map (\<lambda>k. k * 86400000000000)
                                  [re_Timestamp firstReward div 86400000000000 ..
                                   now div 86400000000000 - 1]))) \<and>
                  (\<forall>date symbol. samples_on date symbol \<noteq> [] \<longrightarrow>
                     (\<exists>ph. latest (samples_on date symbol) ph \<and>
                           price symbol date = ph_PriceINR ph)))))"
proof -
  define held where "held = (\<lambda>symbol.
         sum_list [le_Quantity le. le \<leftarrow> ledger_entries w, re \<leftarrow> reward_events w,
            re_ID re = le_RewardEventID le \<and> re_UserID re = userID \<and> re_DeletedAt re = None
              \<and> le_EntryType le = EntryTypeStock \<and> le_StockSymbol le = Some symbol])"
  define held_on where "held_on = (\<lambda>date symbol.
         sum_list [le_Quantity le. le \<leftarrow> ledger_entries w, re \<leftarrow> reward_events w,
            re_ID re = le_RewardEventID le \<and> re_UserID re = userID \<and> re_DeletedAt re = None
              \<and> re_Timestamp re \<le> date + 86399999999999
              \<and> le_EntryType le = EntryTypeStock \<and> le_StockSymbol le = Some symbol])"
  define samples where
    "samples = (\<lambda>symbol. filter (\<lambda>ph. ph_StockSymbol ph = symbol) (price_history w))"
  define samples_on where "samples_on = (\<lambda>date symbol.
         filter (\<lambda>ph. ph_StockSymbol ph = symbol \<and> ph_Timestamp ph \<le> date + 86399999999999)
           (price_history w))"
  define valued where
    "valued = {symbol. 0 < held symbol \<and> \<not> fails e (QueryLatestPrice symbol)}"
  define valued_on where "valued_on = (\<lambda>date. {symbol. 0 < held_on date symbol \<and>
         \<not> fails e (QueryPriceAt symbol (date + 86399999999999)) \<and>
         (samples_on date symbol = [] \<longrightarrow> \<not> fails e (QueryLatestPrice symbol))})"
  define current where "current = (\<lambda>price. \<forall>symbol.
         (\<exists>ph. latest_among (samples symbol) ph \<and> now - ph_Timestamp ph \<le> 7200000000000)
           \<longrightarrow> (\<exists>ph. latest_among (samples symbol) ph \<and> price symbol = ph_PriceINR ph))"
  have held: "total_qty (stock_rows (\<lambda>re. re_UserID re = userID \<and> re_DeletedAt re = None)
                (reward_events w) (ledger_entries w)) symbol = held symbol" for symbol
    unfolding held_def by (rule held_now)
  have held_on: "total_qty (stock_rows (\<lambda>re. re_UserID re = userID \<and> re_DeletedAt re = None
                                  \<and> re_Timestamp re \<le> date + 86399999999999)
                (reward_events w) (ledger_entries w)) symbol = held_on date symbol" for date symbol
    unfolding held_on_def by (rule held_up_to)
  have total: "RoundINR (valued_total e price (holdings_of w userID))
      = Round 4 (\<Sum>symbol\<in>valued. price symbol * held symbol)" for price
    unfolding holdings_of_def valued_total_as_sum held RoundINR_def valued_def by (rule refl)
  have current: "current (\<lambda>symbol. current_or now w symbol (synthesized symbol))" for synthesized
    unfolding current_def samples_def using current_or_latest by blast
  have p1: "isl (fst (GetPortfolio e now w userID)) \<longleftrightarrow> fails e (QueryHoldings userID)"
    by (simp add: GetPortfolio_def GetUserStockHoldings_def split: prod.splits)
  have p2: "isl (fst (GetStats e now w userID)) \<longleftrightarrow>
      fails e (QueryTodayRewards userID) \<or> fails e (QueryHoldings userID)"
    by (simp add: GetStats_def GetTodayRewards_def GetUserStockHoldings_def Let_def
        split: prod.splits)
  have p3: "isl (fst (GetHistoricalINR e now w userID)) \<longleftrightarrow> fails e (QueryFirstReward userID)"
    by (simp add: GetHistoricalINR_def Let_def split: option.splits prod.splits)
  have p4: "\<exists>price items.
            fst (GetPortfolio e now w userID)
              = Inr (items, Round 4 (\<Sum>symbol\<in>valued. price symbol * held symbol)) \<and>
            distinct (map fst items) \<and>
            set items = (\<lambda>symbol. (symbol, held symbol, Round 4 (price symbol),
                                     Round 4 (price symbol * held symbol))) ` valued \<and>
            current price"
    if "\<not> fails e (QueryHoldings userID)"
  proof -
    from GetPortfolio_valued [OF that, of now w] obtain synthesized where
      run: "fst (GetPortfolio e now w userID) =
           Inr (valued_items e (\<lambda>symbol. current_or now w symbol (synthesized symbol))
                  (holdings_of w userID),
                RoundINR (valued_total e (\<lambda>symbol. current_or now w symbol (synthesized symbol))
                  (holdings_of w userID)))"
      by blast
    let ?price = "\<lambda>symbol. current_or now w symbol (synthesized symbol)"
    let ?items = "valued_items e ?price (holdings_of w userID)"
    have "fst (GetPortfolio e now w userID)
              = Inr (?items, Round 4 (\<Sum>symbol\<in>valued. ?price symbol * held symbol))"
      using run unfolding total .
    moreover have "distinct (map fst ?items)"
      unfolding holdings_of_def by (rule valued_items_as_set(1))
    moreover have "set ?items = (\<lambda>symbol. (symbol, held symbol, Round 4 (?price symbol),
                                     Round 4 (?price symbol * held symbol))) ` valued"
      unfolding holdings_of_def valued_items_as_set(2) held RoundINR_def valued_def
      by (rule refl)
    ultimately show ?thesis
      using current [of synthesized]
      by (intro exI [of _ ?price] exI [of _ ?items] conjI)
  qed
  have p5: "\<exists>price today.
            fst (GetStats e now w userID)
              = Inr (today, Round 4 (\<Sum>symbol\<in>valued. price symbol * held symbol)) \<and>
            current price"
    if "\<not> fails e (QueryTodayRewards userID) \<and> \<not> fails e (QueryHoldings userID)"
  proof -
    from that have a: "\<not> fails e (QueryTodayRewards userID)"
      and b: "\<not> fails e (QueryHoldings userID)"
      by simp_all
    from GetStats_valued [OF a b, of now w] obtain synthesized today where
      run: "fst (GetStats e now w userID) =
           Inr (today,
                RoundINR (valued_total e (\<lambda>symbol. current_or now w symbol (synthesized symbol))
                  (holdings_of w userID)))"
      by blast
    let ?price = "\<lambda>symbol. current_or now w symbol (synthesized symbol)"
    have "fst (GetStats e now w userID)
              = Inr (today, Round 4 (\<Sum>symbol\<in>valued. ?price symbol * held symbol))"
      using run unfolding total .
    then show ?thesis
      using current [of synthesized]
      by (intro exI [of _ ?price] exI [of _ today] conjI)
  qed
  have p6: "fst (GetHistoricalINR e now w userID) = Inr []"
    if "\<not> fails e (QueryFirstReward userID)"
      and "\<forall>r\<in>set (reward_events w). re_UserID r = userID \<longrightarrow> re_DeletedAt r \<noteq> None"
  proof -
    from that(2) have "first_reward w userID = None" by (simp only: first_reward_None_iff)
    with that(1) show ?thesis by (simp add: GetHistoricalINR_def)
  qed
  have p7: "\<exists>price.
                  fst (GetHistoricalINR e now w userID)
                    = Inr (map (\<lambda>date. (date, Round 4
                              (\<Sum>symbol\<in>valued_on date. price symbol date * held_on date symbol)))
                            (filter (\<lambda>date. \<not> fails e (QueryHoldingsUpTo userID
                                                          (date + 86399999999999)))
                               (map (\<lambda>k. k * 86400000000000)
                                  [re_Timestamp firstReward div 86400000000000 ..
                                   now div 86400000000000 - 1]))) \<and>
                  (\<forall>date symbol. samples_on date symbol \<noteq> [] \<longrightarrow>
                     (\<exists>ph. latest_among (samples_on date symbol) ph \<and>
                           price symbol date = ph_PriceINR ph))"
    if nofail: "\<not> fails e (QueryFirstReward userID)"
      and fr: "firstReward \<in> set (reward_events w)"
        "re_UserID firstReward = userID \<and> re_DeletedAt firstReward = None \<and>
            (\<forall>r\<in>set (reward_events w). re_UserID r = userID \<and> re_DeletedAt r = None
                \<longrightarrow> re_Timestamp firstReward \<le> re_Timestamp r)"
    for firstReward
  proof -
    let ?days = "map (\<lambda>k. k * 86400000000000)
                   [re_Timestamp firstReward div 86400000000000 .. now div 86400000000000 - 1]"
    from fr(2) have mine: "re_UserID firstReward = userID"
      and live: "re_DeletedAt firstReward = None"
      and least: "\<forall>r\<in>set (reward_events w). re_UserID r = userID \<and> re_DeletedAt r = None
               \<longrightarrow> re_Timestamp firstReward \<le> re_Timestamp r"
      by simp_all
    from earliest_is_first_reward [OF fr(1) mine live least]
    obtain r where r: "first_reward w userID = Some r"
      and ts: "re_Timestamp r = re_Timestamp firstReward"
      by auto
    from GetHistoricalINR_valued [OF nofail r, of now] obtain fallback where
      run: "fst (GetHistoricalINR e now w userID) =
           Inr (map (\<lambda>date. (date, RoundINR
                  (day_value e w (EndOfDayUTC date) (holdings_up_to w userID (EndOfDayUTC date))
                     (\<lambda>symbol. fallback symbol date))))
                 (filter (\<lambda>date. \<not> fails e (QueryHoldingsUpTo userID (EndOfDayUTC date))) ?days))"
      unfolding ts by blast
    let ?price = "\<lambda>symbol date. price_at_or w symbol (date + 86399999999999) (fallback symbol date)"
    have eod: "EndOfDayUTC date = date + 86399999999999" if "date \<in> set ?days" for date
      using that by (rule EndOfDayUTC_listed)
    have kept: "filter (\<lambda>date. \<not> fails e (QueryHoldingsUpTo userID (EndOfDayUTC date))) ?days
        = filter (\<lambda>date. \<not> fails e (QueryHoldingsUpTo userID (date + 86399999999999))) ?days"
      by (rule filter_cong [OF refl]) (simp only: eod)
    have members: "{symbol. 0 < held_on date symbol \<and>
           \<not> price_skipped e w symbol (date + 86399999999999)} = valued_on date" for date
      unfolding valued_on_def samples_on_def by simp
    have row: "RoundINR (day_value e w (EndOfDayUTC date)
                 (holdings_up_to w userID (EndOfDayUTC date)) (\<lambda>symbol. fallback symbol date))
        = Round 4 (\<Sum>symbol\<in>valued_on date. ?price symbol date * held_on date symbol)"
      if "date \<in> set ?days" for date
      unfolding eod [OF that] holdings_up_to_def day_value_as_sum held_on RoundINR_def members
      by (rule refl)
    have rows: "map (\<lambda>date. (date, RoundINR
                  (day_value e w (EndOfDayUTC date) (holdings_up_to w userID (EndOfDayUTC date))
                     (\<lambda>symbol. fallback symbol date))))
                 (filter (\<lambda>date. \<not> fails e (QueryHoldingsUpTo userID (date + 86399999999999))) ?days)
        = map (\<lambda>date. (date, Round 4
                  (\<Sum>symbol\<in>valued_on date. ?price symbol date * held_on date symbol)))
                 (filter (\<lambda>date. \<not> fails e (QueryHoldingsUpTo userID (date + 86399999999999))) ?days)"
      by (rule map_cong [OF refl]) (simp add: row)
    have "fst (GetHistoricalINR e now w userID)
        = Inr (map (\<lambda>date. (date, Round 4
                  (\<Sum>symbol\<in>valued_on date. ?price symbol date * held_on date symbol)))
                 (filter (\<lambda>date. \<not> fails e (QueryHoldingsUpTo userID (date + 86399999999999))) ?days))"
      using run unfolding kept rows .
    moreover have "\<forall>date symbol. samples_on date symbol \<noteq> [] \<longrightarrow>
                     (\<exists>ph. latest_among (samples_on date symbol) ph \<and>
                           ?price symbol date = ph_PriceINR ph)"
      unfolding samples_on_def using price_at_or_latest by blast
    ultimately show ?thesis
      by (intro exI [of _ ?price] conjI)
  qed
  from p1 p2 p3 p4 p5 p6 p7 have
    "(isl (fst (GetPortfolio e now w userID)) \<longleftrightarrow> fails e (QueryHoldings userID)) \<and>
      (isl (fst (GetStats e now w userID)) \<longleftrightarrow>
         fails e (QueryTodayRewards userID) \<or> fails e (QueryHoldings userID)) \<and>
      (isl (fst (GetHistoricalINR e now w userID)) \<longleftrightarrow> fails e (QueryFirstReward userID)) \<and>
      (\<not> fails e (QueryHoldings userID) \<longrightarrow>
         (\<exists>price items.
            fst (GetPortfolio e now w userID)
              = Inr (items, Round 4 (\<Sum>symbol\<in>valued. price symbol * held symbol)) \<and>
            distinct (map fst items) \<and>
            set items = (\<lambda>symbol. (symbol, held symbol, Round 4 (price symbol),
                                     Round 4 (price symbol * held symbol))) ` valued \<and>
            current price)) \<and>
      (\<not> fails e (QueryTodayRewards userID) \<and> \<not> fails e (QueryHoldings userID) \<longrightarrow>
         (\<exists>price today.
            fst (GetStats e now w userID)
              = Inr (today, Round 4 (\<Sum>symbol\<in>valued. price symbol * held symbol)) \<and>
            current price)) \<and>
      (\<not> fails e (QueryFirstReward userID) \<longrightarrow>
         ((\<forall>r\<in>set (reward_events w). re_UserID r = userID \<longrightarrow> re_DeletedAt r \<noteq> None)
            \<longrightarrow> fst (GetHistoricalINR e now w userID) = Inr []) \<and>
         (\<forall>firstReward\<in>set (reward_events w).
            re_UserID firstReward = userID \<and> re_DeletedAt firstReward = None \<and>
            (\<forall>r\<in>set (reward_events w). re_UserID r = userID \<and> re_DeletedAt r = None
                \<longrightarrow> re_Timestamp firstReward \<le> re_Timestamp r)
            \<longrightarrow> (\<exists>price.
                  fst (GetHistoricalINR e now w userID)
                    = Inr (map (\<lambda>date. (date, Round 4
                              (\<Sum>symbol\<in>valued_on date. price symbol date * held_on date symbol)))
                            (filter (\<lambda>date. \<not> fails e (QueryHoldingsUpTo userID
                                                          (date + 86399999999999)))
                               (map (\<lambda>k. k * 86400000000000)
                                  [re_Timestamp firstReward div 86400000000000 ..
                                   now div 86400000000000 - 1]))) \<and>
                  (\<forall>date symbol. samples_on date symbol \<noteq> [] \<longrightarrow>
                     (\<exists>ph. latest_among (samples_on date symbol) ph \<and>
                           price symbol date = ph_PriceINR ph)))))"
    by blast
  then show ?thesis
    unfolding Let_def held_def held_on_def samples_def samples_on_def valued_def valued_on_def
      current_def .
qed

lemma latest_price_among:
  assumes "latest_price w symbol = Some r"
  shows "latest_among (filter (\<lambda>ph. ph_StockSymbol ph = symbol) (price_history w)) r"
  using first_by_mem [OF assms [unfolded latest_price_def]]
    first_by_price_first [OF assms [unfolded latest_price_def]]
  by blast

lemma latest_price_at_among:
  assumes "latest_price_at w symbol t = Some r"
  shows "latest_among (filter (\<lambda>ph. ph_StockSymbol ph = symbol \<and> ph_Timestamp ph \<le> t)
                         (price_history w)) r"
  using first_by_mem [OF assms [unfolded latest_price_at_def]]
    first_by_price_first [OF assms [unfolded latest_price_at_def]]
  by blast

lemma latest_price_at_samples:
  assumes "latest_price_at w symbol t = Some r"
  shows "filter (\<lambda>ph. ph_StockSymbol ph = symbol \<and> ph_Timestamp ph \<le> t) (price_history w) \<noteq> []"
  using assms first_by_None_iff [of price_before
      "filter (\<lambda>ph. ph_StockSymbol ph = symbol \<and> ph_Timestamp ph \<le> t) (price_history w)"]
  by (simp add: latest_price_at_def)

lemma current_price_unique:
  assumes "distinct (map ph_ID (price_history w))" and "latest_price w symbol = Some r"
    and "\<exists>ph. latest_among (filter (\<lambda>ph. ph_StockSymbol ph = symbol) (price_history w)) ph \<and>
           p = ph_PriceINR ph"
  shows "p = ph_PriceINR r"
proof -
  let ?all = "filter (\<lambda>ph. ph_StockSymbol ph = symbol) (price_history w)"
  from assms(3) obtain ph where a: "latest_among ?all ph" and p: "p = ph_PriceINR ph" by blast
  have "set ?all \<subseteq> set (price_history w)" by auto
  from latest_among_unique [OF assms(1) this a latest_price_among [OF assms(2)]] p
  show ?thesis by simp
qed

lemma price_at_unique:
  assumes "distinct (map ph_ID (price_history w))" and "latest_price_at w symbol t = Some r"
    and "\<exists>ph. latest_among (filter (\<lambda>ph. ph_StockSymbol ph = symbol \<and> ph_Timestamp ph \<le> t)
                              (price_history w)) ph \<and>
           p = ph_PriceINR ph"
  shows "p = ph_PriceINR r"
proof -
  let ?upto = "filter (\<lambda>ph. ph_StockSymbol ph = symbol \<and> ph_Timestamp ph \<le> t) (price_history w)"
  from assms(3) obtain ph where a: "latest_among ?upto ph" and p: "p = ph_PriceINR ph" by blast
  have "set ?upto \<subseteq> set (price_history w)" by auto
  from latest_among_unique [OF assms(1) this a latest_price_at_among [OF assms(2)]] p
  show ?thesis by simp
qed

lemma only_item:
  assumes "distinct (map f xs)" and "set xs = {x}"
  shows "xs = [x]"
proof (cases xs)
  case Nil
  with assms(2) show ?thesis by simp
next
  case (Cons y ys)
  with assms(2) have y: "y = x" by auto
  have "ys = []"
  proof (rule ccontr)
    assume "ys \<noteq> []"
    then obtain z where z: "z \<in> set ys" by (cases ys) auto
    with Cons assms(2) have "z = x" by auto
    with z y Cons assms(1) show False by auto
  qed
  with y Cons show ?thesis by simp
qed

text \<open>
  An environment in which every lookup of a TCS price fails, and one in which every
  statement fails.
\<close>

definition tcs_lookups_down :: env where
  "tcs_lookups_down =
     \<lparr>fails = (\<lambda>op. case op of
                  QueryLatestPrice symbol \<Rightarrow> symbol = ''TCS''
                | QueryPriceAt symbol t \<Rightarrow> symbol = ''TCS''
                | _ \<Rightarrow> False),
      variation = (\<lambda>n. 0)\<rparr>"

definition store_down :: env where
  "store_down = \<lparr>fails = (\<lambda>op. True), variation = (\<lambda>n. 0)\<rparr>"

lemma tcs_lookups_down_fails [simp]:
  "fails tcs_lookups_down (QueryLatestPrice symbol) \<longleftrightarrow> symbol = ''TCS''"
  "fails tcs_lookups_down (QueryPriceAt symbol t) \<longleftrightarrow> symbol = ''TCS''"
  "\<not> fails tcs_lookups_down (QueryHoldings userID)"
  "\<not> fails tcs_lookups_down (QueryHoldingsUpTo userID t)"
  "\<not> fails tcs_lookups_down (QueryFirstReward userID)"
  "\<not> fails tcs_lookups_down (QueryTodayRewards userID)"
  by (simp_all add: tcs_lookups_down_def)

lemma store_down_fails [simp]: "fails store_down op"
  by (simp add: store_down_def)

lemma held_mixed_now:
  "sum_list [le_Quantity le. le \<leftarrow> ledger_entries mixed_ledger, re \<leftarrow> reward_events mixed_ledger,
      re_ID re = le_RewardEventID le \<and> re_UserID re = 1 \<and> re_DeletedAt re = None
        \<and> le_EntryType le = EntryTypeStock \<and> le_StockSymbol le = Some symbol]
   = (if symbol = ''RELIANCE'' then 5 / 2 else 0) + (if symbol = ''TCS'' then 1 else 0)"
  by (simp add: mixed_ledger_def)

lemma mixed_latest:
  "latest_price mixed_ledger ''RELIANCE''
     = Some \<lparr>ph_ID = 3, ph_StockSymbol = ''RELIANCE'', ph_PriceINR = 25000001 / 10000,
          ph_Timestamp = 172800000002000, ph_CreatedAt = 172800000002000\<rparr>"
  "latest_price_at mixed_ledger ''RELIANCE'' (86400000000000 + 86399999999999)
     = Some \<lparr>ph_ID = 1, ph_StockSymbol = ''RELIANCE'', ph_PriceINR = 24505001 / 10000,
          ph_Timestamp = 86400000001000, ph_CreatedAt = 86400000001000\<rparr>"
  "latest_price_at mixed_ledger ''RELIANCE'' (172800000000000 + 86399999999999)
     = Some \<lparr>ph_ID = 3, ph_StockSymbol = ''RELIANCE'', ph_PriceINR = 25000001 / 10000,
          ph_Timestamp = 172800000002000, ph_CreatedAt = 172800000002000\<rparr>"
  by (simp_all add: latest_price_def latest_price_at_def price_before_def)

text \<open>
  On the state with two users and two stocks, every lookup of a TCS price fails. Late on
  day 2, GetPortfolio for user 1 (who holds 2.5 RELIANCE and 1 TCS) returns the RELIANCE
  item alone, at the fresh sample 2500.0001, with value and total 6250.0003, and GetStats
  the same total. Early on day 3, GetHistoricalINR returns 6126.2503 for day 1 and, TCS
  left out, 6250.0003 for day 2. When every statement fails, the three queries return
  an error.
\<close>

theorem read_queries_errors_witness:
  "fst (GetPortfolio tcs_lookups_down 172800000003000 mixed_ledger 1)
     = Inr ([(''RELIANCE'', 5 / 2, 25000001 / 10000, 62500003 / 10000)], 62500003 / 10000) \<and>
   (\<exists>today. fst (GetStats tcs_lookups_down 172800000003000 mixed_ledger 1)
     = Inr (today, 62500003 / 10000)) \<and>
   fst (GetHistoricalINR tcs_lookups_down 259200000000005 mixed_ledger 1)
     = Inr [(86400000000000, 61262503 / 10000), (172800000000000, 62500003 / 10000)] \<and>
   isl (fst (GetPortfolio store_down 172800000003000 mixed_ledger 1)) \<and>
   isl (fst (GetStats store_down 172800000003000 mixed_ledger 1)) \<and>
   isl (fst (GetHistoricalINR store_down 172800000003000 mixed_ledger 1))"
proof -
  let ?r2 = "\<lparr>re_ID = 2, re_UserID = 1, re_StockSymbol = ''RELIANCE'', re_Quantity = 5 / 2,
          re_Timestamp = 86400000001500, re_CreatedAt = 86400000001500,
          re_UpdatedAt = 86400000001500, re_DeletedAt = None\<rparr>"
  let ?p1 = "\<lparr>ph_ID = 1, ph_StockSymbol = ''RELIANCE'', ph_PriceINR = 24505001 / 10000,
          ph_Timestamp = 86400000001000, ph_CreatedAt = 86400000001000\<rparr>"
  let ?p3 = "\<lparr>ph_ID = 3, ph_StockSymbol = ''RELIANCE'', ph_PriceINR = 25000001 / 10000,
          ph_Timestamp = 172800000002000, ph_CreatedAt = 172800000002000\<rparr>"
  let ?held = "\<lambda>symbol. (if symbol = ''RELIANCE'' then 5 / 2 else 0)
      + (if symbol = ''TCS'' then 1 else (0::rat))"
  let ?held_on = "\<lambda>(date::int) symbol.
      (if symbol = ''RELIANCE'' \<and> 86400000001500 \<le> date + 86399999999999 then 5 / 2 else 0)
      + (if symbol = ''TCS'' \<and> 172800000001500 \<le> date + 86399999999999 then 1 else (0::rat))"
  let ?now = "172800000003000 :: int"
  let ?later = "259200000000005 :: int"
  let ?d1 = "86400000000000 :: int"
  let ?d2 = "172800000000000 :: int"
  note today = read_queries_errors [where e = tcs_lookups_down and w = mixed_ledger
      and userID = 1 and now = ?now, unfolded Let_def held_mixed held_mixed_now]
  note history = read_queries_errors [where e = tcs_lookups_down and w = mixed_ledger
      and userID = 1 and now = ?later, unfolded Let_def held_mixed held_mixed_now]
  note down = read_queries_errors [where e = store_down and w = mixed_ledger
      and userID = 1 and now = ?now, unfolded Let_def]

  have valued: "{symbol. 0 < ?held symbol \<and> \<not> fails tcs_lookups_down (QueryLatestPrice symbol)}
      = {''RELIANCE''}"
    by (auto split: if_splits)
  have latest: "\<exists>ph. latest_among (filter (\<lambda>ph. ph_StockSymbol ph = ''RELIANCE'')
                                    (price_history mixed_ledger)) ph \<and>
                     ?now - ph_Timestamp ph \<le> 7200000000000"
    by (rule exI [of _ ?p3], rule conjI, rule latest_price_among [OF mixed_latest(1)]) simp

  from today [THEN conjunct2, THEN conjunct2, THEN conjunct2, THEN conjunct1, THEN mp,
      OF tcs_lookups_down_fails(3), unfolded valued]
  obtain price where "\<exists>items.
      fst (GetPortfolio tcs_lookups_down ?now mixed_ledger 1)
        = Inr (items, Round 4 (\<Sum>symbol\<in>{''RELIANCE''}. price symbol * ?held symbol)) \<and>
      distinct (map fst items) \<and>
      set items = (\<lambda>symbol. (symbol, ?held symbol, Round 4 (price symbol),
                               Round 4 (price symbol * ?held symbol))) ` {''RELIANCE''} \<and>
      (\<forall>symbol.
         (\<exists>ph. latest_among (filter (\<lambda>ph. ph_StockSymbol ph = symbol)
                               (price_history mixed_ledger)) ph \<and>
               ?now - ph_Timestamp ph \<le> 7200000000000)
         \<longrightarrow> (\<exists>ph. latest_among (filter (\<lambda>ph. ph_StockSymbol ph = symbol)
                                    (price_history mixed_ledger)) ph \<and>
                     price symbol = ph_PriceINR ph))"
    ..
  then obtain items where portfolio:
     "fst (GetPortfolio tcs_lookups_down ?now mixed_ledger 1)
        = Inr (items, Round 4 (\<Sum>symbol\<in>{''RELIANCE''}. price symbol * ?held symbol)) \<and>
      distinct (map fst items) \<and>
      set items = (\<lambda>symbol. (symbol, ?held symbol, Round 4 (price symbol),
                               Round 4 (price symbol * ?held symbol))) ` {''RELIANCE''} \<and>
      (\<forall>symbol.
         (\<exists>ph. latest_among (filter (\<lambda>ph. ph_StockSymbol ph = symbol)
                               (price_history mixed_ledger)) ph \<and>
               ?now - ph_Timestamp ph \<le> 7200000000000)
         \<longrightarrow> (\<exists>ph. latest_among (filter (\<lambda>ph. ph_StockSymbol ph = symbol)
                                    (price_history mixed_ledger)) ph \<and>
                     price symbol = ph_PriceINR ph))"
    ..
  have price: "price ''RELIANCE'' = 25000001 / 10000"
    using current_price_unique [OF mixed_keys mixed_latest(1)
        portfolio [THEN conjunct2, THEN conjunct2, THEN conjunct2, THEN spec, THEN mp, OF latest]]
    by simp
  have "set items = {(''RELIANCE'', 5 / 2, 25000001 / 10000, 62500003 / 10000)}"
    using portfolio [THEN conjunct2, THEN conjunct2, THEN conjunct1]
    by (simp add: price Round_def)
  with portfolio [THEN conjunct2, THEN conjunct1]
  have "items = [(''RELIANCE'', 5 / 2, 25000001 / 10000, 62500003 / 10000)]"
    by (rule only_item)
  with portfolio [THEN conjunct1]
  have c1: "fst (GetPortfolio tcs_lookups_down ?now mixed_ledger 1)
     = Inr ([(''RELIANCE'', 5 / 2, 25000001 / 10000, 62500003 / 10000)], 62500003 / 10000)"
    by (simp add: price Round_def)

  from today [THEN conjunct2, THEN conjunct2, THEN conjunct2, THEN conjunct2, THEN conjunct1,
      THEN mp, OF conjI, OF tcs_lookups_down_fails(6) tcs_lookups_down_fails(3), unfolded valued]
  obtain worth where "\<exists>today.
      fst (GetStats tcs_lookups_down ?now mixed_ledger 1)
        = Inr (today, Round 4 (\<Sum>symbol\<in>{''RELIANCE''}. worth symbol * ?held symbol)) \<and>
      (\<forall>symbol.
         (\<exists>ph. latest_among (filter (\<lambda>ph. ph_StockSymbol ph = symbol)
                               (price_history mixed_ledger)) ph \<and>
               ?now - ph_Timestamp ph \<le> 7200000000000)
         \<longrightarrow> (\<exists>ph. latest_among (filter (\<lambda>ph. ph_StockSymbol ph = symbol)
                                    (price_history mixed_ledger)) ph \<and>
                     worth symbol = ph_PriceINR ph))"
    ..
  then obtain granted where stats:
     "fst (GetStats tcs_lookups_down ?now mixed_ledger 1)
        = Inr (granted, Round 4 (\<Sum>symbol\<in>{''RELIANCE''}. worth symbol * ?held symbol)) \<and>
      (\<forall>symbol.
         (\<exists>ph. latest_among (filter (\<lambda>ph. ph_StockSymbol ph = symbol)
                               (price_history mixed_ledger)) ph \<and>
               ?now - ph_Timestamp ph \<le> 7200000000000)
         \<longrightarrow> (\<exists>ph. latest_among (filter (\<lambda>ph. ph_StockSymbol ph = symbol)
                                    (price_history mixed_ledger)) ph \<and>
                     worth symbol = ph_PriceINR ph))"
    ..
  have "worth ''RELIANCE'' = 25000001 / 10000"
    using current_price_unique [OF mixed_keys mixed_latest(1)
        stats [THEN conjunct2, THEN spec, THEN mp, OF latest]]
    by simp
  with stats [THEN conjunct1]
  have "fst (GetStats tcs_lookups_down ?now mixed_ledger 1) = Inr (granted, 62500003 / 10000)"
    by (simp add: Round_def)
  then have c2: "\<exists>today. fst (GetStats tcs_lookups_down ?now mixed_ledger 1)
     = Inr (today, 62500003 / 10000)"
    by (rule exI [of _ granted])

  have r2: "?r2 \<in> set (reward_events mixed_ledger)" by simp
  have first: "re_UserID ?r2 = 1 \<and> re_DeletedAt ?r2 = None \<and>
      (\<forall>r\<in>set (reward_events mixed_ledger). re_UserID r = 1 \<and> re_DeletedAt r = None
          \<longrightarrow> re_Timestamp ?r2 \<le> re_Timestamp r)"
    by simp
  have kept: "filter (\<lambda>date. \<not> fails tcs_lookups_down (QueryHoldingsUpTo 1 (date + 86399999999999)))
      [?d1, ?d2] = [?d1, ?d2]"
    by simp
  have valued1: "{symbol. 0 < ?held_on ?d1 symbol \<and>
         \<not> fails tcs_lookups_down (QueryPriceAt symbol (?d1 + 86399999999999)) \<and>
         (filter (\<lambda>ph. ph_StockSymbol ph = symbol \<and> ph_Timestamp ph \<le> ?d1 + 86399999999999)
            (price_history mixed_ledger) = [] \<longrightarrow>
          \<not> fails tcs_lookups_down (QueryLatestPrice symbol))} = {''RELIANCE''}"
    by (auto split: if_splits)
  have valued2: "{symbol. 0 < ?held_on ?d2 symbol \<and>
         \<not> fails tcs_lookups_down (QueryPriceAt symbol (?d2 + 86399999999999)) \<and>
         (filter (\<lambda>ph. ph_StockSymbol ph = symbol \<and> ph_Timestamp ph \<le> ?d2 + 86399999999999)
            (price_history mixed_ledger) = [] \<longrightarrow>
          \<not> fails tcs_lookups_down (QueryLatestPrice symbol))} = {''RELIANCE''}"
    by (auto split: if_splits)
  from history [THEN conjunct2, THEN conjunct2, THEN conjunct2, THEN conjunct2, THEN conjunct2,
      THEN mp, OF tcs_lookups_down_fails(5), THEN conjunct2, THEN bspec, OF r2, THEN mp, OF first,
      unfolded mixed_days kept list.map valued1 valued2]
  obtain quoted where rows:
     "fst (GetHistoricalINR tcs_lookups_down ?later mixed_ledger 1)
        = Inr [(?d1, Round 4 (\<Sum>symbol\<in>{''RELIANCE''}. quoted symbol ?d1 * ?held_on ?d1 symbol)),
               (?d2, Round 4 (\<Sum>symbol\<in>{''RELIANCE''}. quoted symbol ?d2 * ?held_on ?d2 symbol))] \<and>
      (\<forall>date symbol.
         filter (\<lambda>ph. ph_StockSymbol ph = symbol \<and> ph_Timestamp ph \<le> date + 86399999999999)
           (price_history mixed_ledger) \<noteq> [] \<longrightarrow>
         (\<exists>ph. latest_among (filter (\<lambda>ph. ph_StockSymbol ph = symbol
                                   \<and> ph_Timestamp ph \<le> date + 86399999999999)
                               (price_history mixed_ledger)) ph \<and>
               quoted symbol date = ph_PriceINR ph))"
    ..
  note pin = rows [THEN conjunct2, THEN spec, THEN spec, THEN mp]
  have q1: "quoted ''RELIANCE'' ?d1 = 24505001 / 10000"
    using price_at_unique [OF mixed_keys mixed_latest(2)
        pin [OF latest_price_at_samples [OF mixed_latest(2)]]]
    by simp
  have q2: "quoted ''RELIANCE'' ?d2 = 25000001 / 10000"
    using price_at_unique [OF mixed_keys mixed_latest(3)
        pin [OF latest_price_at_samples [OF mixed_latest(3)]]]
    by simp
  from rows [THEN conjunct1]
  have c3: "fst (GetHistoricalINR tcs_lookups_down ?later mixed_ledger 1)
     = Inr [(?d1, 61262503 / 10000), (?d2, 62500003 / 10000)]"
    by (simp add: q1 q2 Round_def)

  have c4: "isl (fst (GetPortfolio store_down ?now mixed_ledger 1))"
    using down [THEN conjunct1] by simp
  have c5: "isl (fst (GetStats store_down ?now mixed_ledger 1))"
    using down [THEN conjunct2, THEN conjunct1] by simp
  have c6: "isl (fst (GetHistoricalINR store_down ?now mixed_ledger 1))"
    using down [THEN conjunct2, THEN conjunct2, THEN conjunct1] by simp
  from c1 c2 c3 c4 c5 c6 show ?thesis by (intro conjI)
qed

end
